theory Spec2Isabelle
  imports Main
begin

section \<open>Errors\<close>

text \<open>
  \<^verbatim>\<open>ereport(ERROR, ...)\<close> aborts the whole compilation; every transform function
  of \<^verbatim>\<open>cypher_clause.c\<close> is therefore modelled with a result of type
  \<open>error + 'a\<close>, \<open>Inl\<close> being the raised error.  An error carries its SQLSTATE
  code and its message (source positions and hints are not modelled).
  \<open>Crash\<close> stands for what the C program does with a NULL pointer or a
  wrongly cast node: it is no \<^verbatim>\<open>ereport\<close>, the process is simply gone.
\<close>

datatype sqlerrcode =
    ERRCODE_FEATURE_NOT_SUPPORTED
  | ERRCODE_INVALID_COLUMN_REFERENCE
  | ERRCODE_INVALID_PARAMETER_VALUE
  | ERRCODE_INTERNAL_ERROR

datatype error = Ereport sqlerrcode string | Crash

definition ebind :: "error + 'a \<Rightarrow> ('a \<Rightarrow> error + 'b) \<Rightarrow> error + 'b" where
  "ebind m f = (case m of Inl e \<Rightarrow> Inl e | Inr x \<Rightarrow> f x)"

section \<open>Parse nodes and expressions\<close>

text \<open>
  One datatype for the PostgreSQL node trees the file builds and inspects.
  A function is named by its (qualified) name: \<open>FuncCall\<close> is the raw parse
  node, \<open>FuncExpr\<close> the analysed call whose function the C code looks up by
  name with \<^verbatim>\<open>get_ag_func_oid\<close>.  \<open>T_String\<close> is a \<^verbatim>\<open>Value\<close> of type
  string (its \<^verbatim>\<open>char *\<close> may be NULL), \<open>A_Star\<close> the other kind of field a
  \<open>ColumnRef\<close> can hold.  \<open>Cypher_map\<close> and \<open>Cypher_param\<close> are the two
  shapes of a property expression; \<open>Cypher_other\<close> is any further expression of
  the surface language, opaque here.  \<open>InternalConst\<close> is a constant of type
  \<^verbatim>\<open>internal\<close> whose bytes are the text \<^verbatim>\<open>outNode\<close> wrote.
\<close>

datatype A_Expr_Kind = AEXPR_OP | AEXPR_IN

datatype BoolExprType = AND_EXPR | OR_EXPR

datatype node =
    Var nat int nat
  | NullConst
  | OidConst nat
  | A_Const int
  | T_String "string option"
  | T_Integer int
  | A_Star
  | ColumnRef "node list"
  | A_Indirection node "node list"
  | FuncCall "string list" "node list"
  | FuncExpr string "node list"
  | A_Expr A_Expr_Kind string node node
  | BoolExpr BoolExprType "node list"
  | NodeList "node list"
  | Cypher_map "node list"
  | Cypher_param string
  | Cypher_other nat
  | InternalConst string

fun is_Var :: "node \<Rightarrow> bool" where
  "is_Var (Var rt att lev) = True"
| "is_Var n = False"

datatype cypher_rel_dir = CYPHER_REL_DIR_LEFT | CYPHER_REL_DIR_NONE | CYPHER_REL_DIR_RIGHT

text \<open>
  \<^verbatim>\<open>cypher_node\<close> and \<^verbatim>\<open>cypher_relationship\<close> begin with the same members
  (name, label, props); the relationship adds the variable-length marker and
  the direction.  A NULL \<^verbatim>\<open>char *\<close> or \<^verbatim>\<open>Node *\<close> is \<open>None\<close>.
\<close>

record cypher_node =
  name :: "string option"
  label :: "string option"
  props :: "node option"

record cypher_relationship = cypher_node +
  varlen :: "node option"
  dir :: cypher_rel_dir

datatype path_element = Path_node cypher_node | Path_rel cypher_relationship

record cypher_path =
  path :: "path_element list"
  var_name :: "string option"

section \<open>Transform entities\<close>

datatype transform_entity_type = ENT_VERTEX | ENT_EDGE

datatype transform_entity_join_side = JOIN_SIDE_LEFT | JOIN_SIDE_RIGHT

text \<open>
  The C struct holds a type tag and a union of two pointers;
  \<^verbatim>\<open>make_transform_entity\<close>, the only place that builds one, sets the union
  member that the tag names.  The union is the datatype \<open>entity_union\<close> and
  the tag is read off it.
\<close>

datatype entity_union = Entity_node cypher_node | Entity_rel cypher_relationship

record transform_entity =
  entity :: entity_union
  in_join_tree :: bool
  expr :: "node option"
  declared_in_current_clause :: bool

fun union_type :: "entity_union \<Rightarrow> transform_entity_type" where
  "union_type (Entity_node n) = ENT_VERTEX"
| "union_type (Entity_rel r) = ENT_EDGE"

definition type :: "transform_entity \<Rightarrow> transform_entity_type" where
  "type e = union_type (entity e)"

text \<open>
  \<^verbatim>\<open>entity->entity.node->name\<close> and \<^verbatim>\<open>entity->entity.rel->name\<close>: the code
  reads the name through either member of the union, whatever the tag; both
  structs keep it in the same place.
\<close>

fun union_name :: "entity_union \<Rightarrow> string option" where
  "union_name (Entity_node n) = name n"
| "union_name (Entity_rel r) = name r"

section \<open>Constants of the headers\<close>

text \<open>
  The string macros and the two label tests come from headers that are not
  part of the translated file; they are parameters of every function that
  uses them.  \<open>age_consts\<close> below gives one instance, used where a
  function is evaluated on a concrete input.
\<close>

record ag_consts =
  AG_DEFAULT_LABEL_VERTEX :: string
  AG_DEFAULT_LABEL_EDGE :: string
  IS_DEFAULT_LABEL_VERTEX :: "string \<Rightarrow> bool"
  IS_DEFAULT_LABEL_EDGE :: "string \<Rightarrow> bool"
  AG_VERTEX_COLNAME_ID :: string
  AG_VERTEX_COLNAME_PROPERTIES :: string
  AG_EDGE_COLNAME_ID :: string
  AG_EDGE_COLNAME_START_ID :: string
  AG_EDGE_COLNAME_END_ID :: string
  AG_EDGE_COLNAME_PROPERTIES :: string
  AG_VERTEX_ACCESS_FUNCTION_ID :: string
  AG_VERTEX_ACCESS_FUNCTION_PROPERTIES :: string
  AG_EDGE_ACCESS_FUNCTION_ID :: string
  AG_EDGE_ACCESS_FUNCTION_START_ID :: string
  AG_EDGE_ACCESS_FUNCTION_END_ID :: string
  AGE_DEFAULT_ALIAS_PREFIX :: string
  AGE_DEFAULT_VARNAME_PREFIX :: string
  UPDATE_CLAUSE_SET :: string
  UPDATE_CLAUSE_REMOVE :: string
  DELETE_CLAUSE_FUNCTION_NAME :: string
  CREATE_CLAUSE_FUNCTION_NAME :: string

definition age_consts :: ag_consts where
  "age_consts = \<lparr>
     AG_DEFAULT_LABEL_VERTEX = ''_ag_label_vertex'',
     AG_DEFAULT_LABEL_EDGE = ''_ag_label_edge'',
     IS_DEFAULT_LABEL_VERTEX = (\<lambda>x. x = ''_ag_label_vertex''),
     IS_DEFAULT_LABEL_EDGE = (\<lambda>x. x = ''_ag_label_edge''),
     AG_VERTEX_COLNAME_ID = ''id'',
     AG_VERTEX_COLNAME_PROPERTIES = ''properties'',
     AG_EDGE_COLNAME_ID = ''id'',
     AG_EDGE_COLNAME_START_ID = ''start_id'',
     AG_EDGE_COLNAME_END_ID = ''end_id'',
     AG_EDGE_COLNAME_PROPERTIES = ''properties'',
     AG_VERTEX_ACCESS_FUNCTION_ID = ''age_id'',
     AG_VERTEX_ACCESS_FUNCTION_PROPERTIES = ''age_properties'',
     AG_EDGE_ACCESS_FUNCTION_ID = ''age_id'',
     AG_EDGE_ACCESS_FUNCTION_START_ID = ''age_start_id'',
     AG_EDGE_ACCESS_FUNCTION_END_ID = ''age_end_id'',
     AGE_DEFAULT_ALIAS_PREFIX = ''_age_default_alias_'',
     AGE_DEFAULT_VARNAME_PREFIX = ''_age_default_varname_'',
     UPDATE_CLAUSE_SET = ''SET'',
     UPDATE_CLAUSE_REMOVE = ''REMOVE'',
     DELETE_CLAUSE_FUNCTION_NAME = ''_cypher_delete_clause'',
     CREATE_CLAUSE_FUNCTION_NAME = ''_cypher_create_clause'' \<rparr>"

section \<open>Target lists, range table and parse state\<close>

record TargetEntry =
  expr :: node
  resno :: int
  resname :: string
  resjunk :: bool

definition makeTargetEntry :: "node \<Rightarrow> int \<Rightarrow> string \<Rightarrow> bool \<Rightarrow> TargetEntry" where
  "makeTargetEntry e n nm junk = \<lparr> expr = e, resno = n, resname = nm, resjunk = junk \<rparr>"

datatype RTEKind = RTE_RELATION | RTE_SUBQUERY

text \<open>
  A range table entry: for a relation its schema and relation name, for a
  subquery the target list of the query it wraps; in both cases the alias and
  the column names of \<^verbatim>\<open>eref\<close>.
\<close>

record RangeTblEntry =
  rtekind :: RTEKind
  schemaname :: string
  relname :: string
  aliasname :: "string option"
  colnames :: "string list"
  subquery_targetList :: "TargetEntry list"
  lateral :: bool
  inFromCl :: bool
  insert_perm :: bool

record ParseNamespaceItem =
  p_rte :: nat
  p_rel_visible :: bool
  p_cols_visible :: bool
  p_lateral_only :: bool
  p_lateral_ok :: bool

datatype ParseExprKind =
    EXPR_KIND_NONE
  | EXPR_KIND_WHERE
  | EXPR_KIND_FROM_SUBSELECT
  | EXPR_KIND_SELECT_TARGET
  | EXPR_KIND_ORDER_BY
  | EXPR_KIND_GROUP_BY
  | EXPR_KIND_OFFSET
  | EXPR_KIND_LIMIT
  | EXPR_KIND_INSERT_TARGET

datatype label_kind = LABEL_KIND_VERTEX | LABEL_KIND_EDGE

record label_cache_data =
  label_id :: int
  kind :: label_kind
  relation :: nat

text \<open>
  \<^verbatim>\<open>cypher_parsestate\<close> with the members of the embedded \<^verbatim>\<open>ParseState\<close> that
  the file reads or writes.  The last field is not a member of the C struct:
  it is the label catalog of the graph (\<^verbatim>\<open>search_label_name_graph_cache\<close>,
  \<^verbatim>\<open>label_exists\<close>, \<^verbatim>\<open>create_label\<close>), which the C program reaches through
  global state; it travels with the parse state here.
\<close>

record cypher_parsestate =
  p_rtable :: "RangeTblEntry list"
  p_joinlist :: "nat list"
  p_namespace :: "ParseNamespaceItem list"
  p_next_resno :: int
  p_expr_kind :: ParseExprKind
  p_lateral_active :: bool
  graph_name :: string
  graph_oid :: nat
  default_alias_num :: int
  entities :: "transform_entity list"
  property_constraint_quals :: "node list"
  label_cache :: "string \<Rightarrow> label_cache_data option"

definition search_label_name_graph_cache ::
    "cypher_parsestate \<Rightarrow> string \<Rightarrow> label_cache_data option" where
  "search_label_name_graph_cache cpstate l = label_cache cpstate l"

section \<open>Join conditions of a MATCH path\<close>

fun get_accessor_function_name ::
    "ag_consts \<Rightarrow> transform_entity_type \<Rightarrow> string \<Rightarrow> error + string" where
  "get_accessor_function_name c t nm =
    (if t = ENT_VERTEX \<and> nm = AG_VERTEX_COLNAME_ID c then
       Inr (AG_VERTEX_ACCESS_FUNCTION_ID c)
     else if t = ENT_VERTEX \<and> nm = AG_VERTEX_COLNAME_PROPERTIES c then
       Inr (AG_VERTEX_ACCESS_FUNCTION_PROPERTIES c)
     else if t = ENT_EDGE \<and> nm = AG_EDGE_COLNAME_ID c then
       Inr (AG_EDGE_ACCESS_FUNCTION_ID c)
     else if t = ENT_EDGE \<and> nm = AG_EDGE_COLNAME_START_ID c then
       Inr (AG_EDGE_ACCESS_FUNCTION_START_ID c)
     else if t = ENT_EDGE \<and> nm = AG_EDGE_COLNAME_END_ID c then
       Inr (AG_EDGE_ACCESS_FUNCTION_END_ID c)
     else if t = ENT_EDGE \<and> nm = AG_VERTEX_COLNAME_PROPERTIES c then
       Inr (AG_VERTEX_ACCESS_FUNCTION_PROPERTIES c)
     else
       Inl (Ereport ERRCODE_INVALID_COLUMN_REFERENCE
              (''column '' @ nm @ '' does not have an accessor function'')))"

text \<open>
  \<^verbatim>\<open>make_qual\<close>: for an entity whose expression is a \<open>Var\<close> (a variable of an
  earlier clause) the accessor function applied to it, otherwise the column
  of the entity's own relation, cast to agtype.  \<^verbatim>\<open>IsA(entity->expr, Var)\<close>
  reads through the pointer, so a NULL expression is a crash.
\<close>

definition make_qual :: "ag_consts \<Rightarrow> transform_entity \<Rightarrow> string \<Rightarrow> error + node" where
  "make_qual c ent col_name =
    (case transform_entity.expr ent of
       None \<Rightarrow> Inl Crash
     | Some e \<Rightarrow>
         if is_Var e then
           ebind (get_accessor_function_name c (type ent) col_name) (\<lambda>function_name.
           Inr (FuncCall [''ag_catalog'', function_name] [e]))
         else
           Inr (FuncCall [''ag_catalog'', ''graphid_to_agtype'']
                  [ColumnRef [T_String (union_name (entity ent)), T_String (Some col_name)]]))"

fun union_dir :: "entity_union \<Rightarrow> cypher_rel_dir option" where
  "union_dir (Entity_node n) = None"
| "union_dir (Entity_rel r) = Some (dir r)"

fun union_label :: "entity_union \<Rightarrow> string option" where
  "union_label (Entity_node n) = label n"
| "union_label (Entity_rel r) = label r"

text \<open>The quals needed when an edge is joined to another edge.\<close>

definition make_edge_quals ::
    "ag_consts \<Rightarrow> transform_entity \<Rightarrow> transform_entity_join_side \<Rightarrow> error + node list" where
  "make_edge_quals c edge side =
    (let (left_dir, right_dir) =
           (case side of
              JOIN_SIDE_LEFT \<Rightarrow> (AG_EDGE_COLNAME_START_ID c, AG_EDGE_COLNAME_END_ID c)
            | JOIN_SIDE_RIGHT \<Rightarrow> (AG_EDGE_COLNAME_END_ID c, AG_EDGE_COLNAME_START_ID c))
     in case union_dir (entity edge) of
          None \<Rightarrow> Inl Crash
        | Some CYPHER_REL_DIR_LEFT \<Rightarrow>
            ebind (make_qual c edge left_dir) (\<lambda>q. Inr [q])
        | Some CYPHER_REL_DIR_RIGHT \<Rightarrow>
            ebind (make_qual c edge right_dir) (\<lambda>q. Inr [q])
        | Some CYPHER_REL_DIR_NONE \<Rightarrow>
            ebind (make_qual c edge left_dir) (\<lambda>q1.
            ebind (make_qual c edge right_dir) (\<lambda>q2. Inr [q1, q2])))"

definition makeSimpleA_Expr :: "A_Expr_Kind \<Rightarrow> string \<Rightarrow> node \<Rightarrow> node \<Rightarrow> node" where
  "makeSimpleA_Expr k nm lexpr rexpr = A_Expr k nm lexpr rexpr"

definition join_to_entity ::
    "ag_consts \<Rightarrow> transform_entity \<Rightarrow> node \<Rightarrow> transform_entity_join_side \<Rightarrow> error + node list" where
  "join_to_entity c ent qual side =
    (case type ent of
       ENT_VERTEX \<Rightarrow>
         ebind (make_qual c ent (AG_EDGE_COLNAME_ID c)) (\<lambda>id_qual.
         Inr [makeSimpleA_Expr AEXPR_OP ''='' qual id_qual])
     | ENT_EDGE \<Rightarrow>
         ebind (make_edge_quals c ent side) (\<lambda>edge_quals.
         if length edge_quals > 1 then
           Inr [makeSimpleA_Expr AEXPR_IN ''='' qual (NodeList edge_quals)]
         else
           (case edge_quals of
              [] \<Rightarrow> Inl Crash
            | q # qs \<Rightarrow> Inr [makeSimpleA_Expr AEXPR_OP ''='' qual q])))"

text \<open>
  A filter on the label id of the vertex whose id is \<open>id_field\<close>;
  \<^verbatim>\<open>lcd->id\<close> is read without a NULL test.
\<close>

definition filter_vertices_on_label_id :: "cypher_parsestate \<Rightarrow> node \<Rightarrow> string \<Rightarrow> error + node" where
  "filter_vertices_on_label_id cpstate id_field l =
    (case search_label_name_graph_cache cpstate l of
       None \<Rightarrow> Inl Crash
     | Some lcd \<Rightarrow>
         Inr (makeSimpleA_Expr AEXPR_OP ''=''
               (FuncCall [''ag_catalog'', ''_extract_label_id'']
                  [FuncCall [''ag_catalog'', ''agtype_to_graphid''] [id_field]])
               (A_Const (label_id lcd))))"

definition make_directed_edge_join_conditions ::
    "ag_consts \<Rightarrow> cypher_parsestate \<Rightarrow> transform_entity \<Rightarrow> transform_entity \<Rightarrow> node \<Rightarrow> node \<Rightarrow>
     string option \<Rightarrow> string option \<Rightarrow> error + node list" where
  "make_directed_edge_join_conditions c cpstate prev_entity next_entity prev_qual next_qual
      prev_node_filter next_node_filter =
    ebind (if in_join_tree prev_entity
           then join_to_entity c prev_entity prev_qual JOIN_SIDE_LEFT else Inr []) (\<lambda>quals1.
    ebind (if in_join_tree next_entity
           then join_to_entity c next_entity next_qual JOIN_SIDE_RIGHT else Inr []) (\<lambda>quals2.
    ebind (case prev_node_filter of
             None \<Rightarrow> Inr []
           | Some l \<Rightarrow>
               if \<not> IS_DEFAULT_LABEL_VERTEX c l
               then ebind (filter_vertices_on_label_id cpstate prev_qual l) (\<lambda>q. Inr [q])
               else Inr []) (\<lambda>quals3.
    ebind (case next_node_filter of
             None \<Rightarrow> Inr []
           | Some l \<Rightarrow>
               if \<not> IS_DEFAULT_LABEL_VERTEX c l
               then ebind (filter_vertices_on_label_id cpstate next_qual l) (\<lambda>q. Inr [q])
               else Inr []) (\<lambda>quals4.
    Inr (quals1 @ quals2 @ quals3 @ quals4)))))"

definition makeBoolExpr :: "BoolExprType \<Rightarrow> node list \<Rightarrow> node" where
  "makeBoolExpr b args = BoolExpr b args"

text \<open>
  \<^verbatim>\<open>[prev_edge]-(prev_node)-[edge]-(next_node)-[next_edge]\<close>: the two outer
  edges may be NULL, the two nodes may not.  The directed cases hand
  \<open>next_node\<close> itself to \<open>make_directed_edge_join_conditions\<close>, the undirected
  case hands it \<open>next_entity\<close>.
\<close>

definition make_join_condition_for_edge ::
    "ag_consts \<Rightarrow> cypher_parsestate \<Rightarrow> transform_entity option \<Rightarrow> transform_entity \<Rightarrow>
     transform_entity \<Rightarrow> transform_entity \<Rightarrow> transform_entity option \<Rightarrow> error + node list" where
  "make_join_condition_for_edge c cpstate prev_edge prev_node ent next_node next_edge =
    (let prev_label_name_to_filter =
           (if \<not> in_join_tree prev_node then union_label (entity prev_node) else None);
         next_label_name_to_filter =
           (if \<not> in_join_tree next_node \<and> next_edge = None
            then union_label (entity next_node) else None);
         prev_entity =
           (case prev_edge of
              Some pe \<Rightarrow> if \<not> in_join_tree prev_node then pe else prev_node
            | None \<Rightarrow> prev_node);
         next_entity =
           (case next_edge of
              Some ne \<Rightarrow> if \<not> in_join_tree next_node then ne else next_node
            | None \<Rightarrow> next_node)
     in case union_dir (entity ent) of
          None \<Rightarrow> Inl Crash
        | Some CYPHER_REL_DIR_RIGHT \<Rightarrow>
            ebind (make_qual c ent (AG_EDGE_COLNAME_START_ID c)) (\<lambda>prev_qual.
            ebind (make_qual c ent (AG_EDGE_COLNAME_END_ID c)) (\<lambda>next_qual.
            make_directed_edge_join_conditions c cpstate prev_entity next_node
              prev_qual next_qual prev_label_name_to_filter next_label_name_to_filter))
        | Some CYPHER_REL_DIR_LEFT \<Rightarrow>
            ebind (make_qual c ent (AG_EDGE_COLNAME_END_ID c)) (\<lambda>prev_qual.
            ebind (make_qual c ent (AG_EDGE_COLNAME_START_ID c)) (\<lambda>next_qual.
            make_directed_edge_join_conditions c cpstate prev_entity next_node
              prev_qual next_qual prev_label_name_to_filter next_label_name_to_filter))
        | Some CYPHER_REL_DIR_NONE \<Rightarrow>
            ebind (make_qual c ent (AG_EDGE_COLNAME_START_ID c)) (\<lambda>start_id_expr.
            ebind (make_qual c ent (AG_EDGE_COLNAME_END_ID c)) (\<lambda>end_id_expr.
            ebind (make_directed_edge_join_conditions c cpstate prev_entity next_entity
                     start_id_expr end_id_expr
                     prev_label_name_to_filter next_label_name_to_filter) (\<lambda>first_join_quals.
            ebind (make_directed_edge_join_conditions c cpstate prev_entity next_entity
                     end_id_expr start_id_expr
                     prev_label_name_to_filter next_label_name_to_filter) (\<lambda>second_join_quals.
            Inr [makeBoolExpr OR_EXPR
                   [makeBoolExpr AND_EXPR first_join_quals,
                    makeBoolExpr AND_EXPR second_join_quals]])))))"

text \<open>
  The loop of \<^verbatim>\<open>make_path_join_quals\<close>, one call per edge.  \<open>rest\<close> is what
  follows the current edge in the entity list: the next node and, if there
  is one, the next edge.  An edge that nothing follows leaves
  \<^verbatim>\<open>next_node\<close> NULL, which \<^verbatim>\<open>make_join_condition_for_edge\<close> dereferences.
\<close>

fun make_path_join_quals_loop ::
    "ag_consts \<Rightarrow> cypher_parsestate \<Rightarrow> transform_entity option \<Rightarrow> transform_entity \<Rightarrow>
     transform_entity \<Rightarrow> transform_entity list \<Rightarrow> error + node list" where
  "make_path_join_quals_loop c cpstate prev_edge prev_node edge [] = Inl Crash"
| "make_path_join_quals_loop c cpstate prev_edge prev_node edge [next_node] =
     make_join_condition_for_edge c cpstate prev_edge prev_node edge next_node None"
| "make_path_join_quals_loop c cpstate prev_edge prev_node edge (next_node # next_edge # rest) =
     ebind (make_join_condition_for_edge c cpstate prev_edge prev_node edge next_node
              (Some next_edge)) (\<lambda>join_quals.
     ebind (make_path_join_quals_loop c cpstate (Some edge) next_node next_edge rest) (\<lambda>quals.
     Inr (join_quals @ quals)))"

definition make_path_join_quals ::
    "ag_consts \<Rightarrow> cypher_parsestate \<Rightarrow> transform_entity list \<Rightarrow> error + node list" where
  "make_path_join_quals c cpstate ents =
    (if length ents < 3 then Inr []
     else case ents of
            prev_node # edge # rest \<Rightarrow>
              make_path_join_quals_loop c cpstate None prev_node edge rest
          | _ \<Rightarrow> Inr [])"

section \<open>Collaborators outside the file\<close>

text \<open>
  The functions below belong to PostgreSQL's parser or to other files of the
  extension (the expression compiler, the catalog).  Their code is not part
  of the translated file, so each is a parameter; nothing is assumed about
  what it returns.  Those that change the parse state return the new one.

  \<^item> \<open>colNameToVar\<close>, \<open>scanRTEForColumn\<close>: column lookup in the visible
    namespace and in one range table entry (NULL when there is no such
    column).
  \<^item> \<open>parserOpenTable\<close>: opens a relation by schema and name.
  \<^item> \<open>find_rte\<close>: the range table entry with a given alias.
  \<^item> \<open>transformExpr\<close>, \<open>transform_cypher_expr\<close>, \<open>transform_cypher_item\<close>,
    \<open>coerce_to_specific_type\<close>: the expression compilers.
  \<^item> \<open>build_column_default\<close>: the default expression of a column of a label
    table.
  \<^item> \<open>create_label\<close>: creates a label and returns the catalog that holds it.
  \<^item> \<open>make_cypher_parsestate\<close>: the fresh parse state of a nested clause.
  \<^item> \<open>checkNameSpaceConflicts\<close>: rejects a range table entry whose name is
    already visible.
  \<^item> \<open>outNode\<close>: the text form of a plan.
\<close>

record Relation =
  rd_id :: nat
  rd_attnames :: "string list"

datatype label_column =
    Anum_ag_label_vertex_table_id
  | Anum_ag_label_vertex_table_properties
  | Anum_ag_label_edge_table_id
  | Anum_ag_label_edge_table_properties

text \<open>
  The plans handed to the executor.  Bit flags are sets of flag names.  The
  field names of the C structs are kept, with a prefix where two structs use
  the same name (\<open>tn_\<close> target node, \<open>di_\<close> delete item, \<open>ui_\<close> update item).
  \<^verbatim>\<open>make_ag_node\<close> zeroes a new struct, so a field the code does not set is
  0, NULL or the empty set.
\<close>

datatype clause_flag = CYPHER_CLAUSE_FLAG_TERMINAL | CYPHER_CLAUSE_FLAG_PREVIOUS_CLAUSE

datatype target_node_flag =
    CYPHER_TARGET_NODE_FLAG_INSERT
  | CYPHER_TARGET_NODE_IS_VAR
  | CYPHER_TARGET_NODE_IN_PATH_VAR
  | EXISTING_VARAIBLE_DECLARED_SAME_CLAUSE

record cypher_target_node =
  tn_type :: label_kind
  flags :: "target_node_flag set"
  tn_dir :: cypher_rel_dir
  label_name :: "string option"
  variable_name :: "string option"
  tuple_position :: int
  relid :: nat
  id_expr :: "node option"
  prop_attr_num :: int

record cypher_create_path =
  target_nodes :: "cypher_target_node list"
  path_attr_num :: int

record cypher_create_target_nodes =
  paths :: "cypher_create_path list"
  create_flags :: "clause_flag set"
  create_graph_oid :: nat

record cypher_delete_item =
  di_var_name :: string
  di_entity_position :: node

record cypher_delete_information =
  delete_items :: "cypher_delete_item list"
  delete_flags :: "clause_flag set"
  delete_graph_name :: string
  delete_graph_oid :: nat
  delete_detach :: bool

record cypher_update_item =
  ui_var_name :: string
  ui_entity_position :: int
  prop_name :: "string option"
  prop_position :: int
  remove_item :: bool

record cypher_update_information =
  set_items :: "cypher_update_item list"
  update_flags :: "clause_flag set"
  clause_name :: string
  update_graph_name :: string

datatype plan =
    Create_plan cypher_create_target_nodes
  | Delete_plan cypher_delete_information
  | Update_plan cypher_update_information

record externs =
  colNameToVar :: "cypher_parsestate \<Rightarrow> string \<Rightarrow> error + node option"
  scanRTEForColumn :: "cypher_parsestate \<Rightarrow> RangeTblEntry \<Rightarrow> string \<Rightarrow> error + node option"
  parserOpenTable :: "cypher_parsestate \<Rightarrow> string \<Rightarrow> string \<Rightarrow> error + Relation"
  checkNameSpaceConflicts :: "cypher_parsestate \<Rightarrow> RangeTblEntry \<Rightarrow> error + unit"
  get_graph_namespace_name :: "string \<Rightarrow> string"
  get_label_relation_name :: "cypher_parsestate \<Rightarrow> string \<Rightarrow> string"
  find_rte :: "cypher_parsestate \<Rightarrow> string \<Rightarrow> RangeTblEntry option"
  make_cypher_parsestate :: "cypher_parsestate \<Rightarrow> cypher_parsestate"
  transformExpr ::
    "cypher_parsestate \<Rightarrow> node \<Rightarrow> ParseExprKind \<Rightarrow> error + node \<times> cypher_parsestate"
  transform_cypher_expr ::
    "cypher_parsestate \<Rightarrow> node \<Rightarrow> ParseExprKind \<Rightarrow> error + node \<times> cypher_parsestate"
  transform_cypher_item ::
    "cypher_parsestate \<Rightarrow> node \<Rightarrow> node option \<Rightarrow> ParseExprKind \<Rightarrow> string option \<Rightarrow> bool \<Rightarrow>
     error + TargetEntry \<times> cypher_parsestate"
  coerce_to_specific_type :: "cypher_parsestate \<Rightarrow> node \<Rightarrow> string \<Rightarrow> error + node"
  build_column_default :: "Relation \<Rightarrow> label_column \<Rightarrow> node"
  create_label ::
    "cypher_parsestate \<Rightarrow> string \<Rightarrow> label_kind \<Rightarrow> error + (string \<Rightarrow> label_cache_data option)"
  outNode :: "plan \<Rightarrow> string"

text \<open>
  PostgreSQL's \<^verbatim>\<open>addRangeTableEntry\<close> opens the relation, builds its entry
  with the relation's column names and appends it to the range table;
  \<^verbatim>\<open>addRTEtoQuery\<close> appends a reference to the join list and an item to the
  namespace.  A range table entry is referred to by its index, counted from 1.
\<close>

definition addRangeTableEntry ::
    "externs \<Rightarrow> cypher_parsestate \<Rightarrow> string \<Rightarrow> string \<Rightarrow> string \<Rightarrow> bool \<Rightarrow>
     error + RangeTblEntry \<times> cypher_parsestate" where
  "addRangeTableEntry x cpstate schema rel alias infrom =
    ebind (parserOpenTable x cpstate schema rel) (\<lambda>r.
    let rte = \<lparr> rtekind = RTE_RELATION, schemaname = schema, relname = rel,
                 aliasname = Some alias, colnames = rd_attnames r,
                 subquery_targetList = [], lateral = False, inFromCl = infrom,
                 insert_perm = False \<rparr>
    in Inr (rte, cpstate\<lparr> p_rtable := p_rtable cpstate @ [rte] \<rparr>))"

definition addRTEtoQuery ::
    "cypher_parsestate \<Rightarrow> nat \<Rightarrow> bool \<Rightarrow> bool \<Rightarrow> bool \<Rightarrow> cypher_parsestate" where
  "addRTEtoQuery cpstate rtindex addToJoinList addToRelNameSpace addToVarNameSpace =
    (let st1 = (if addToJoinList
                then cpstate\<lparr> p_joinlist := p_joinlist cpstate @ [rtindex] \<rparr> else cpstate)
     in if addToRelNameSpace \<or> addToVarNameSpace
        then st1\<lparr> p_namespace := p_namespace st1 @
                    [\<lparr> p_rte = rtindex, p_rel_visible = addToRelNameSpace,
                       p_cols_visible = addToVarNameSpace, p_lateral_only = False,
                       p_lateral_ok = True \<rparr>] \<rparr>
        else st1)"

section \<open>Entities of a MATCH path\<close>

definition make_transform_entity ::
    "entity_union \<Rightarrow> node option \<Rightarrow> transform_entity" where
  "make_transform_entity u e =
    \<lparr> entity = u, in_join_tree = (e \<noteq> None), expr = e, declared_in_current_clause = True \<rparr>"

definition find_variable :: "cypher_parsestate \<Rightarrow> string \<Rightarrow> transform_entity option" where
  "find_variable cpstate nm =
    find (\<lambda>ent. union_name (entity ent) = Some nm) (entities cpstate)"

definition findTarget :: "TargetEntry list \<Rightarrow> string option \<Rightarrow> TargetEntry option" where
  "findTarget target_list rn =
    (case rn of
       None \<Rightarrow> None
     | Some nm \<Rightarrow> find (\<lambda>te. \<not> resjunk te \<and> resname te = nm) target_list)"

text \<open>\<^verbatim>\<open>sprintf(alias_num, "%d", n)\<close> for a counter that starts at 0 and only grows.\<close>

fun decimal :: "nat \<Rightarrow> string" where
  "decimal n = (if n < 10 then [''0123456789'' ! n]
                else decimal (n div 10) @ [''0123456789'' ! (n mod 10)])"

definition get_next_default_alias ::
    "ag_consts \<Rightarrow> cypher_parsestate \<Rightarrow> string \<times> cypher_parsestate" where
  "get_next_default_alias c cpstate =
    (AGE_DEFAULT_ALIAS_PREFIX c @ decimal (nat (default_alias_num cpstate)),
     cpstate\<lparr> default_alias_num := default_alias_num cpstate + 1 \<rparr>)"

text \<open>
  A NULL pointer stored in an argument list (a column that
  \<open>scanRTEForColumn\<close> did not find, the expression of an entity that has
  none).  In PostgreSQL the empty list \<^verbatim>\<open>NIL\<close> is the NULL pointer, so NULL
  as a list element is the empty \<open>NodeList\<close>.
\<close>

definition node_or_null :: "node option \<Rightarrow> node" where
  "node_or_null e = (case e of None \<Rightarrow> NodeList [] | Some n \<Rightarrow> n)"

definition make_vertex_expr ::
    "ag_consts \<Rightarrow> externs \<Rightarrow> cypher_parsestate \<Rightarrow> RangeTblEntry \<Rightarrow> error + node" where
  "make_vertex_expr c x cpstate rte =
    ebind (scanRTEForColumn x cpstate rte (AG_VERTEX_COLNAME_ID c)) (\<lambda>id_col.
    ebind (scanRTEForColumn x cpstate rte (AG_VERTEX_COLNAME_PROPERTIES c)) (\<lambda>props_col.
    Inr (FuncExpr ''_agtype_build_vertex''
           [node_or_null id_col,
            FuncExpr ''_label_name'' [OidConst (graph_oid cpstate), node_or_null id_col],
            node_or_null props_col])))"

definition make_edge_expr ::
    "ag_consts \<Rightarrow> externs \<Rightarrow> cypher_parsestate \<Rightarrow> RangeTblEntry \<Rightarrow> error + node" where
  "make_edge_expr c x cpstate rte =
    ebind (scanRTEForColumn x cpstate rte (AG_EDGE_COLNAME_ID c)) (\<lambda>id_col.
    ebind (scanRTEForColumn x cpstate rte (AG_EDGE_COLNAME_START_ID c)) (\<lambda>start_id.
    ebind (scanRTEForColumn x cpstate rte (AG_EDGE_COLNAME_END_ID c)) (\<lambda>end_id.
    ebind (scanRTEForColumn x cpstate rte (AG_EDGE_COLNAME_PROPERTIES c)) (\<lambda>props_col.
    Inr (FuncExpr ''_agtype_build_edge''
           [node_or_null id_col, node_or_null start_id, node_or_null end_id,
            FuncExpr ''_label_name'' [OidConst (graph_oid cpstate), node_or_null id_col],
            node_or_null props_col])))))"

text \<open>
  The tail shared by \<^verbatim>\<open>transform_cypher_node\<close> and \<^verbatim>\<open>transform_cypher_edge\<close>
  once they have decided that the element is new: a range table entry for the
  label's relation under the element's name, its place in the join list and the
  namespace, the next output position, and a named target entry.  The two
  callers differ in the last flag of \<^verbatim>\<open>addRTEtoQuery\<close> and in the expression
  builder.
\<close>

definition add_label_relation ::
    "externs \<Rightarrow> cypher_parsestate \<Rightarrow> string \<Rightarrow> string \<Rightarrow> bool \<Rightarrow>
     error + RangeTblEntry \<times> int \<times> cypher_parsestate" where
  "add_label_relation x cpstate lbl nm cols_visible =
    (let schema_name = get_graph_namespace_name x (graph_name cpstate);
         rel_name = get_label_relation_name x cpstate lbl
     in ebind (addRangeTableEntry x cpstate schema_name rel_name nm True) (\<lambda>(rte, st1).
        let st2 = addRTEtoQuery st1 (length (p_rtable st1)) True True cols_visible;
            rn = p_next_resno st2
        in Inr (rte, rn, st2\<lparr> p_next_resno := rn + 1 \<rparr>)))"

text \<open>
  \<^verbatim>\<open>transform_cypher_node\<close>.  The result is the expression (NULL when the node
  is not an output node), the node as the function leaves it (it writes the
  default label and the generated name into the parse node), the target list
  and the parse state.
\<close>

definition transform_cypher_node ::
    "ag_consts \<Rightarrow> externs \<Rightarrow> cypher_parsestate \<Rightarrow> cypher_node \<Rightarrow> TargetEntry list \<Rightarrow> bool \<Rightarrow>
     error + node option \<times> cypher_node \<times> TargetEntry list \<times> cypher_parsestate" where
  "transform_cypher_node c x cpstate nd target_list output_node =
    ebind (case label nd of
             None \<Rightarrow> Inr (AG_DEFAULT_LABEL_VERTEX c)
           | Some l \<Rightarrow>
               (case search_label_name_graph_cache cpstate l of
                  None \<Rightarrow> Inl (Ereport ERRCODE_FEATURE_NOT_SUPPORTED
                                (''label '' @ l @ '' does not exists''))
                | Some lcd \<Rightarrow>
                    if kind lcd \<noteq> LABEL_KIND_VERTEX
                    then Inl (Ereport ERRCODE_FEATURE_NOT_SUPPORTED
                                (''label '' @ l @ '' is for edges, not vertices''))
                    else Inr l)) (\<lambda>lbl.
    let nd1 = nd\<lparr> label := Some lbl \<rparr> in
    if \<not> output_node then Inr (None, nd1, target_list, cpstate)
    else
      ebind (case name nd1 of
               None \<Rightarrow> Inr None
             | Some nm \<Rightarrow>
                 ebind (colNameToVar x cpstate nm) (\<lambda>v.
                 case v of
                   Some e \<Rightarrow> Inr (Some e)
                 | None \<Rightarrow>
                     (case findTarget target_list (Some nm) of
                        Some te \<Rightarrow>
                          (case find_variable cpstate nm of
                             None \<Rightarrow> Inr (Some (expr te))
                           | Some ent \<Rightarrow>
                               if type ent \<noteq> ENT_VERTEX \<or> \<not> IS_DEFAULT_LABEL_VERTEX c lbl
                                  \<or> props nd1 \<noteq> None
                               then Inl (Ereport ERRCODE_FEATURE_NOT_SUPPORTED
                                           (''variable '' @ nm @ '' already exists''))
                               else Inr (Some (expr te)))
                      | None \<Rightarrow>
                          if p_expr_kind cpstate = EXPR_KIND_WHERE
                          then Inl (Ereport ERRCODE_FEATURE_NOT_SUPPORTED
                                      (''variable `'' @ nm @ ''` does not exist''))
                          else Inr None))) (\<lambda>bound.
      case bound of
        Some e \<Rightarrow> Inr (Some e, nd1, target_list, cpstate)
      | None \<Rightarrow>
          (let (nm, st1) = (case name nd1 of
                              None \<Rightarrow> get_next_default_alias c cpstate
                            | Some n \<Rightarrow> (n, cpstate))
           in ebind (add_label_relation x st1 lbl nm True) (\<lambda>(rte, rn, st2).
              ebind (make_vertex_expr c x st2 rte) (\<lambda>e.
              Inr (Some e, nd1\<lparr> name := Some nm \<rparr>,
                   target_list @ [makeTargetEntry e rn nm False], st2))))))"

text \<open>\<^verbatim>\<open>transform_cypher_edge\<close>: as for a node, but an edge is always output.\<close>

definition transform_cypher_edge ::
    "ag_consts \<Rightarrow> externs \<Rightarrow> cypher_parsestate \<Rightarrow> cypher_relationship \<Rightarrow> TargetEntry list \<Rightarrow>
     error + node \<times> cypher_relationship \<times> TargetEntry list \<times> cypher_parsestate" where
  "transform_cypher_edge c x cpstate rel target_list =
    (if varlen rel \<noteq> None then
       Inl (Ereport ERRCODE_FEATURE_NOT_SUPPORTED
              ''variable length relationships are not supported'')
     else
    ebind (case label rel of
             None \<Rightarrow> Inr (AG_DEFAULT_LABEL_EDGE c)
           | Some l \<Rightarrow>
               (case search_label_name_graph_cache cpstate l of
                  None \<Rightarrow> Inl (Ereport ERRCODE_FEATURE_NOT_SUPPORTED
                                (''label '' @ l @ '' does not exists''))
                | Some lcd \<Rightarrow>
                    if kind lcd \<noteq> LABEL_KIND_EDGE
                    then Inl (Ereport ERRCODE_FEATURE_NOT_SUPPORTED
                                (''label '' @ l @ '' is for vertices, not edges''))
                    else Inr l)) (\<lambda>lbl.
    let rel1 = rel\<lparr> label := Some lbl \<rparr> in
      ebind (case name rel1 of
               None \<Rightarrow> Inr None
             | Some nm \<Rightarrow>
                 ebind (colNameToVar x cpstate nm) (\<lambda>v.
                 case v of
                   Some e \<Rightarrow> Inr (Some e)
                 | None \<Rightarrow>
                     (case findTarget target_list (Some nm) of
                        Some te \<Rightarrow>
                          (case find_variable cpstate nm of
                             None \<Rightarrow> Inr (Some (expr te))
                           | Some ent \<Rightarrow>
                               if type ent \<noteq> ENT_EDGE \<or> \<not> IS_DEFAULT_LABEL_EDGE c lbl
                                  \<or> props rel1 \<noteq> None
                               then Inl (Ereport ERRCODE_FEATURE_NOT_SUPPORTED
                                           (''variable '' @ nm @ '' already exists''))
                               else Inr (Some (expr te)))
                      | None \<Rightarrow>
                          if p_expr_kind cpstate = EXPR_KIND_WHERE
                          then Inl (Ereport ERRCODE_FEATURE_NOT_SUPPORTED
                                      (''variable '' @ nm @ '' does not exist''))
                          else Inr None))) (\<lambda>bound.
      case bound of
        Some e \<Rightarrow> Inr (e, rel1, target_list, cpstate)
      | None \<Rightarrow>
          (let (nm, st1) = (case name rel1 of
                              None \<Rightarrow> get_next_default_alias c cpstate
                            | Some n \<Rightarrow> (n, cpstate))
           in ebind (add_label_relation x st1 lbl nm False) (\<lambda>(rte, rn, st2).
              ebind (make_edge_expr c x st2 rte) (\<lambda>e.
              Inr (e, rel1\<lparr> name := Some nm \<rparr>,
                   target_list @ [makeTargetEntry e rn nm False], st2)))))))"

text \<open>
  The property constraints of an element become one call of
  \<^verbatim>\<open>_property_constraint_check\<close> on the element's properties and the compiled
  constraint map.  The entity's name is compared with the aliases of the
  range table, so it must not be NULL.
\<close>

definition create_property_constraint_function ::
    "ag_consts \<Rightarrow> externs \<Rightarrow> cypher_parsestate \<Rightarrow> transform_entity \<Rightarrow> node \<Rightarrow>
     error + node \<times> cypher_parsestate" where
  "create_property_constraint_function c x cpstate ent property_constraints =
    (case union_name (entity ent) of
       None \<Rightarrow> Inl Crash
     | Some entity_name \<Rightarrow>
         ebind (case find_rte x cpstate entity_name of
                  Some rte \<Rightarrow>
                    ebind (scanRTEForColumn x cpstate rte (AG_VERTEX_COLNAME_PROPERTIES c))
                      (\<lambda>pe. Inr (node_or_null pe, cpstate))
                | None \<Rightarrow>
                    transformExpr x cpstate
                      (ColumnRef [T_String (Some entity_name), T_String (Some ''properties'')])
                      EXPR_KIND_WHERE) (\<lambda>(prop_expr, st1).
         ebind (transform_cypher_expr x st1 property_constraints EXPR_KIND_WHERE)
           (\<lambda>(const_expr, st2).
         Inr (FuncExpr ''_property_constraint_check'' [prop_expr, const_expr], st2))))"

record FromExpr =
  fromlist :: "nat list"
  quals :: "node option"

record Query =
  targetList :: "TargetEntry list"
  rtable :: "RangeTblEntry list"
  jointree :: FromExpr

definition makeQuery :: Query where
  "makeQuery = \<lparr> targetList = [], rtable = [], jointree = \<lparr> fromlist = [], quals = None \<rparr> \<rparr>"

text \<open>
  One round of the loop of \<^verbatim>\<open>transform_match_entities\<close> for a vertex and for
  an edge: transform the element, register the entity in
  \<^verbatim>\<open>cpstate->entities\<close>, and add the qualifier of its property constraints, if
  it has any.  \<open>named\<close> says whether the path has a variable;
  \<^verbatim>\<open>INCLUDE_NODE_IN_JOIN_TREE\<close> is evaluated on the node as the parser left it.
\<close>

definition INCLUDE_NODE_IN_JOIN_TREE :: "cypher_path \<Rightarrow> cypher_node \<Rightarrow> bool" where
  "INCLUDE_NODE_IN_JOIN_TREE pth nd =
    (var_name pth \<noteq> None \<or> name nd \<noteq> None \<or> props nd \<noteq> None)"

definition register_entity ::
    "ag_consts \<Rightarrow> externs \<Rightarrow> cypher_parsestate \<Rightarrow> transform_entity \<Rightarrow> node option \<Rightarrow>
     error + cypher_parsestate" where
  "register_entity c x cpstate ent prps =
    (let st1 = cpstate\<lparr> entities := entities cpstate @ [ent] \<rparr>
     in case prps of
          None \<Rightarrow> Inr st1
        | Some pc \<Rightarrow>
            ebind (create_property_constraint_function c x st1 ent pc) (\<lambda>(n, st2).
            Inr (st2\<lparr> property_constraint_quals := property_constraint_quals st2 @ [n] \<rparr>)))"

definition transform_match_vertex ::
    "ag_consts \<Rightarrow> externs \<Rightarrow> cypher_path \<Rightarrow> cypher_parsestate \<Rightarrow> TargetEntry list \<Rightarrow> cypher_node \<Rightarrow>
     error + transform_entity \<times> TargetEntry list \<times> cypher_parsestate" where
  "transform_match_vertex c x pth cpstate target_list nd =
    ebind (transform_cypher_node c x cpstate nd target_list (INCLUDE_NODE_IN_JOIN_TREE pth nd))
      (\<lambda>(e, nd1, tl1, st1).
    let ent = make_transform_entity (Entity_node nd1) e in
    ebind (register_entity c x st1 ent (props nd1)) (\<lambda>st2.
    Inr (ent, tl1, st2)))"

definition transform_match_edge ::
    "ag_consts \<Rightarrow> externs \<Rightarrow> cypher_parsestate \<Rightarrow> TargetEntry list \<Rightarrow> cypher_relationship \<Rightarrow>
     error + transform_entity \<times> TargetEntry list \<times> cypher_parsestate" where
  "transform_match_edge c x cpstate target_list rel =
    ebind (transform_cypher_edge c x cpstate rel target_list) (\<lambda>(e, rel1, tl1, st1).
    let ent = make_transform_entity (Entity_rel rel1) (Some e) in
    ebind (register_entity c x st1 ent (props rel1)) (\<lambda>st2.
    Inr (ent, tl1, st2)))"

text \<open>
  The loop itself.  The element at an even position is read as a node, the
  one at an odd position as a relationship, whatever it is; an element of the
  other kind is read through the wrong struct type.
\<close>

fun transform_match_entities_loop ::
    "ag_consts \<Rightarrow> externs \<Rightarrow> cypher_path \<Rightarrow> nat \<Rightarrow> path_element list \<Rightarrow> cypher_parsestate \<Rightarrow>
     TargetEntry list \<Rightarrow> error + transform_entity list \<times> TargetEntry list \<times> cypher_parsestate" where
  "transform_match_entities_loop c x pth i [] cpstate target_list = Inr ([], target_list, cpstate)"
| "transform_match_entities_loop c x pth i (el # rest) cpstate target_list =
    ebind (if i mod 2 = 0 then
             (case el of
                Path_node nd \<Rightarrow> transform_match_vertex c x pth cpstate target_list nd
              | Path_rel r \<Rightarrow> Inl Crash)
           else
             (case el of
                Path_rel rel \<Rightarrow> transform_match_edge c x cpstate target_list rel
              | Path_node n \<Rightarrow> Inl Crash)) (\<lambda>(ent, tl1, st1).
    ebind (transform_match_entities_loop c x pth (i + 1) rest st1 tl1) (\<lambda>(ents, tl2, st2).
    Inr (ent # ents, tl2, st2)))"

definition transform_match_entities ::
    "ag_consts \<Rightarrow> externs \<Rightarrow> cypher_parsestate \<Rightarrow> Query \<Rightarrow> cypher_path \<Rightarrow>
     error + transform_entity list \<times> Query \<times> cypher_parsestate" where
  "transform_match_entities c x cpstate query pth =
    ebind (transform_match_entities_loop c x pth 0 (path pth) cpstate (targetList query))
      (\<lambda>(ents, tl1, st1). Inr (ents, query\<lparr> targetList := tl1 \<rparr>, st1))"

text \<open>
  \<^verbatim>\<open>transform_match_create_path_variable\<close>; \<open>nm\<close> is \<^verbatim>\<open>path->var_name\<close>, which
  the caller has tested.
\<close>

definition transform_match_create_path_variable ::
    "cypher_parsestate \<Rightarrow> string \<Rightarrow> transform_entity list \<Rightarrow>
     error + TargetEntry \<times> cypher_parsestate" where
  "transform_match_create_path_variable cpstate nm ents =
    (if length ents < 3 then
       Inl (Ereport ERRCODE_FEATURE_NOT_SUPPORTED
              ''paths consist of alternating vertices and edges.'')
     else
       let entity_exprs = map (\<lambda>ent. node_or_null (transform_entity.expr ent)) ents;
           fexpr = FuncExpr ''_agtype_build_path'' entity_exprs;
           rn = p_next_resno cpstate
       in Inr (makeTargetEntry fexpr rn nm False, cpstate\<lparr> p_next_resno := rn + 1 \<rparr>))"

text \<open>The id accessors of the edges among the entities, in order.\<close>

fun edge_id_quals :: "ag_consts \<Rightarrow> transform_entity list \<Rightarrow> error + node list" where
  "edge_id_quals c [] = Inr []"
| "edge_id_quals c (ent # rest) =
    (if type ent \<noteq> ENT_EDGE then edge_id_quals c rest
     else ebind (make_qual c ent (AG_EDGE_COLNAME_ID c)) (\<lambda>edge.
          ebind (edge_id_quals c rest) (\<lambda>edges. Inr (edge # edges))))"

definition prevent_duplicate_edges :: "ag_consts \<Rightarrow> transform_entity list \<Rightarrow> error + node" where
  "prevent_duplicate_edges c ents =
    ebind (edge_id_quals c ents) (\<lambda>edges.
    Inr (FuncCall [''ag_catalog'', ''_ag_enforce_edge_uniqueness''] edges))"

definition transform_match_path ::
    "ag_consts \<Rightarrow> externs \<Rightarrow> cypher_parsestate \<Rightarrow> Query \<Rightarrow> cypher_path \<Rightarrow>
     error + node list \<times> Query \<times> cypher_parsestate" where
  "transform_match_path c x cpstate query pth =
    ebind (transform_match_entities c x cpstate query pth) (\<lambda>(ents, q1, st1).
    ebind (case var_name pth of
             None \<Rightarrow> Inr (q1, st1)
           | Some nm \<Rightarrow>
               ebind (transform_match_create_path_variable st1 nm ents) (\<lambda>(path_te, st2).
               Inr (q1\<lparr> targetList := targetList q1 @ [path_te] \<rparr>, st2))) (\<lambda>(q2, st2).
    ebind (make_path_join_quals c st2 ents) (\<lambda>join_quals.
    if length ents > 3 then
      ebind (prevent_duplicate_edges c ents) (\<lambda>duplicate_edge_qual.
      Inr (join_quals @ [duplicate_edge_qual], q2, st2))
    else Inr (join_quals, q2, st2))))"

fun transform_match_paths ::
    "ag_consts \<Rightarrow> externs \<Rightarrow> cypher_parsestate \<Rightarrow> Query \<Rightarrow> cypher_path list \<Rightarrow>
     error + node list \<times> Query \<times> cypher_parsestate" where
  "transform_match_paths c x cpstate query [] = Inr ([], query, cpstate)"
| "transform_match_paths c x cpstate query (pth # rest) =
    ebind (transform_match_path c x cpstate query pth) (\<lambda>(qual, q1, st1).
    ebind (transform_match_paths c x st1 q1 rest) (\<lambda>(qs, q2, st2).
    Inr (qual @ qs, q2, st2)))"

definition transform_match_pattern ::
    "ag_consts \<Rightarrow> externs \<Rightarrow> cypher_parsestate \<Rightarrow> Query \<Rightarrow> cypher_path list \<Rightarrow>
     error + Query \<times> cypher_parsestate" where
  "transform_match_pattern c x cpstate query pattern =
    ebind (transform_match_paths c x cpstate query pattern) (\<lambda>(qs, q1, st1).
    ebind (if qs \<noteq> []
           then ebind (transformExpr x st1 (makeBoolExpr AND_EXPR qs) EXPR_KIND_WHERE)
                  (\<lambda>(e, st2). Inr (Some e, st2))
           else Inr (None, st1)) (\<lambda>(e1, st2).
    let e2 = (if property_constraint_quals st2 \<noteq> [] then
                (let prop_qual = makeBoolExpr AND_EXPR (property_constraint_quals st2)
                 in case e1 of
                      None \<Rightarrow> Some prop_qual
                    | Some e \<Rightarrow> Some (makeBoolExpr AND_EXPR [e, prop_qual]))
              else e1)
    in Inr (q1\<lparr> rtable := p_rtable st2,
                jointree := \<lparr> fromlist = p_joinlist st2, quals = e2 \<rparr> \<rparr>, st2)))"

section \<open>Clauses and the predecessor relation\<close>

text \<open>
  A clause of the chain: its own node, the clause before it, and whether a
  clause follows (the C code only tests \<^verbatim>\<open>clause->next\<close> for NULL).  RETURN,
  WITH and sub-patterns are a different part of the compiler; their nodes are
  \<open>Self_other\<close>.
\<close>

record cypher_set_item =
  set_prop :: node
  set_expr :: node
  is_add :: bool

record cypher_set =
  items :: "cypher_set_item list"
  is_remove :: bool

record cypher_delete =
  exprs :: "node list"
  detach :: bool

datatype clause_self =
    Self_match "cypher_path list" "node option"
  | Self_create "cypher_path list"
  | Self_set cypher_set
  | Self_delete cypher_delete
  | Self_other nat

datatype cypher_clause =
  Cypher_clause (self: clause_self) (prev: "cypher_clause option") (has_next: bool)

type_synonym transform_method =
  "cypher_parsestate \<Rightarrow> cypher_clause \<Rightarrow> error + Query \<times> cypher_parsestate"

definition advance_transform_entities_to_next_clause ::
    "transform_entity list \<Rightarrow> transform_entity list" where
  "advance_transform_entities_to_next_clause ents =
    map (\<lambda>ent. ent\<lparr> declared_in_current_clause := False \<rparr>) ents"

text \<open>
  \<^verbatim>\<open>analyze_cypher_clause\<close> runs \<open>transform\<close> in a child parse state and
  appends the child's entities, advanced to the next clause, to the parent's.
  The catalog is global in C, so what the child did to it stays.
\<close>

definition analyze_cypher_clause ::
    "externs \<Rightarrow> transform_method \<Rightarrow> cypher_clause \<Rightarrow> cypher_parsestate \<Rightarrow>
     error + Query \<times> cypher_parsestate" where
  "analyze_cypher_clause x transform clause parent_cpstate =
    (let cpstate = (make_cypher_parsestate x parent_cpstate)
                     \<lparr> p_expr_kind := p_expr_kind parent_cpstate \<rparr>
     in ebind (transform cpstate clause) (\<lambda>(query, st1).
        Inr (query,
             parent_cpstate\<lparr> entities := entities parent_cpstate @
                               advance_transform_entities_to_next_clause (entities st1),
                             label_cache := label_cache st1 \<rparr>)))"

text \<open>
  PostgreSQL's \<^verbatim>\<open>addRangeTableEntryForSubquery\<close> with an alias that names no
  columns: the columns of the entry are the named, non-junk entries of the
  subquery's target list, in order.
\<close>

definition addRangeTableEntryForSubquery ::
    "cypher_parsestate \<Rightarrow> Query \<Rightarrow> string \<Rightarrow> bool \<Rightarrow> bool \<Rightarrow> RangeTblEntry \<times> cypher_parsestate" where
  "addRangeTableEntryForSubquery cpstate subquery alias lat infrom =
    (let rte = \<lparr> rtekind = RTE_SUBQUERY, schemaname = [], relname = [],
                  aliasname = Some alias,
                  colnames = map resname (filter (\<lambda>te. \<not> resjunk te) (targetList subquery)),
                  subquery_targetList = targetList subquery,
                  lateral = lat, inFromCl = infrom, insert_perm = False \<rparr>
     in (rte, cpstate\<lparr> p_rtable := p_rtable cpstate @ [rte] \<rparr>))"

definition PREV_CYPHER_CLAUSE_ALIAS :: string where
  "PREV_CYPHER_CLAUSE_ALIAS = ''_''"

definition transform_cypher_clause_as_subquery ::
    "externs \<Rightarrow> transform_method \<Rightarrow> cypher_parsestate \<Rightarrow> cypher_clause \<Rightarrow>
     error + RangeTblEntry \<times> cypher_parsestate" where
  "transform_cypher_clause_as_subquery x transform cpstate clause =
    (let old_expr_kind = p_expr_kind cpstate;
         st1 = (if p_expr_kind cpstate = EXPR_KIND_NONE
                then cpstate\<lparr> p_expr_kind := EXPR_KIND_FROM_SUBSELECT \<rparr> else cpstate);
         lat = (p_expr_kind st1 = EXPR_KIND_WHERE);
         st2 = st1\<lparr> p_lateral_active := lat \<rparr>
     in ebind (analyze_cypher_clause x transform clause st2) (\<lambda>(query, st3).
        let st4 = st3\<lparr> p_expr_kind := old_expr_kind \<rparr>;
            (rte, st5) = addRangeTableEntryForSubquery st4 query PREV_CYPHER_CLAUSE_ALIAS lat True
        in ebind (if length (p_rtable st5) > 1
                  then checkNameSpaceConflicts x st5 rte else Inr ()) (\<lambda>u.
           let st6 = addRTEtoQuery st5 (length (p_rtable st5)) True False True
           in Inr (rte, st6\<lparr> p_lateral_active := False \<rparr>))))"

text \<open>
  PostgreSQL's \<^verbatim>\<open>expandRelAttrs\<close>: one target entry per column of the range
  table entry, in column order, each a \<open>Var\<close> on that column, named after it,
  and numbered with the next free output position.
\<close>

definition expandRelAttrs ::
    "cypher_parsestate \<Rightarrow> RangeTblEntry \<Rightarrow> nat \<Rightarrow> TargetEntry list \<times> cypher_parsestate" where
  "expandRelAttrs cpstate rte rtindex =
    (map (\<lambda>(i, nm). makeTargetEntry (Var rtindex (int i + 1) 0)
                       (p_next_resno cpstate + int i) nm False)
         (enumerate 0 (colnames rte)),
     cpstate\<lparr> p_next_resno := p_next_resno cpstate + int (length (colnames rte)) \<rparr>)"

section \<open>DELETE, SET and REMOVE\<close>

definition add_volatile_wrapper :: "node \<Rightarrow> node" where
  "add_volatile_wrapper n = FuncExpr ''agtype_volatile_wrapper'' [n]"

text \<open>
  The position of the first target entry called \<open>nm\<close>, or -1.  The C function
  also wraps the expression of the entry it finds, in place; the list with
  the wrapped entry is the second result.
\<close>

fun get_target_entry_resno :: "TargetEntry list \<Rightarrow> string \<Rightarrow> int \<times> TargetEntry list" where
  "get_target_entry_resno [] nm = (- 1, [])"
| "get_target_entry_resno (te # rest) nm =
    (if resname te = nm
     then (resno te, te\<lparr> expr := add_volatile_wrapper (expr te) \<rparr> # rest)
     else (let (r, rest1) = get_target_entry_resno rest nm in (r, te # rest1)))"

definition AGE_VARNAME_CREATE_CLAUSE :: "ag_consts \<Rightarrow> string" where
  "AGE_VARNAME_CREATE_CLAUSE c = AGE_DEFAULT_VARNAME_PREFIX c @ ''create_clause''"

definition AGE_VARNAME_CREATE_NULL_VALUE :: "ag_consts \<Rightarrow> string" where
  "AGE_VARNAME_CREATE_NULL_VALUE c = AGE_DEFAULT_VARNAME_PREFIX c @ ''create_null_value''"

definition AGE_VARNAME_DELETE_CLAUSE :: "ag_consts \<Rightarrow> string" where
  "AGE_VARNAME_DELETE_CLAUSE c = AGE_DEFAULT_VARNAME_PREFIX c @ ''delete_clause''"

definition AGE_VARNAME_SET_CLAUSE :: "ag_consts \<Rightarrow> string" where
  "AGE_VARNAME_SET_CLAUSE c = AGE_DEFAULT_VARNAME_PREFIX c @ ''set_clause''"

text \<open>The body of the loop of \<^verbatim>\<open>transform_cypher_delete_item_list\<close>, and the loop.\<close>

definition transform_cypher_delete_item ::
    "node \<Rightarrow> TargetEntry list \<Rightarrow> error + cypher_delete_item \<times> TargetEntry list" where
  "transform_cypher_delete_item e target_list =
    (case e of
       ColumnRef fs \<Rightarrow>
         if length fs \<noteq> 1 then
           Inl (Ereport ERRCODE_INTERNAL_ERROR ''unexpected Node for cypher_clause'')
         else
           (case hd fs of
              T_String None \<Rightarrow> Inl Crash
            | T_String (Some str) \<Rightarrow>
                (let (rn, tl1) = get_target_entry_resno target_list str
                 in if rn = - 1 then
                      Inl (Ereport ERRCODE_INVALID_COLUMN_REFERENCE
                             (''undefined reference to variable '' @ str @ '' in DELETE clause''))
                    else
                      Inr (\<lparr> di_var_name = str, di_entity_position = T_Integer rn \<rparr>, tl1))
            | _ \<Rightarrow> Inl (Ereport ERRCODE_INTERNAL_ERROR ''unexpected Node for cypher_clause''))
     | _ \<Rightarrow> Inl (Ereport ERRCODE_INTERNAL_ERROR ''unexpected Node for cypher_clause''))"

fun transform_cypher_delete_item_list ::
    "node list \<Rightarrow> TargetEntry list \<Rightarrow> error + cypher_delete_item list \<times> TargetEntry list" where
  "transform_cypher_delete_item_list [] target_list = Inr ([], target_list)"
| "transform_cypher_delete_item_list (e # rest) target_list =
    ebind (transform_cypher_delete_item e target_list) (\<lambda>(item, tl1).
    ebind (transform_cypher_delete_item_list rest tl1) (\<lambda>(its, tl2).
    Inr (item # its, tl2)))"

definition transform_prev_cypher_clause ::
    "externs \<Rightarrow> transform_method \<Rightarrow> cypher_parsestate \<Rightarrow> cypher_clause \<Rightarrow>
     error + RangeTblEntry \<times> cypher_parsestate" where
  "transform_prev_cypher_clause x transform_cypher_clause cpstate prev_clause =
    transform_cypher_clause_as_subquery x transform_cypher_clause cpstate prev_clause"

text \<open>
  \<^verbatim>\<open>transform_cypher_delete\<close>.  \<open>transform_cypher_clause\<close>, the dispatcher
  that compiles the predecessor, is the parameter of that name.
\<close>

definition transform_cypher_delete ::
    "ag_consts \<Rightarrow> externs \<Rightarrow> transform_method \<Rightarrow> cypher_parsestate \<Rightarrow> cypher_clause \<Rightarrow>
     error + Query \<times> cypher_parsestate" where
  "transform_cypher_delete c x transform_cypher_clause cpstate clause =
    (case self clause of
       Self_delete slf \<Rightarrow>
         (case prev clause of
            None \<Rightarrow>
              Inl (Ereport ERRCODE_FEATURE_NOT_SUPPORTED
                     ''DELETE cannot be the first clause in a Cypher query'')
          | Some prev_clause \<Rightarrow>
              ebind (transform_prev_cypher_clause x transform_cypher_clause cpstate prev_clause)
                (\<lambda>(rte, st1).
              let rtindex = length (p_rtable st1);
                  (tl1, st2) = expandRelAttrs st1 rte rtindex
              in ebind (transform_cypher_delete_item_list (exprs slf) tl1) (\<lambda>(its, tl2).
                 let delete_data =
                       \<lparr> delete_items = its,
                         delete_flags = (if \<not> has_next clause
                                         then {CYPHER_CLAUSE_FLAG_TERMINAL} else {}),
                         delete_graph_name = graph_name st2,
                         delete_graph_oid = graph_oid st2,
                         delete_detach = detach slf \<rparr>;
                     pattern_const = InternalConst (outNode x (Delete_plan delete_data));
                     func_expr = FuncExpr (DELETE_CLAUSE_FUNCTION_NAME c) [pattern_const];
                     tle = makeTargetEntry func_expr (p_next_resno st2)
                             (AGE_VARNAME_DELETE_CLAUSE c) False;
                     st3 = st2\<lparr> p_next_resno := p_next_resno st2 + 1 \<rparr>
                 in Inr (\<lparr> targetList = tl2 @ [tle], rtable = p_rtable st3,
                           jointree = \<lparr> fromlist = p_joinlist st3, quals = None \<rparr> \<rparr>, st3))))
     | _ \<Rightarrow> Inl Crash)"

text \<open>
  The loop bodies and the loops of REMOVE and SET.  SET casts \<^verbatim>\<open>set_item->prop\<close> to an
  indirection and its argument to a column reference without a test; REMOVE
  tests both.  Both read the first field of the column reference, so it needs
  one; REMOVE reads it as a string without a test.
\<close>

definition remove_format_error :: error where
  "remove_format_error =
    Ereport ERRCODE_FEATURE_NOT_SUPPORTED
      ''REMOVE clause must be in the format: REMOVE variable.property_name''"

definition transform_cypher_remove_item ::
    "cypher_set_item \<Rightarrow> TargetEntry list \<Rightarrow> error + cypher_update_item \<times> TargetEntry list" where
  "transform_cypher_remove_item set_item target_list =
    (if is_add set_item then
       Inl (Ereport ERRCODE_FEATURE_NOT_SUPPORTED
              ''REMOVE clause does not support adding propereties from maps'')
     else case set_prop set_item of
       A_Indirection arg indirection \<Rightarrow>
         (case arg of
            ColumnRef fs \<Rightarrow>
              (case fs of
                 T_String (Some vname) # fs1 \<Rightarrow>
                   (let (pos, tl1) = get_target_entry_resno target_list vname
                    in if pos = - 1 then
                         Inl (Ereport ERRCODE_INVALID_COLUMN_REFERENCE
                                (''undefined reference to variable '' @ vname
                                 @ '' in REMOVE clause''))
                       else if length indirection \<noteq> 1 then Inl remove_format_error
                       else
                         (case hd indirection of
                            T_String pname \<Rightarrow>
                              Inr (\<lparr> ui_var_name = vname, ui_entity_position = pos,
                                     prop_name = pname, prop_position = 0,
                                     remove_item = True \<rparr>, tl1)
                          | _ \<Rightarrow> Inl (Ereport ERRCODE_INVALID_COLUMN_REFERENCE
                                        ''REMOVE clause expects a property name'')))
               | _ \<Rightarrow> Inl Crash)
          | _ \<Rightarrow> Inl remove_format_error)
     | _ \<Rightarrow> Inl remove_format_error)"

fun transform_cypher_remove_item_list ::
    "cypher_set_item list \<Rightarrow> TargetEntry list \<Rightarrow>
     error + cypher_update_item list \<times> TargetEntry list" where
  "transform_cypher_remove_item_list [] target_list = Inr ([], target_list)"
| "transform_cypher_remove_item_list (set_item # rest) target_list =
    ebind (transform_cypher_remove_item set_item target_list) (\<lambda>(item, tl1).
    ebind (transform_cypher_remove_item_list rest tl1) (\<lambda>(its, tl2).
    Inr (item # its, tl2)))"

definition transform_cypher_set_item ::
    "externs \<Rightarrow> cypher_parsestate \<Rightarrow> cypher_set_item \<Rightarrow> TargetEntry list \<Rightarrow>
     error + cypher_update_item \<times> TargetEntry list \<times> cypher_parsestate" where
  "transform_cypher_set_item x cpstate set_item target_list =
    (if is_add set_item then
       Inl (Ereport ERRCODE_FEATURE_NOT_SUPPORTED
              ''SET clause does not yet support adding propereties from maps'')
     else case set_prop set_item of
       A_Indirection arg indirection \<Rightarrow>
         (case arg of
            ColumnRef fs \<Rightarrow>
              (case fs of
                 [] \<Rightarrow> Inl Crash
               | T_String None # fs1 \<Rightarrow> Inl Crash
               | T_String (Some vname) # fs1 \<Rightarrow>
                   (let (pos, tl1) = get_target_entry_resno target_list vname
                    in if pos = - 1 then
                         Inl (Ereport ERRCODE_INVALID_COLUMN_REFERENCE
                                (''undefined reference to variable '' @ vname
                                 @ '' in SET clause''))
                       else if length indirection \<noteq> 1 then
                         Inl (Ereport ERRCODE_FEATURE_NOT_SUPPORTED
                           ''SET clause doesnt not support updating maps or lists in a property'')
                       else
                         (case hd indirection of
                            T_String pname \<Rightarrow>
                              ebind (transform_cypher_item x cpstate (set_expr set_item) None
                                       EXPR_KIND_SELECT_TARGET None False) (\<lambda>(target_item, st1).
                              Inr (\<lparr> ui_var_name = vname, ui_entity_position = pos,
                                     prop_name = pname,
                                     prop_position = p_next_resno cpstate,
                                     remove_item = False \<rparr>,
                                   tl1 @ [target_item
                                            \<lparr> expr := add_volatile_wrapper (expr target_item) \<rparr>],
                                   st1))
                          | _ \<Rightarrow> Inl (Ereport ERRCODE_INVALID_COLUMN_REFERENCE
                                        ''SET clause expects a property name'')))
               | _ \<Rightarrow> Inl (Ereport ERRCODE_INVALID_COLUMN_REFERENCE
                             ''SET clause expects a variable name''))
          | _ \<Rightarrow> Inl Crash)
     | _ \<Rightarrow> Inl Crash)"

fun transform_cypher_set_item_list ::
    "externs \<Rightarrow> cypher_parsestate \<Rightarrow> cypher_set_item list \<Rightarrow> TargetEntry list \<Rightarrow>
     error + cypher_update_item list \<times> TargetEntry list \<times> cypher_parsestate" where
  "transform_cypher_set_item_list x cpstate [] target_list = Inr ([], target_list, cpstate)"
| "transform_cypher_set_item_list x cpstate (set_item # rest) target_list =
    ebind (transform_cypher_set_item x cpstate set_item target_list) (\<lambda>(item, tl1, st1).
    ebind (transform_cypher_set_item_list x st1 rest tl1) (\<lambda>(its, tl2, st2).
    Inr (item # its, tl2, st2)))"

definition more_than_one_property :: "string \<Rightarrow> error" where
  "more_than_one_property nm =
    Ereport ERRCODE_FEATURE_NOT_SUPPORTED
      (nm @ '' clause does not yet support updating more than one property'')"

definition transform_cypher_set ::
    "ag_consts \<Rightarrow> externs \<Rightarrow> transform_method \<Rightarrow> cypher_parsestate \<Rightarrow> cypher_clause \<Rightarrow>
     error + Query \<times> cypher_parsestate" where
  "transform_cypher_set c x transform_cypher_clause cpstate clause =
    (case self clause of
       Self_set slf \<Rightarrow>
         (let cl_name = (if is_remove slf then UPDATE_CLAUSE_REMOVE c else UPDATE_CLAUSE_SET c)
          in case prev clause of
            None \<Rightarrow>
              Inl (Ereport ERRCODE_FEATURE_NOT_SUPPORTED
                     (cl_name @ '' cannot be the first clause in a Cypher query''))
          | Some prev_clause \<Rightarrow>
              ebind (transform_prev_cypher_clause x transform_cypher_clause cpstate prev_clause)
                (\<lambda>(rte, st1).
              let rtindex = length (p_rtable st1);
                  (tl1, st2) = expandRelAttrs st1 rte rtindex
              in if length (items slf) \<noteq> 1 then Inl (more_than_one_property cl_name)
                 else
                   ebind (if is_remove slf
                          then ebind (transform_cypher_remove_item_list (items slf) tl1)
                                 (\<lambda>(its, tl2). Inr (its, tl2, st2))
                          else transform_cypher_set_item_list x st2 (items slf) tl1)
                     (\<lambda>(its, tl2, st3).
                   let set_items_target_list =
                         \<lparr> set_items = its,
                           update_flags = (if \<not> has_next clause
                                           then {CYPHER_CLAUSE_FLAG_TERMINAL} else {}),
                           clause_name = cl_name,
                           update_graph_name = graph_name st3 \<rparr>;
                       pattern_const =
                         InternalConst (outNode x (Update_plan set_items_target_list));
                       func_expr = FuncExpr ''_cypher_set_clause'' [pattern_const];
                       tle = makeTargetEntry func_expr (p_next_resno st3)
                               (AGE_VARNAME_SET_CLAUSE c) False;
                       st4 = st3\<lparr> p_next_resno := p_next_resno st3 + 1 \<rparr>
                   in Inr (\<lparr> targetList = tl2 @ [tle], rtable = p_rtable st4,
                             jointree = \<lparr> fromlist = p_joinlist st4, quals = None \<rparr> \<rparr>, st4))))
     | _ \<Rightarrow> Inl Crash)"

section \<open>CREATE\<close>

text \<open>
  Modelled from the spec: \<^verbatim>\<open>label_exists\<close> of the catalog sources, which are
  not part of the translated file (the spec's \<^verbatim>\<open>labelExists(name, graph) -> bool\<close>):
  whether the catalog of the graph knows the label.
\<close>

definition label_exists :: "cypher_parsestate \<Rightarrow> string \<Rightarrow> bool" where
  "label_exists cpstate l = (label_cache cpstate l \<noteq> None)"

definition placeholder_target_entry ::
    "cypher_parsestate \<Rightarrow> string \<Rightarrow> TargetEntry \<times> cypher_parsestate" where
  "placeholder_target_entry cpstate nm =
    (let n = add_volatile_wrapper NullConst;
         rn = p_next_resno cpstate
     in (makeTargetEntry n rn nm False, cpstate\<lparr> p_next_resno := rn + 1 \<rparr>))"

definition variable_exists ::
    "externs \<Rightarrow> cypher_parsestate \<Rightarrow> string option \<Rightarrow> error + bool" where
  "variable_exists x cpstate nm_opt =
    (case nm_opt of
       None \<Rightarrow> Inr False
     | Some nm \<Rightarrow>
         (case find_rte x cpstate PREV_CYPHER_CLAUSE_ALIAS of
            Some rte \<Rightarrow>
              ebind (scanRTEForColumn x cpstate rte nm) (\<lambda>id_col. Inr (id_col \<noteq> None))
          | None \<Rightarrow> Inr False))"

definition cypher_create_properties ::
    "externs \<Rightarrow> cypher_parsestate \<Rightarrow> Relation \<Rightarrow> node option \<Rightarrow> transform_entity_type \<Rightarrow>
     error + node \<times> cypher_parsestate" where
  "cypher_create_properties x cpstate label_relation prps t =
    (case prps of
       Some (Cypher_param p) \<Rightarrow>
         Inl (Ereport ERRCODE_FEATURE_NOT_SUPPORTED
                ''properties in a CREATE clause as a parameter is not supported'')
     | Some pr \<Rightarrow>
         ebind (transform_cypher_expr x cpstate pr EXPR_KIND_INSERT_TARGET) (\<lambda>(properties, st1).
         Inr (add_volatile_wrapper properties, st1))
     | None \<Rightarrow>
         (case t of
            ENT_VERTEX \<Rightarrow>
              Inr (add_volatile_wrapper
                     (build_column_default x label_relation
                        Anum_ag_label_vertex_table_properties), cpstate)
          | ENT_EDGE \<Rightarrow>
              Inr (add_volatile_wrapper
                     (build_column_default x label_relation
                        Anum_ag_label_edge_table_properties), cpstate)))"

text \<open>
  What a new vertex and a new edge share: the label is created if the catalog
  does not know it, its relation is opened and entered in the range table with
  the right to insert, and the properties get a column under a generated
  name.  The result is the relation, the output position of the properties
  column, and the target list with that column.
\<close>

definition open_label_for_insert ::
    "ag_consts \<Rightarrow> externs \<Rightarrow> cypher_parsestate \<Rightarrow> TargetEntry list \<Rightarrow> string \<Rightarrow> label_kind \<Rightarrow>
     node option \<Rightarrow> transform_entity_type \<Rightarrow>
     error + Relation \<times> int \<times> TargetEntry list \<times> cypher_parsestate" where
  "open_label_for_insert c x cpstate target_list lbl k prps t =
    ebind (if \<not> label_exists cpstate lbl
           then ebind (create_label x cpstate lbl k) (\<lambda>cat.
                Inr (cpstate\<lparr> label_cache := cat \<rparr>))
           else Inr cpstate) (\<lambda>st1.
    ebind (parserOpenTable x st1 (graph_name st1) lbl) (\<lambda>label_relation.
    let rte = \<lparr> rtekind = RTE_RELATION, schemaname = graph_name st1, relname = lbl,
                 aliasname = None, colnames = rd_attnames label_relation,
                 subquery_targetList = [], lateral = False, inFromCl = False,
                 insert_perm = True \<rparr>;
        st2 = st1\<lparr> p_rtable := p_rtable st1 @ [rte] \<rparr>;
        (alias, st3) = get_next_default_alias c st2;
        rn = p_next_resno st3;
        st4 = st3\<lparr> p_next_resno := rn + 1 \<rparr>
    in ebind (cypher_create_properties x st4 label_relation prps t) (\<lambda>(prps1, st5).
       Inr (label_relation, rn, target_list @ [makeTargetEntry prps1 rn alias False], st5))))"

definition transform_create_cypher_edge ::
    "ag_consts \<Rightarrow> externs \<Rightarrow> cypher_parsestate \<Rightarrow> TargetEntry list \<Rightarrow> cypher_relationship \<Rightarrow>
     error + cypher_target_node \<times> TargetEntry list \<times> cypher_parsestate" where
  "transform_create_cypher_edge c x cpstate target_list edge =
    ebind (case name edge of
             Some nm \<Rightarrow>
               ebind (variable_exists x cpstate (Some nm)) (\<lambda>ex.
               if ex then
                 Inl (Ereport ERRCODE_FEATURE_NOT_SUPPORTED
                        (''variable '' @ nm @ '' already exists''))
               else
                 (let (te, st1) = placeholder_target_entry cpstate nm
                  in Inr (Some nm, resno te, target_list @ [te],
                          {CYPHER_TARGET_NODE_FLAG_INSERT, CYPHER_TARGET_NODE_IS_VAR}, st1)))
           | None \<Rightarrow> Inr (None, 0, target_list, {CYPHER_TARGET_NODE_FLAG_INSERT}, cpstate))
      (\<lambda>(vname, pos, tl1, fl, st1).
    if dir edge = CYPHER_REL_DIR_NONE then
      Inl (Ereport ERRCODE_FEATURE_NOT_SUPPORTED
             ''only directed relationships are allowed in CREATE'')
    else case label edge of
      None \<Rightarrow>
        Inl (Ereport ERRCODE_FEATURE_NOT_SUPPORTED
               ''relationships must be specify a label in CREATE.'')
    | Some lbl \<Rightarrow>
        ebind (open_label_for_insert c x st1 tl1 lbl LABEL_KIND_EDGE (props edge) ENT_EDGE)
          (\<lambda>(label_relation, rn, tl2, st2).
        Inr (\<lparr> tn_type = LABEL_KIND_EDGE, flags = fl, tn_dir = dir edge,
               label_name = Some lbl, variable_name = vname, tuple_position = pos,
               relid = rd_id label_relation,
               id_expr = Some (build_column_default x label_relation
                                 Anum_ag_label_edge_table_id),
               prop_attr_num = rn - 1 \<rparr>, tl2, st2)))"

text \<open>
  A vertex of a CREATE pattern whose variable the registry already holds:
  nothing is inserted, the node only records where the variable's column is.
\<close>

definition transform_create_cypher_existing_node ::
    "TargetEntry list \<Rightarrow> bool \<Rightarrow> cypher_node \<Rightarrow> string \<Rightarrow>
     error + cypher_target_node \<times> TargetEntry list" where
  "transform_create_cypher_existing_node target_list declared_in_current nd nm =
    (if props nd \<noteq> None then
       Inl (Ereport ERRCODE_FEATURE_NOT_SUPPORTED
              ''previously declared nodes in a create clause cannot have properties'')
     else if label nd \<noteq> None then
       Inl (Ereport ERRCODE_FEATURE_NOT_SUPPORTED
              ''previously declared variables cannot have a label'')
     else
       (let (pos, tl1) = get_target_entry_resno target_list nm
        in Inr (\<lparr> tn_type = LABEL_KIND_VERTEX,
                  flags = (if declared_in_current
                           then {EXISTING_VARAIBLE_DECLARED_SAME_CLAUSE} else {}),
                  tn_dir = CYPHER_REL_DIR_NONE,
                  label_name = None, variable_name = name nd, tuple_position = pos,
                  relid = 0, id_expr = None, prop_attr_num = 0 \<rparr>, tl1)))"

definition transform_create_cypher_new_node ::
    "ag_consts \<Rightarrow> externs \<Rightarrow> cypher_parsestate \<Rightarrow> TargetEntry list \<Rightarrow> cypher_node \<Rightarrow>
     error + cypher_target_node \<times> cypher_node \<times> TargetEntry list \<times> cypher_parsestate" where
  "transform_create_cypher_new_node c x cpstate target_list nd =
    (let (lname, lbl) = (case label nd of
                           None \<Rightarrow> ([], AG_DEFAULT_LABEL_VERTEX c)
                         | Some l \<Rightarrow> (l, l));
         nd1 = nd\<lparr> label := Some lbl \<rparr>
     in ebind (open_label_for_insert c x cpstate target_list lbl LABEL_KIND_VERTEX
                 (props nd1) ENT_VERTEX) (\<lambda>(label_relation, rn, tl1, st1).
        let rel = \<lparr> tn_type = LABEL_KIND_VERTEX, flags = {CYPHER_TARGET_NODE_FLAG_INSERT},
                     tn_dir = CYPHER_REL_DIR_NONE,
                     label_name = Some lname, variable_name = None, tuple_position = 0,
                     relid = rd_id label_relation,
                     id_expr = Some (build_column_default x label_relation
                                       Anum_ag_label_vertex_table_id),
                     prop_attr_num = rn - 1 \<rparr>
        in case name nd1 of
             None \<Rightarrow> Inr (rel, nd1, tl1, st1)
           | Some nm \<Rightarrow>
               (let (te, st2) = placeholder_target_entry st1 nm
                in Inr (rel\<lparr> variable_name := Some nm, tuple_position := resno te,
                             flags := flags rel \<union> {CYPHER_TARGET_NODE_IS_VAR} \<rparr>,
                        nd1, tl1 @ [te], st2))))"

definition transform_create_cypher_node ::
    "ag_consts \<Rightarrow> externs \<Rightarrow> cypher_parsestate \<Rightarrow> TargetEntry list \<Rightarrow> cypher_node \<Rightarrow>
     error + cypher_target_node \<times> cypher_node \<times> TargetEntry list \<times> cypher_parsestate" where
  "transform_create_cypher_node c x cpstate target_list nd =
    (case (case name nd of
             None \<Rightarrow> None
           | Some nm \<Rightarrow>
               (case find_variable cpstate nm of
                  None \<Rightarrow> None
                | Some ent \<Rightarrow> Some (nm, ent))) of
       Some (nm, ent) \<Rightarrow>
         if type ent \<noteq> ENT_VERTEX then
           Inl (Ereport ERRCODE_FEATURE_NOT_SUPPORTED
                  (''variable '' @ nm @ '' already exists''))
         else
           ebind (transform_create_cypher_existing_node target_list
                    (declared_in_current_clause ent) nd nm) (\<lambda>(rel, tl1).
           Inr (rel, nd, tl1, cpstate))
     | None \<Rightarrow> transform_create_cypher_new_node c x cpstate target_list nd)"

text \<open>
  The loop of \<^verbatim>\<open>transform_cypher_create_path\<close> over the elements of the
  path; \<open>in_path\<close> says whether the path has a variable.  Every element, new
  or not, is registered as an entity with no expression.
\<close>

fun transform_create_path_elements ::
    "ag_consts \<Rightarrow> externs \<Rightarrow> bool \<Rightarrow> cypher_parsestate \<Rightarrow> TargetEntry list \<Rightarrow> path_element list \<Rightarrow>
     error + cypher_target_node list \<times> TargetEntry list \<times> cypher_parsestate" where
  "transform_create_path_elements c x in_path cpstate target_list [] =
     Inr ([], target_list, cpstate)"
| "transform_create_path_elements c x in_path cpstate target_list (el # rest) =
    ebind (case el of
             Path_node nd \<Rightarrow>
               ebind (transform_create_cypher_node c x cpstate target_list nd)
                 (\<lambda>(rel, nd1, tl1, st1). Inr (rel, Entity_node nd1, tl1, st1))
           | Path_rel edge \<Rightarrow>
               ebind (transform_create_cypher_edge c x cpstate target_list edge)
                 (\<lambda>(rel, tl1, st1). Inr (rel, Entity_rel edge, tl1, st1)))
      (\<lambda>(rel, u, tl1, st1).
    let rel1 = (if in_path
                then rel\<lparr> flags := flags rel \<union> {CYPHER_TARGET_NODE_IN_PATH_VAR} \<rparr> else rel);
        st2 = st1\<lparr> entities := entities st1 @ [make_transform_entity u None] \<rparr>
    in ebind (transform_create_path_elements c x in_path st2 tl1 rest) (\<lambda>(rels, tl2, st3).
       Inr (rel1 # rels, tl2, st3)))"

definition InvalidAttrNumber :: int where
  "InvalidAttrNumber = 0"

definition transform_cypher_create_path ::
    "ag_consts \<Rightarrow> externs \<Rightarrow> cypher_parsestate \<Rightarrow> TargetEntry list \<Rightarrow> cypher_path \<Rightarrow>
     error + cypher_create_path \<times> TargetEntry list \<times> cypher_parsestate" where
  "transform_cypher_create_path c x cpstate target_list pth =
    ebind (transform_create_path_elements c x (var_name pth \<noteq> None) cpstate target_list
             (path pth)) (\<lambda>(transformed_path, tl1, st1).
    case var_name pth of
      None \<Rightarrow>
        Inr (\<lparr> target_nodes = transformed_path, path_attr_num = InvalidAttrNumber \<rparr>, tl1, st1)
    | Some nm \<Rightarrow>
        if length transformed_path < 3 then
          Inl (Ereport ERRCODE_FEATURE_NOT_SUPPORTED
                 ''paths consist of alternating vertices and edges.'')
        else
          (let (te, st2) = placeholder_target_entry st1 nm
           in Inr (\<lparr> target_nodes = transformed_path, path_attr_num = resno te \<rparr>,
                   tl1 @ [te], st2)))"

fun transform_cypher_create_pattern ::
    "ag_consts \<Rightarrow> externs \<Rightarrow> cypher_parsestate \<Rightarrow> TargetEntry list \<Rightarrow> cypher_path list \<Rightarrow>
     error + cypher_create_path list \<times> TargetEntry list \<times> cypher_parsestate" where
  "transform_cypher_create_pattern c x cpstate target_list [] = Inr ([], target_list, cpstate)"
| "transform_cypher_create_pattern c x cpstate target_list (pth # rest) =
    ebind (transform_cypher_create_path c x cpstate target_list pth)
      (\<lambda>(transformed_path, tl1, st1).
    ebind (transform_cypher_create_pattern c x st1 tl1 rest) (\<lambda>(tps, tl2, st2).
    Inr (transformed_path # tps, tl2, st2)))"

section \<open>SKIP and LIMIT\<close>

text \<open>
  PostgreSQL's \<^verbatim>\<open>contain_vars_of_level\<close> on the expressions of this model:
  whether a \<open>Var\<close> of the given level occurs in the tree.
\<close>

fun contain_vars_of_level :: "node \<Rightarrow> nat \<Rightarrow> bool" where
  "contain_vars_of_level (Var rt att lev) levelsup = (lev = levelsup)"
| "contain_vars_of_level (ColumnRef fs) levelsup =
     list_ex (\<lambda>n. contain_vars_of_level n levelsup) fs"
| "contain_vars_of_level (A_Indirection a ind) levelsup =
     (contain_vars_of_level a levelsup \<or> list_ex (\<lambda>n. contain_vars_of_level n levelsup) ind)"
| "contain_vars_of_level (FuncCall f args) levelsup =
     list_ex (\<lambda>n. contain_vars_of_level n levelsup) args"
| "contain_vars_of_level (FuncExpr f args) levelsup =
     list_ex (\<lambda>n. contain_vars_of_level n levelsup) args"
| "contain_vars_of_level (A_Expr k nm l r) levelsup =
     (contain_vars_of_level l levelsup \<or> contain_vars_of_level r levelsup)"
| "contain_vars_of_level (BoolExpr b args) levelsup =
     list_ex (\<lambda>n. contain_vars_of_level n levelsup) args"
| "contain_vars_of_level (NodeList xs) levelsup =
     list_ex (\<lambda>n. contain_vars_of_level n levelsup) xs"
| "contain_vars_of_level (Cypher_map kv) levelsup =
     list_ex (\<lambda>n. contain_vars_of_level n levelsup) kv"
| "contain_vars_of_level n levelsup = False"

definition transform_cypher_limit ::
    "externs \<Rightarrow> cypher_parsestate \<Rightarrow> node option \<Rightarrow> ParseExprKind \<Rightarrow> string \<Rightarrow>
     error + node option \<times> cypher_parsestate" where
  "transform_cypher_limit x cpstate nd expr_kind construct_name =
    (case nd of
       None \<Rightarrow> Inr (None, cpstate)
     | Some n \<Rightarrow>
         ebind (transform_cypher_expr x cpstate n expr_kind) (\<lambda>(qual, st1).
         ebind (coerce_to_specific_type x st1 qual construct_name) (\<lambda>qual1.
         if contain_vars_of_level qual1 0 then
           Inl (Ereport ERRCODE_INVALID_COLUMN_REFERENCE
                  (''argument of '' @ construct_name @ '' must not contain variables''))
         else Inr (Some qual1, st1))))"

section \<open>Vocabulary of the properties\<close>

text \<open>Shapes of qualifiers: an equality, a tree with an OR in it, the edge-uniqueness call.\<close>

fun is_equality :: "node \<Rightarrow> bool" where
  "is_equality (A_Expr k nm l r) = (k = AEXPR_OP \<and> nm = ''='')"
| "is_equality n = False"

fun contains_or :: "node \<Rightarrow> bool" where
  "contains_or (BoolExpr b args) = (b = OR_EXPR \<or> list_ex contains_or args)"
| "contains_or (A_Expr k nm l r) = (contains_or l \<or> contains_or r)"
| "contains_or (FuncCall f args) = list_ex contains_or args"
| "contains_or (FuncExpr f args) = list_ex contains_or args"
| "contains_or (ColumnRef fs) = list_ex contains_or fs"
| "contains_or (A_Indirection a ind) = (contains_or a \<or> list_ex contains_or ind)"
| "contains_or (NodeList xs) = list_ex contains_or xs"
| "contains_or (Cypher_map kv) = list_ex contains_or kv"
| "contains_or n = False"

fun is_edge_uniqueness :: "node \<Rightarrow> bool" where
  "is_edge_uniqueness (FuncCall f args) = (f = [''ag_catalog'', ''_ag_enforce_edge_uniqueness''])"
| "is_edge_uniqueness n = False"

text \<open>
  A vertex entity that is in the join tree, an edge entity of direction RIGHT,
  and an entity list that alternates the two, beginning and ending with a
  vertex: the entities of a path whose edges all point right and whose
  vertices are all joined.
\<close>

definition joined_vertex :: "transform_entity \<Rightarrow> bool" where
  "joined_vertex v =
    (type v = ENT_VERTEX \<and> in_join_tree v \<and> transform_entity.expr v \<noteq> None)"

definition right_edge :: "transform_entity \<Rightarrow> bool" where
  "right_edge e =
    (union_dir (entity e) = Some CYPHER_REL_DIR_RIGHT \<and> transform_entity.expr e \<noteq> None)"

fun right_path :: "transform_entity list \<Rightarrow> bool" where
  "right_path [] = False"
| "right_path [v] = joined_vertex v"
| "right_path (v # e # rest) = (joined_vertex v \<and> right_edge e \<and> right_path rest)"

definition edge_count :: "transform_entity list \<Rightarrow> nat" where
  "edge_count ents = length (filter (\<lambda>ent. type ent = ENT_EDGE) ents)"

fun is_rel :: "path_element \<Rightarrow> bool" where
  "is_rel (Path_rel r) = True"
| "is_rel (Path_node n) = False"

definition path_edge_count :: "cypher_path \<Rightarrow> nat" where
  "path_edge_count pth = length (filter is_rel (path pth))"

text \<open>
  The output columns of a compiled clause, as the next clause sees them, and
  the position of a column name among them: counted from 1, the first one of
  that name, -1 when there is none.
\<close>

definition output_columns :: "Query \<Rightarrow> string list" where
  "output_columns q = map resname (filter (\<lambda>te. \<not> resjunk te) (targetList q))"

fun column_position :: "string list \<Rightarrow> string \<Rightarrow> int" where
  "column_position [] nm = - 1"
| "column_position (col # cols) nm =
    (if col = nm then 1
     else if column_position cols nm = - 1 then - 1
     else column_position cols nm + 1)"

section \<open>A stand-in for the collaborators\<close>

text \<open>
  One choice of the functions that are parameters of the model, small enough
  to evaluate: column lookup by name in the column lists of the range table,
  label relations named after their labels with the columns of a vertex or an
  edge table, expression compilers that return their argument.  It serves to
  run the model on concrete inputs; no general statement below depends on it.
\<close>

fun index_of :: "string \<Rightarrow> string list \<Rightarrow> nat option" where
  "index_of nm [] = None"
| "index_of nm (col # cols) =
    (if col = nm then Some 0
     else case index_of nm cols of None \<Rightarrow> None | Some i \<Rightarrow> Some (i + 1))"

fun visible_column :: "RangeTblEntry list \<Rightarrow> ParseNamespaceItem list \<Rightarrow> string \<Rightarrow> node option" where
  "visible_column rt [] nm = None"
| "visible_column rt (it # its) nm =
    (if p_cols_visible it \<and> 0 < p_rte it \<and> p_rte it \<le> length rt then
       (case index_of nm (colnames (rt ! (p_rte it - 1))) of
          Some i \<Rightarrow> Some (Var (p_rte it) (int i + 1) 0)
        | None \<Rightarrow> visible_column rt its nm)
     else visible_column rt its nm)"

fun rte_index :: "RangeTblEntry \<Rightarrow> RangeTblEntry list \<Rightarrow> nat" where
  "rte_index rte [] = 0"
| "rte_index rte (r # rs) = (if r = rte then 1 else rte_index rte rs + 1)"

definition sample_externs :: externs where
  "sample_externs = \<lparr>
     colNameToVar = (\<lambda>cpstate nm. Inr (visible_column (p_rtable cpstate) (p_namespace cpstate) nm)),
     scanRTEForColumn = (\<lambda>cpstate rte nm.
       Inr (case index_of nm (colnames rte) of
              None \<Rightarrow> None
            | Some i \<Rightarrow> Some (Var (rte_index rte (p_rtable cpstate)) (int i + 1) 0))),
     parserOpenTable = (\<lambda>cpstate schema rel.
       case label_cache cpstate rel of
         None \<Rightarrow> Inl (Ereport ERRCODE_INTERNAL_ERROR (''relation '' @ rel @ '' does not exist''))
       | Some lcd \<Rightarrow>
           Inr \<lparr> rd_id = relation lcd,
                 rd_attnames = (if kind lcd = LABEL_KIND_EDGE
                                then [''id'', ''start_id'', ''end_id'', ''properties'']
                                else [''id'', ''properties'']) \<rparr>),
     checkNameSpaceConflicts = (\<lambda>cpstate rte. Inr ()),
     get_graph_namespace_name = (\<lambda>g. g),
     get_label_relation_name = (\<lambda>cpstate l. l),
     find_rte = (\<lambda>cpstate nm. find (\<lambda>r. aliasname r = Some nm) (p_rtable cpstate)),
     make_cypher_parsestate = (\<lambda>parent.
       parent\<lparr> p_rtable := [], p_joinlist := [], p_namespace := [], p_next_resno := 1,
               p_expr_kind := EXPR_KIND_NONE, p_lateral_active := False,
               default_alias_num := 0, entities := [], property_constraint_quals := [] \<rparr>),
     transformExpr = (\<lambda>cpstate n k. Inr (n, cpstate)),
     transform_cypher_expr = (\<lambda>cpstate n k. Inr (n, cpstate)),
     transform_cypher_item = (\<lambda>cpstate n e k colname junk.
       Inr (makeTargetEntry (case e of None \<Rightarrow> n | Some e1 \<Rightarrow> e1) (p_next_resno cpstate)
              (case colname of None \<Rightarrow> ''?column?'' | Some s \<Rightarrow> s) junk,
            cpstate\<lparr> p_next_resno := p_next_resno cpstate + 1 \<rparr>)),
     coerce_to_specific_type = (\<lambda>cpstate n nm. Inr n),
     build_column_default = (\<lambda>r col. FuncExpr ''nextval'' []),
     create_label = (\<lambda>cpstate l k.
       Inr ((label_cache cpstate)(l \<mapsto> \<lparr> label_id = 3, kind = k, relation = 3 \<rparr>))),
     outNode = (\<lambda>p. []) \<rparr>"

text \<open>
  A graph with the two default labels and a vertex label \<open>Person\<close>, and a
  fresh parse state for it.
\<close>

definition sample_labels :: "string \<Rightarrow> label_cache_data option" where
  "sample_labels =
    [''_ag_label_vertex'' \<mapsto> \<lparr> label_id = 1, kind = LABEL_KIND_VERTEX, relation = 1 \<rparr>,
     ''_ag_label_edge'' \<mapsto> \<lparr> label_id = 2, kind = LABEL_KIND_EDGE, relation = 2 \<rparr>,
     ''Person'' \<mapsto> \<lparr> label_id = 3, kind = LABEL_KIND_VERTEX, relation = 3 \<rparr>]"

definition sample_state :: cypher_parsestate where
  "sample_state =
    \<lparr> p_rtable = [], p_joinlist = [], p_namespace = [], p_next_resno = 1,
      p_expr_kind = EXPR_KIND_NONE, p_lateral_active = False,
      graph_name = ''g'', graph_oid = 1, default_alias_num = 0, entities = [],
      property_constraint_quals = [], label_cache = sample_labels \<rparr>"

definition sample_node :: "string \<Rightarrow> cypher_node" where
  "sample_node nm = \<lparr> name = Some nm, label = None, props = None \<rparr>"

definition sample_rel :: "string \<Rightarrow> cypher_rel_dir \<Rightarrow> cypher_relationship" where
  "sample_rel nm d = \<lparr> name = Some nm, label = None, props = None, varlen = None, dir = d \<rparr>"

text \<open>Entities as MATCH builds them for elements first met in the current clause.\<close>

definition sample_vertex :: "string \<Rightarrow> transform_entity" where
  "sample_vertex nm =
    make_transform_entity
      (Entity_node ((sample_node nm)\<lparr> label := Some ''_ag_label_vertex'' \<rparr>))
      (Some (FuncExpr ''_agtype_build_vertex'' []))"

definition sample_edge :: "string \<Rightarrow> cypher_rel_dir \<Rightarrow> transform_entity" where
  "sample_edge nm d =
    make_transform_entity
      (Entity_rel ((sample_rel nm d)\<lparr> label := Some ''_ag_label_edge'' \<rparr>))
      (Some (FuncExpr ''_agtype_build_edge'' []))"

text \<open>The entities of \<open>(a)-[e]->(b)-[f]->(c)\<close>.\<close>

definition two_hops :: "transform_entity list" where
  "two_hops = [sample_vertex ''a'', sample_edge ''e'' CYPHER_REL_DIR_RIGHT, sample_vertex ''b'',
               sample_edge ''f'' CYPHER_REL_DIR_RIGHT, sample_vertex ''c'']"

text \<open>The pattern \<open>(a)-[e]->(b)-[f]->(c)\<close>, with no path variable.\<close>

definition two_hop_path :: cypher_path where
  "two_hop_path =
    \<lparr> path = [Path_node (sample_node ''a''), Path_rel (sample_rel ''e'' CYPHER_REL_DIR_RIGHT),
               Path_node (sample_node ''b''), Path_rel (sample_rel ''f'' CYPHER_REL_DIR_RIGHT),
               Path_node (sample_node ''c'')],
      var_name = None \<rparr>"

section \<open>The MATCH clause\<close>

text \<open>
  \<^verbatim>\<open>transform_cypher_match_pattern\<close>: with a predecessor, its columns open the
  target list; then the pattern is compiled.  (Marking the origins of the
  target list and assigning collations change nothing that is modelled.)
\<close>

definition transform_cypher_match_pattern ::
    "ag_consts \<Rightarrow> externs \<Rightarrow> transform_method \<Rightarrow> cypher_parsestate \<Rightarrow> cypher_clause \<Rightarrow>
     error + Query \<times> cypher_parsestate" where
  "transform_cypher_match_pattern c x transform_cypher_clause cpstate clause =
    (case self clause of
       Self_match pattern wh \<Rightarrow>
         ebind (case prev clause of
                  None \<Rightarrow> Inr (makeQuery, cpstate)
                | Some prev_clause \<Rightarrow>
                    ebind (transform_prev_cypher_clause x transform_cypher_clause cpstate
                             prev_clause) (\<lambda>(rte, st1).
                    let (tl1, st2) = expandRelAttrs st1 rte (length (p_rtable st1))
                    in Inr (makeQuery\<lparr> targetList := tl1 \<rparr>, st2))) (\<lambda>(query, st2).
         transform_match_pattern c x st2 query pattern)
     | _ \<Rightarrow> Inl Crash)"





definition bound_a_targets :: "TargetEntry list" where
  "bound_a_targets = [makeTargetEntry (FuncExpr ''_agtype_build_vertex'' []) 1 ''a'' False]"

text \<open>The state of a clause whose predecessor has the one output column \<open>a\<close>.\<close>

definition previous_a_state :: cypher_parsestate where
  "previous_a_state =
    addRTEtoQuery
      (snd (addRangeTableEntryForSubquery sample_state
              (makeQuery\<lparr> targetList := bound_a_targets \<rparr>) PREV_CYPHER_CLAUSE_ALIAS False True))
      1 True False True"

definition match_a :: cypher_clause where
  "match_a =
    Cypher_clause (Self_match [\<lparr> path = [Path_node (sample_node ''a'')], var_name = None \<rparr>] None)
      None True"

definition first_clause_transform :: transform_method where
  "first_clause_transform =
    transform_cypher_match_pattern age_consts sample_externs (\<lambda>cpstate clause. Inl Crash)"

text \<open>
  Named paths: \<open>p = (a)\<close>, \<open>p = (a)-[e]->(b)\<close> for MATCH and
  \<open>p = (a)\<close>, \<open>p = (a)-[:T]->(b)\<close> for CREATE.
\<close>

definition named_vertex_path :: cypher_path where
  "named_vertex_path = \<lparr> path = [Path_node (sample_node ''a'')], var_name = Some ''p'' \<rparr>"

definition named_one_hop_path :: cypher_path where
  "named_one_hop_path =
    \<lparr> path = [Path_node (sample_node ''a''), Path_rel (sample_rel ''e'' CYPHER_REL_DIR_RIGHT),
               Path_node (sample_node ''b'')],
      var_name = Some ''p'' \<rparr>"

definition named_create_path :: cypher_path where
  "named_create_path =
    \<lparr> path = [Path_node (sample_node ''a''),
               Path_rel ((sample_rel ''e'' CYPHER_REL_DIR_RIGHT)\<lparr> label := Some ''T'' \<rparr>),
               Path_node (sample_node ''b'')],
      var_name = Some ''p'' \<rparr>"

definition path_too_short :: error where
  "path_too_short =
    Ereport ERRCODE_FEATURE_NOT_SUPPORTED ''paths consist of alternating vertices and edges.''"

section \<open>Chains of clauses\<close>

text \<open>
  The parse state in which \<^verbatim>\<open>transform_cypher_clause_as_subquery\<close> and
  \<^verbatim>\<open>analyze_cypher_clause\<close> have the predecessor compiled: the child state of
  the current one, with the current expression kind (or that of a subselect
  when there is none).
\<close>

definition predecessor_state :: "externs \<Rightarrow> cypher_parsestate \<Rightarrow> cypher_parsestate" where
  "predecessor_state x cpstate =
    (let k = (if p_expr_kind cpstate = EXPR_KIND_NONE
              then EXPR_KIND_FROM_SUBSELECT else p_expr_kind cpstate)
     in (make_cypher_parsestate x
           (cpstate\<lparr> p_expr_kind := k, p_lateral_active := (k = EXPR_KIND_WHERE) \<rparr>))
        \<lparr> p_expr_kind := k \<rparr>)"

text \<open>Two target lists with the same columns: names, positions and junk marks agree.\<close>

definition same_columns :: "TargetEntry list \<Rightarrow> TargetEntry list \<Rightarrow> bool" where
  "same_columns tl1 tl2 =
    (map resname tl1 = map resname tl2 \<and> map resno tl1 = map resno tl2
     \<and> map resjunk tl1 = map resjunk tl2)"

text \<open>A reference to the variable \<open>v\<close>, and to its property \<open>p\<close>, as the parser builds them.\<close>

definition variable_ref :: "string \<Rightarrow> node" where
  "variable_ref v = ColumnRef [T_String (Some v)]"

definition property_ref :: "string \<Rightarrow> string \<Rightarrow> node" where
  "property_ref v p = A_Indirection (variable_ref v) [T_String (Some p)]"


text \<open>
  How DELETE, SET, REMOVE, MATCH and CREATE begin when there is a predecessor:
  it is compiled as a subquery and its columns open the target list.
\<close>

definition clause_entry ::
    "externs \<Rightarrow> transform_method \<Rightarrow> cypher_parsestate \<Rightarrow> cypher_clause \<Rightarrow>
     error + TargetEntry list \<times> cypher_parsestate" where
  "clause_entry x T cpstate pc =
    ebind (transform_prev_cypher_clause x T cpstate pc) (\<lambda>(rte, st1).
    Inr (expandRelAttrs st1 rte (length (p_rtable st1))))"

text \<open>
  A target list that keeps the columns of another one as its first columns.
\<close>

definition extends_columns :: "TargetEntry list \<Rightarrow> TargetEntry list \<Rightarrow> bool" where
  "extends_columns tl1 tl2 =
    (length tl1 \<le> length tl2 \<and> same_columns tl1 (take (length tl1) tl2))"

text \<open>
  A target list whose first columns are \<open>cols\<close>: same names, in the same
  order, numbered from 1, none of them junk.
\<close>

definition preserves_columns :: "string list \<Rightarrow> TargetEntry list \<Rightarrow> bool" where
  "preserves_columns cols target_list =
    (map resname (take (length cols) target_list) = cols
     \<and> map resno (take (length cols) target_list) = map (\<lambda>i. int i + 1) [0..<length cols]
     \<and> \<not> list_ex resjunk (take (length cols) target_list))"

text \<open>
  The chains \<open>MATCH (a) DELETE a\<close>, \<open>MATCH (a) REMOVE a.p\<close>,
  \<open>MATCH (a) SET a.p = 1\<close>, \<open>MATCH (a) SET a.p = 1, a.q = 2\<close> and
  \<open>MATCH (a) REMOVE b.p\<close>, and the same DELETE, REMOVE and SET with nothing
  before them.
\<close>

definition delete_of_a :: cypher_delete where
  "delete_of_a = \<lparr> exprs = [variable_ref ''a''], detach = False \<rparr>"

definition remove_of :: "string \<Rightarrow> cypher_set" where
  "remove_of v =
    \<lparr> items = [\<lparr> set_prop = property_ref v ''p'', set_expr = NullConst, is_add = False \<rparr>],
      is_remove = True \<rparr>"

definition set_of_a :: cypher_set where
  "set_of_a =
    \<lparr> items = [\<lparr> set_prop = property_ref ''a'' ''p'', set_expr = A_Const 1, is_add = False \<rparr>],
      is_remove = False \<rparr>"

definition set_of_two :: cypher_set where
  "set_of_two =
    \<lparr> items = [\<lparr> set_prop = property_ref ''a'' ''p'', set_expr = A_Const 1, is_add = False \<rparr>,
               \<lparr> set_prop = property_ref ''a'' ''q'', set_expr = A_Const 2, is_add = False \<rparr>],
      is_remove = False \<rparr>"

definition after_match_a :: "clause_self \<Rightarrow> cypher_clause" where
  "after_match_a slf = Cypher_clause slf (Some match_a) False"

definition first_clause :: "clause_self \<Rightarrow> cypher_clause" where
  "first_clause slf = Cypher_clause slf None False"

section \<open>Expressions for SKIP and LIMIT\<close>

text \<open>
  A stand-in for the expression transformation that resolves a name to the
  visible column that has it, inside operators too, and leaves the rest as it
  is; the other collaborators are those of \<open>sample_externs\<close>.
\<close>

fun resolve_columns :: "cypher_parsestate \<Rightarrow> node \<Rightarrow> node" where
  "resolve_columns cpstate (ColumnRef fs) =
    (case fs of
       [T_String (Some v)] \<Rightarrow>
         (case visible_column (p_rtable cpstate) (p_namespace cpstate) v of
            Some var \<Rightarrow> var
          | None \<Rightarrow> ColumnRef fs)
     | _ \<Rightarrow> ColumnRef fs)"
| "resolve_columns cpstate (A_Expr k nm l r) =
    A_Expr k nm (resolve_columns cpstate l) (resolve_columns cpstate r)"
| "resolve_columns cpstate n = n"

definition resolving_externs :: externs where
  "resolving_externs =
    sample_externs\<lparr> transform_cypher_expr :=
      (\<lambda>cpstate n k. Inr (resolve_columns cpstate n, cpstate)) \<rparr>"

text \<open>The expressions \<open>a\<close>, \<open>5\<close>, \<open>1 + 2\<close> and \<open>a + 1\<close>.\<close>

definition limit_variable :: node where
  "limit_variable = variable_ref ''a''"

definition limit_literal :: node where
  "limit_literal = A_Const 5"

definition limit_sum :: node where
  "limit_sum = A_Expr AEXPR_OP ''+'' (A_Const 1) (A_Const 2)"

definition limit_variable_sum :: node where
  "limit_variable_sum = A_Expr AEXPR_OP ''+'' (variable_ref ''a'') (A_Const 1)"

section \<open>A clause that drops a variable\<close>

text \<open>
  \<^verbatim>\<open>transform_cypher_return\<close> on the clause \<open>WITH 1 AS x\<close>, which has no
  ordering, DISTINCT, SKIP or LIMIT: the predecessor is compiled as a subquery
  and the target list is the one item.  The chain is \<open>MATCH (a) WITH 1 AS x\<close>.
\<close>

definition with_literal_x :: transform_method where
  "with_literal_x cpstate clause =
    (case prev clause of
       None \<Rightarrow> Inl Crash
     | Some pc \<Rightarrow>
         ebind (transform_prev_cypher_clause sample_externs first_clause_transform cpstate pc)
           (\<lambda>(rte, st1).
         ebind (transform_cypher_item sample_externs st1 (A_Const 1) None
                  EXPR_KIND_SELECT_TARGET (Some ''x'') False) (\<lambda>(te, st2).
         Inr (\<lparr> targetList = [te], rtable = p_rtable st2,
                jointree = \<lparr> fromlist = p_joinlist st2, quals = None \<rparr> \<rparr>, st2))))"

definition with_after_match_a :: cypher_clause where
  "with_after_match_a = Cypher_clause (Self_other 0) (Some match_a) True"

section \<open>What a qualifier reads of an entity\<close>

text \<open>
  The value of a column of an entity, as a qualifier writes it.  An entity
  bound by an earlier clause is a variable of the subquery, and its column is
  read with the accessor function of the column; an entity of the current
  clause has a relation of its own, named after it, and its column is read
  from that relation and cast to agtype.
\<close>

definition column_access :: "transform_entity \<Rightarrow> string \<Rightarrow> string \<Rightarrow> node" where
  "column_access ent col accessor =
    (let of_relation =
           FuncCall [''ag_catalog'', ''graphid_to_agtype'']
             [ColumnRef [T_String (union_name (entity ent)), T_String (Some col)]]
     in case transform_entity.expr ent of
          None \<Rightarrow> of_relation
        | Some e \<Rightarrow>
            if is_Var e then FuncCall [''ag_catalog'', accessor] [e] else of_relation)"

text \<open>The id of a vertex; the id, the start and the end of an edge.\<close>

definition vertex_id :: "ag_consts \<Rightarrow> transform_entity \<Rightarrow> node" where
  "vertex_id c v = column_access v (AG_VERTEX_COLNAME_ID c) (AG_VERTEX_ACCESS_FUNCTION_ID c)"

definition edge_id :: "ag_consts \<Rightarrow> transform_entity \<Rightarrow> node" where
  "edge_id c e = column_access e (AG_EDGE_COLNAME_ID c) (AG_EDGE_ACCESS_FUNCTION_ID c)"

definition edge_start_id :: "ag_consts \<Rightarrow> transform_entity \<Rightarrow> node" where
  "edge_start_id c e =
    column_access e (AG_EDGE_COLNAME_START_ID c) (AG_EDGE_ACCESS_FUNCTION_START_ID c)"

definition edge_end_id :: "ag_consts \<Rightarrow> transform_entity \<Rightarrow> node" where
  "edge_end_id c e =
    column_access e (AG_EDGE_COLNAME_END_ID c) (AG_EDGE_ACCESS_FUNCTION_END_ID c)"

text \<open>
  The equalities of a path whose edges all point right, in path order: for
  each edge, its start is the id of the vertex before it and its end is the
  id of the vertex after it.
\<close>

fun right_path_equalities :: "ag_consts \<Rightarrow> transform_entity list \<Rightarrow> node list" where
  "right_path_equalities c (a # e # b # rest) =
     A_Expr AEXPR_OP ''='' (edge_start_id c e) (vertex_id c a)
     # A_Expr AEXPR_OP ''='' (edge_end_id c e) (vertex_id c b)
     # right_path_equalities c (b # rest)"
| "right_path_equalities c ents = []"

text \<open>The edge entities of a path, in path order.\<close>

definition edges_of :: "transform_entity list \<Rightarrow> transform_entity list" where
  "edges_of ents = filter (\<lambda>ent. type ent = ENT_EDGE) ents"

text \<open>The name an element of a pattern is written with.\<close>

fun element_name :: "path_element \<Rightarrow> string option" where
  "element_name (Path_node n) = name n"
| "element_name (Path_rel r) = name r"

section \<open>A variable of the preceding clause\<close>






section \<open>Proofs: the join conditions of a MATCH path\<close>

lemma ebind_Inr: "ebind m f = Inr r \<Longrightarrow> \<exists>v. m = Inr v \<and> f v = Inr r"
  by (cases m) (simp_all add: ebind_def)



lemma make_qual_not_Var:
  "transform_entity.expr ent = Some e \<Longrightarrow> \<not> is_Var e \<Longrightarrow>
     make_qual c ent col =
       Inr (FuncCall [''ag_catalog'', ''graphid_to_agtype'']
              [ColumnRef [T_String (union_name (entity ent)), T_String (Some col)]])"
  by (simp add: make_qual_def)

lemma make_qual_vertex_id:
  assumes "type v = ENT_VERTEX" and "transform_entity.expr v \<noteq> None"
    and "AG_VERTEX_COLNAME_ID c = AG_EDGE_COLNAME_ID c"
  shows "\<exists>q. make_qual c v (AG_EDGE_COLNAME_ID c) = Inr q \<and> \<not> contains_or q"
proof -
  from assms(2) obtain e where e: "transform_entity.expr v = Some e" by auto
  show ?thesis
  proof (cases "is_Var e")
    case True
    then obtain a b l where "e = Var a b l" by (cases e) auto
    with e assms(1,3) show ?thesis by (simp add: make_qual_def ebind_def)
  next
    case False
    with e show ?thesis by (simp add: make_qual_not_Var)
  qed
qed

lemma make_qual_edge_start:
  assumes "type e = ENT_EDGE" and "transform_entity.expr e \<noteq> None"
  shows "\<exists>q. make_qual c e (AG_EDGE_COLNAME_START_ID c) = Inr q \<and> \<not> contains_or q"
proof -
  from assms(2) obtain ex where ex: "transform_entity.expr e = Some ex" by auto
  show ?thesis
  proof (cases "is_Var ex")
    case True
    then obtain a b l where "ex = Var a b l" by (cases ex) auto
    with ex assms(1) show ?thesis by (simp add: make_qual_def ebind_def)
  next
    case False
    with ex show ?thesis by (simp add: make_qual_not_Var)
  qed
qed

lemma make_qual_edge_end:
  assumes "type e = ENT_EDGE" and "transform_entity.expr e \<noteq> None"
  shows "\<exists>q. make_qual c e (AG_EDGE_COLNAME_END_ID c) = Inr q \<and> \<not> contains_or q"
proof -
  from assms(2) obtain ex where ex: "transform_entity.expr e = Some ex" by auto
  show ?thesis
  proof (cases "is_Var ex")
    case True
    then obtain a b l where "ex = Var a b l" by (cases ex) auto
    with ex assms(1) show ?thesis by (simp add: make_qual_def ebind_def)
  next
    case False
    with ex show ?thesis by (simp add: make_qual_not_Var)
  qed
qed

lemma right_edge_type: "right_edge e \<Longrightarrow> type e = ENT_EDGE"
  by (cases "entity e") (auto simp: right_edge_def type_def)

lemma right_edge_join:
  assumes "joined_vertex a" and "joined_vertex b" and "right_edge e"
    and "AG_VERTEX_COLNAME_ID c = AG_EDGE_COLNAME_ID c"
  shows "\<exists>q1 q2. make_join_condition_for_edge c cpstate prev_edge a e b next_edge = Inr [q1, q2]
           \<and> is_equality q1 \<and> is_equality q2 \<and> \<not> contains_or q1 \<and> \<not> contains_or q2"
proof -
  from assms(3) have te: "type e = ENT_EDGE" by (rule right_edge_type)
  from assms(3) have ee: "transform_entity.expr e \<noteq> None" by (simp add: right_edge_def)
  obtain s where s: "make_qual c e (AG_EDGE_COLNAME_START_ID c) = Inr s" "\<not> contains_or s"
    using make_qual_edge_start[OF te ee] by blast
  obtain t where t: "make_qual c e (AG_EDGE_COLNAME_END_ID c) = Inr t" "\<not> contains_or t"
    using make_qual_edge_end[OF te ee] by blast
  obtain qa where qa: "make_qual c a (AG_EDGE_COLNAME_ID c) = Inr qa" "\<not> contains_or qa"
    using make_qual_vertex_id[of a c] assms(1,4) by (auto simp: joined_vertex_def)
  obtain qb where qb: "make_qual c b (AG_EDGE_COLNAME_ID c) = Inr qb" "\<not> contains_or qb"
    using make_qual_vertex_id[of b c] assms(2,4) by (auto simp: joined_vertex_def)
  have "make_join_condition_for_edge c cpstate prev_edge a e b next_edge =
          Inr [A_Expr AEXPR_OP ''='' s qa, A_Expr AEXPR_OP ''='' t qb]"
    using assms(1,2,3) s(1) t(1) qa(1) qb(1)
    by (simp add: make_join_condition_for_edge_def make_directed_edge_join_conditions_def
          join_to_entity_def ebind_def makeSimpleA_Expr_def joined_vertex_def right_edge_def
          split: option.splits)
  with s t qa qb show ?thesis by simp
qed

lemma right_path_loop:
  "right_path rest \<Longrightarrow> joined_vertex prev_node \<Longrightarrow> right_edge edge \<Longrightarrow>
    AG_VERTEX_COLNAME_ID c = AG_EDGE_COLNAME_ID c \<Longrightarrow>
    \<exists>quals. make_path_join_quals_loop c cpstate prev_edge prev_node edge rest = Inr quals
       \<and> length quals = 2 * (1 + edge_count rest)
       \<and> (\<forall>q\<in>set quals. is_equality q \<and> \<not> contains_or q)"
proof (induction rest arbitrary: prev_edge prev_node edge rule: right_path.induct)
  case 1
  then show ?case by simp
next
  case (2 v)
  then have v: "joined_vertex v" by simp
  from right_edge_join[OF "2.prems"(2) v "2.prems"(3,4), of cpstate prev_edge None]
  obtain q1 q2 where
    "make_join_condition_for_edge c cpstate prev_edge prev_node edge v None = Inr [q1, q2]"
    "is_equality q1" "is_equality q2" "\<not> contains_or q1" "\<not> contains_or q2" by blast
  moreover have "edge_count [v] = 0" using v by (simp add: edge_count_def joined_vertex_def)
  ultimately show ?case by simp
next
  case (3 v e rest)
  then have v: "joined_vertex v" and e: "right_edge e" and r: "right_path rest" by simp_all
  from right_edge_join[OF "3.prems"(2) v "3.prems"(3,4), of cpstate prev_edge "Some e"]
  obtain q1 q2 where j:
    "make_join_condition_for_edge c cpstate prev_edge prev_node edge v (Some e) = Inr [q1, q2]"
    "is_equality q1" "is_equality q2" "\<not> contains_or q1" "\<not> contains_or q2" by blast
  from "3.IH"[OF r v e "3.prems"(4), of "Some edge"]
  obtain quals where q: "make_path_join_quals_loop c cpstate (Some edge) v e rest = Inr quals"
    "length quals = 2 * (1 + edge_count rest)"
    "\<forall>q\<in>set quals. is_equality q \<and> \<not> contains_or q" by blast
  have ec: "edge_count (v # e # rest) = 1 + edge_count rest"
    using v right_edge_type[OF e] by (simp add: edge_count_def joined_vertex_def)
  show ?case using j q ec by (simp add: ebind_def)
qed

lemma make_qual_vertex_id_value:
  assumes "type v = ENT_VERTEX" and "transform_entity.expr v \<noteq> None"
    and "AG_VERTEX_COLNAME_ID c = AG_EDGE_COLNAME_ID c"
  shows "make_qual c v (AG_EDGE_COLNAME_ID c) = Inr (vertex_id c v)"
  using assms
  by (auto simp: make_qual_def vertex_id_def column_access_def ebind_def)

lemma make_qual_edge_id_value:
  assumes "type e = ENT_EDGE" and "transform_entity.expr e \<noteq> None"
  shows "make_qual c e (AG_EDGE_COLNAME_ID c) = Inr (edge_id c e)"
  using assms
  by (auto simp: make_qual_def edge_id_def column_access_def ebind_def)

lemma make_qual_edge_start_value:
  assumes "type e = ENT_EDGE" and "transform_entity.expr e \<noteq> None"
    and "AG_EDGE_COLNAME_START_ID c \<noteq> AG_EDGE_COLNAME_ID c"
  shows "make_qual c e (AG_EDGE_COLNAME_START_ID c) = Inr (edge_start_id c e)"
  using assms
  by (auto simp: make_qual_def edge_start_id_def column_access_def ebind_def)

lemma make_qual_edge_end_value:
  assumes "type e = ENT_EDGE" and "transform_entity.expr e \<noteq> None"
    and "AG_EDGE_COLNAME_END_ID c \<noteq> AG_EDGE_COLNAME_ID c"
    and "AG_EDGE_COLNAME_END_ID c \<noteq> AG_EDGE_COLNAME_START_ID c"
  shows "make_qual c e (AG_EDGE_COLNAME_END_ID c) = Inr (edge_end_id c e)"
  using assms
  by (auto simp: make_qual_def edge_end_id_def column_access_def ebind_def)

lemma right_edge_join_value:
  assumes "joined_vertex a" and "joined_vertex b" and "right_edge e"
    and "AG_VERTEX_COLNAME_ID c = AG_EDGE_COLNAME_ID c"
    and "distinct [AG_EDGE_COLNAME_ID c, AG_EDGE_COLNAME_START_ID c, AG_EDGE_COLNAME_END_ID c]"
  shows "make_join_condition_for_edge c cpstate prev_edge a e b next_edge =
           Inr [A_Expr AEXPR_OP ''='' (edge_start_id c e) (vertex_id c a),
                A_Expr AEXPR_OP ''='' (edge_end_id c e) (vertex_id c b)]"
proof -
  from assms(3) have te: "type e = ENT_EDGE" by (rule right_edge_type)
  from assms(3) have ee: "transform_entity.expr e \<noteq> None" by (simp add: right_edge_def)
  from assms(5) have s: "make_qual c e (AG_EDGE_COLNAME_START_ID c) = Inr (edge_start_id c e)"
    by (intro make_qual_edge_start_value[OF te ee]) auto
  from assms(5) have t: "make_qual c e (AG_EDGE_COLNAME_END_ID c) = Inr (edge_end_id c e)"
    by (intro make_qual_edge_end_value[OF te ee]) auto
  have qa: "make_qual c a (AG_EDGE_COLNAME_ID c) = Inr (vertex_id c a)"
    using make_qual_vertex_id_value[of a c] assms(1,4) by (simp add: joined_vertex_def)
  have qb: "make_qual c b (AG_EDGE_COLNAME_ID c) = Inr (vertex_id c b)"
    using make_qual_vertex_id_value[of b c] assms(2,4) by (simp add: joined_vertex_def)
  show ?thesis
    using assms(1,2,3) s t qa qb
    by (simp add: make_join_condition_for_edge_def make_directed_edge_join_conditions_def
          join_to_entity_def ebind_def makeSimpleA_Expr_def joined_vertex_def right_edge_def
          split: option.splits)
qed

lemma right_path_loop_value:
  "right_path rest \<Longrightarrow> joined_vertex prev_node \<Longrightarrow> right_edge edge \<Longrightarrow>
    AG_VERTEX_COLNAME_ID c = AG_EDGE_COLNAME_ID c \<Longrightarrow>
    distinct [AG_EDGE_COLNAME_ID c, AG_EDGE_COLNAME_START_ID c, AG_EDGE_COLNAME_END_ID c] \<Longrightarrow>
    make_path_join_quals_loop c cpstate prev_edge prev_node edge rest =
      Inr (right_path_equalities c (prev_node # edge # rest))"
proof (induction rest arbitrary: prev_edge prev_node edge rule: right_path.induct)
  case 1
  then show ?case by simp
next
  case (2 v)
  then have v: "joined_vertex v" by simp
  from right_edge_join_value[OF "2.prems"(2) v "2.prems"(3,4,5), of cpstate prev_edge None]
  show ?case by simp
next
  case (3 v e rest)
  then have v: "joined_vertex v" and e: "right_edge e" and r: "right_path rest" by simp_all
  from right_edge_join_value[OF "3.prems"(2) v "3.prems"(3,4,5), of cpstate prev_edge "Some e"]
  have j: "make_join_condition_for_edge c cpstate prev_edge prev_node edge v (Some e) =
      Inr [A_Expr AEXPR_OP ''='' (edge_start_id c edge) (vertex_id c prev_node),
           A_Expr AEXPR_OP ''='' (edge_end_id c edge) (vertex_id c v)]" .
  from "3.IH"[OF r v e "3.prems"(4,5), of "Some edge"]
  have "make_path_join_quals_loop c cpstate (Some edge) v e rest =
      Inr (right_path_equalities c (v # e # rest))" .
  with j show ?case by (simp add: ebind_def)
qed

lemma right_path_quals_value:
  assumes "right_path ents" and "AG_VERTEX_COLNAME_ID c = AG_EDGE_COLNAME_ID c"
    and "distinct [AG_EDGE_COLNAME_ID c, AG_EDGE_COLNAME_START_ID c, AG_EDGE_COLNAME_END_ID c]"
  shows "make_path_join_quals c cpstate ents = Inr (right_path_equalities c ents)"
proof (cases ents)
  case Nil
  with assms show ?thesis by simp
next
  case (Cons v rest)
  show ?thesis
  proof (cases rest)
    case Nil
    with Cons assms show ?thesis by (simp add: make_path_join_quals_def)
  next
    case (Cons e rest')
    with \<open>ents = v # rest\<close> assms(1)
    have v: "joined_vertex v" and e: "right_edge e" and r: "right_path rest'"
      by simp_all
    from r have "rest' \<noteq> []" by (cases rest') auto
    then have len: "\<not> length ents < 3" using Cons \<open>ents = v # rest\<close> by (cases rest') auto
    from right_path_loop_value[OF r v e assms(2,3), of cpstate None] len Cons \<open>ents = v # rest\<close>
    show ?thesis by (simp add: make_path_join_quals_def)
  qed
qed

text \<open>
  Claim C2, amended.  For a path of \<open>k\<close> edges that all point right and whose
  vertices are all in the join tree, \<open>make_path_join_quals\<close> succeeds and
  returns exactly \<open>2 * k\<close> qualifiers.  Every one is an equality and none
  contains an OR.  They are, in path order and for each edge, the equality of
  the start of the edge (on the left) with the id of the vertex before it,
  and the equality of the end of the edge with the id of the vertex after it.
  The id column of a vertex and of an edge must have the same name, which
  \<open>make_qual\<close> needs to find the accessor of a vertex bound by an earlier
  clause; which two equalities an edge gets is stated for column names of an
  edge that differ from each other.
\<close>

theorem C2_right_path_two_equalities_per_edge:
  assumes "right_path ents" and "AG_VERTEX_COLNAME_ID c = AG_EDGE_COLNAME_ID c"
  shows "\<exists>quals. make_path_join_quals c cpstate ents = Inr quals
           \<and> length quals = 2 * edge_count ents
           \<and> (\<forall>q\<in>set quals. is_equality q \<and> \<not> contains_or q)
           \<and> (distinct [AG_EDGE_COLNAME_ID c, AG_EDGE_COLNAME_START_ID c,
                         AG_EDGE_COLNAME_END_ID c]
              \<longrightarrow> quals = right_path_equalities c ents)"
proof (cases ents)
  case Nil
  with assms show ?thesis by simp
next
  case (Cons v rest)
  show ?thesis
  proof (cases rest)
    case Nil
    with Cons assms show ?thesis
      by (simp add: make_path_join_quals_def edge_count_def joined_vertex_def)
  next
    case (Cons e rest')
    with \<open>ents = v # rest\<close> assms(1)
    have v: "joined_vertex v" and e: "right_edge e" and r: "right_path rest'"
      by simp_all
    from r have "rest' \<noteq> []" by (cases rest') auto
    then have len: "\<not> length ents < 3" using Cons \<open>ents = v # rest\<close> by (cases rest') auto
    from right_path_loop[OF r v e assms(2), of cpstate None]
    obtain quals where q: "make_path_join_quals_loop c cpstate None v e rest' = Inr quals"
      "length quals = 2 * (1 + edge_count rest')"
      "\<forall>q\<in>set quals. is_equality q \<and> \<not> contains_or q" by blast
    have ec: "edge_count ents = 1 + edge_count rest'"
      using v right_edge_type[OF e] Cons \<open>ents = v # rest\<close>
      by (simp add: edge_count_def joined_vertex_def)
    have res: "make_path_join_quals c cpstate ents = Inr quals"
      using q(1) len Cons \<open>ents = v # rest\<close> by (simp add: make_path_join_quals_def)
    have "distinct [AG_EDGE_COLNAME_ID c, AG_EDGE_COLNAME_START_ID c, AG_EDGE_COLNAME_END_ID c]
        \<longrightarrow> quals = right_path_equalities c ents"
      using right_path_quals_value[OF assms, of cpstate] res by auto
    with res q(2,3) ec show ?thesis by simp
  qed
qed

lemma sample_vertex_joined: "joined_vertex (sample_vertex nm)"
  by (simp add: joined_vertex_def sample_vertex_def make_transform_entity_def type_def)

lemma sample_edge_right: "right_edge (sample_edge nm CYPHER_REL_DIR_RIGHT)"
  by (simp add: right_edge_def sample_edge_def sample_rel_def make_transform_entity_def)

lemma two_hops_right_path: "right_path two_hops"
  by (simp add: two_hops_def sample_vertex_joined sample_edge_right)

lemma two_hops_edge_count: "edge_count two_hops = 2"
  by (simp add: two_hops_def edge_count_def sample_vertex_def sample_edge_def
        make_transform_entity_def type_def)

text \<open>
  The claim as stated promises \<open>k + 1\<close> equalities.  The path
  \<open>(a)-[e]->(b)-[f]->(c)\<close> has two edges and gets four equalities, not three.
\<close>

theorem C2_counterexample:
  "right_path two_hops \<and> edge_count two_hops = 2 \<and>
   (\<exists>quals. make_path_join_quals age_consts sample_state two_hops = Inr quals
      \<and> list_all is_equality quals \<and> length quals = 4
      \<and> length quals \<noteq> edge_count two_hops + 1)"
  by (simp add: two_hops_right_path two_hops_edge_count)
     (simp add: two_hops_def make_path_join_quals_def make_join_condition_for_edge_def
        make_directed_edge_join_conditions_def join_to_entity_def make_qual_def ebind_def
        makeSimpleA_Expr_def sample_vertex_def sample_edge_def sample_node_def sample_rel_def
        make_transform_entity_def type_def age_consts_def)

theorem C2_witness:
  "make_path_join_quals age_consts sample_state two_hops =
   Inr [A_Expr AEXPR_OP ''=''
         (FuncCall [''ag_catalog'', ''graphid_to_agtype'']
            [ColumnRef [T_String (Some ''e''), T_String (Some ''start_id'')]])
         (FuncCall [''ag_catalog'', ''graphid_to_agtype'']
            [ColumnRef [T_String (Some ''a''), T_String (Some ''id'')]]),
        A_Expr AEXPR_OP ''=''
         (FuncCall [''ag_catalog'', ''graphid_to_agtype'']
            [ColumnRef [T_String (Some ''e''), T_String (Some ''end_id'')]])
         (FuncCall [''ag_catalog'', ''graphid_to_agtype'']
            [ColumnRef [T_String (Some ''b''), T_String (Some ''id'')]]),
        A_Expr AEXPR_OP ''=''
         (FuncCall [''ag_catalog'', ''graphid_to_agtype'']
            [ColumnRef [T_String (Some ''f''), T_String (Some ''start_id'')]])
         (FuncCall [''ag_catalog'', ''graphid_to_agtype'']
            [ColumnRef [T_String (Some ''b''), T_String (Some ''id'')]]),
        A_Expr AEXPR_OP ''=''
         (FuncCall [''ag_catalog'', ''graphid_to_agtype'']
            [ColumnRef [T_String (Some ''f''), T_String (Some ''end_id'')]])
         (FuncCall [''ag_catalog'', ''graphid_to_agtype'']
            [ColumnRef [T_String (Some ''c''), T_String (Some ''id'')]])]
 \<and> (\<exists>quals. make_path_join_quals age_consts sample_state two_hops = Inr quals
      \<and> length quals = 4 \<and> list_all is_equality quals \<and> \<not> list_ex contains_or quals)"
proof -
  have same: "AG_VERTEX_COLNAME_ID age_consts = AG_EDGE_COLNAME_ID age_consts"
    by (simp add: age_consts_def)
  have dist: "distinct [AG_EDGE_COLNAME_ID age_consts, AG_EDGE_COLNAME_START_ID age_consts,
                        AG_EDGE_COLNAME_END_ID age_consts]"
    by (simp add: age_consts_def)
  from C2_right_path_two_equalities_per_edge [OF two_hops_right_path same, of sample_state]
  obtain quals where q: "make_path_join_quals age_consts sample_state two_hops = Inr quals"
    "length quals = 2 * edge_count two_hops"
    "\<forall>q\<in>set quals. is_equality q \<and> \<not> contains_or q"
    "quals = right_path_equalities age_consts two_hops"
    using dist by blast
  have "right_path_equalities age_consts two_hops =
    [A_Expr AEXPR_OP ''=''
       (FuncCall [''ag_catalog'', ''graphid_to_agtype'']
          [ColumnRef [T_String (Some ''e''), T_String (Some ''start_id'')]])
       (FuncCall [''ag_catalog'', ''graphid_to_agtype'']
          [ColumnRef [T_String (Some ''a''), T_String (Some ''id'')]]),
     A_Expr AEXPR_OP ''=''
       (FuncCall [''ag_catalog'', ''graphid_to_agtype'']
          [ColumnRef [T_String (Some ''e''), T_String (Some ''end_id'')]])
       (FuncCall [''ag_catalog'', ''graphid_to_agtype'']
          [ColumnRef [T_String (Some ''b''), T_String (Some ''id'')]]),
     A_Expr AEXPR_OP ''=''
       (FuncCall [''ag_catalog'', ''graphid_to_agtype'']
          [ColumnRef [T_String (Some ''f''), T_String (Some ''start_id'')]])
       (FuncCall [''ag_catalog'', ''graphid_to_agtype'']
          [ColumnRef [T_String (Some ''b''), T_String (Some ''id'')]]),
     A_Expr AEXPR_OP ''=''
       (FuncCall [''ag_catalog'', ''graphid_to_agtype'']
          [ColumnRef [T_String (Some ''f''), T_String (Some ''end_id'')]])
       (FuncCall [''ag_catalog'', ''graphid_to_agtype'']
          [ColumnRef [T_String (Some ''c''), T_String (Some ''id'')]])]"
    by (simp add: two_hops_def edge_start_id_def edge_end_id_def vertex_id_def column_access_def
          sample_vertex_def sample_edge_def sample_node_def sample_rel_def
          make_transform_entity_def age_consts_def)
  with q show ?thesis
    by (auto simp: two_hops_edge_count list_all_iff list_ex_iff)
qed

section \<open>Proofs: the qualifiers of a MATCH path\<close>

lemma transform_match_vertex_type:
  "transform_match_vertex c x pth cpstate tl0 nd = Inr (ent, tl1, st1) \<Longrightarrow> type ent = ENT_VERTEX"
  unfolding transform_match_vertex_def
  by (auto dest!: ebind_Inr simp: make_transform_entity_def type_def Let_def split: prod.splits)

lemma transform_match_edge_type:
  "transform_match_edge c x cpstate tl0 rel = Inr (ent, tl1, st1) \<Longrightarrow> type ent = ENT_EDGE"
  unfolding transform_match_edge_def
  by (auto dest!: ebind_Inr simp: make_transform_entity_def type_def Let_def split: prod.splits)

text \<open>
  What the entity loop returns has one entity per element, an edge entity
  exactly for the relationships, and the relationships sit at the odd
  positions.
\<close>

lemma entities_loop_shape:
  "transform_match_entities_loop c x pth i els cpstate tl0 = Inr (ents, tl1, st1) \<Longrightarrow>
     length ents = length els \<and>
     edge_count ents = length (filter is_rel els) \<and>
     length (filter is_rel els) = (if i mod 2 = 0 then length els div 2 else (length els + 1) div 2)"
proof (induction els arbitrary: i cpstate tl0 ents tl1 st1)
  case Nil
  then show ?case by (simp add: edge_count_def)
next
  case (Cons el rest)
  from Cons.prems obtain ent tla sta ents' where
    step: "(if i mod 2 = 0 then
             (case el of Path_node nd \<Rightarrow> transform_match_vertex c x pth cpstate tl0 nd
              | Path_rel r \<Rightarrow> Inl Crash)
           else
             (case el of Path_rel rel \<Rightarrow> transform_match_edge c x cpstate tl0 rel
              | Path_node n \<Rightarrow> Inl Crash)) = Inr (ent, tla, sta)"
    and rec: "transform_match_entities_loop c x pth (i + 1) rest sta tla = Inr (ents', tl1, st1)"
    and ents: "ents = ent # ents'"
    by (auto dest!: ebind_Inr split: prod.splits)
  from Cons.IH[OF rec] have ih: "length ents' = length rest"
    "edge_count ents' = length (filter is_rel rest)"
    "length (filter is_rel rest) =
       (if (i + 1) mod 2 = 0 then length rest div 2 else (length rest + 1) div 2)"
    by simp_all
  show ?case
  proof (cases "i mod 2 = 0")
    case True
    with step obtain nd where el: "el = Path_node nd"
      and v: "transform_match_vertex c x pth cpstate tl0 nd = Inr (ent, tla, sta)"
      by (cases el) auto
    have "(i + 1) mod 2 \<noteq> 0" using True by presburger
    with ih el ents True transform_match_vertex_type[OF v] show ?thesis
      by (simp add: edge_count_def)
  next
    case False
    with step obtain rel where el: "el = Path_rel rel"
      and v: "transform_match_edge c x cpstate tl0 rel = Inr (ent, tla, sta)"
      by (cases el) auto
    have "(i + 1) mod 2 = 0" using False by presburger
    with ih el ents False transform_match_edge_type[OF v] show ?thesis
      by (simp add: edge_count_def)
  qed
qed

lemma edge_id_quals_length:
  "edge_id_quals c ents = Inr edges \<Longrightarrow> length edges = edge_count ents"
  by (induction ents arbitrary: edges) (auto dest!: ebind_Inr simp: edge_count_def split: if_splits)

text \<open>No join condition is a call of the edge-uniqueness function.\<close>

lemma directed_no_uniqueness:
  "make_directed_edge_join_conditions c cpstate pe ne pq nq pf nf = Inr qs \<Longrightarrow>
     \<not> list_ex is_edge_uniqueness qs"
  unfolding make_directed_edge_join_conditions_def join_to_entity_def
    filter_vertices_on_label_id_def makeSimpleA_Expr_def
  by (auto dest!: ebind_Inr simp: list_ex_iff
        split: if_splits option.splits transform_entity_type.splits list.splits)

lemma join_condition_no_uniqueness:
  "make_join_condition_for_edge c cpstate pe pn e nn ne = Inr qs \<Longrightarrow>
     \<not> list_ex is_edge_uniqueness qs"
  unfolding make_join_condition_for_edge_def Let_def makeBoolExpr_def
  by (auto dest!: ebind_Inr directed_no_uniqueness simp: list_ex_iff
        split: option.splits cypher_rel_dir.splits)

lemma join_loop_no_uniqueness:
  "make_path_join_quals_loop c cpstate pe pn e rest = Inr qs \<Longrightarrow>
     \<not> list_ex is_edge_uniqueness qs"
proof (induction c cpstate pe pn e rest arbitrary: qs rule: make_path_join_quals_loop.induct)
  case (1 c cpstate prev_edge prev_node edge)
  then show ?case by simp
next
  case (2 c cpstate prev_edge prev_node edge next_node)
  then show ?case by (simp add: join_condition_no_uniqueness)
next
  case (3 c cpstate prev_edge prev_node edge next_node next_edge rest)
  from "3.prems" obtain q1 q2 where
    a: "make_join_condition_for_edge c cpstate prev_edge prev_node edge next_node
          (Some next_edge) = Inr q1"
    and b: "make_path_join_quals_loop c cpstate (Some edge) next_node next_edge rest = Inr q2"
    and qs: "qs = q1 @ q2"
    by (auto dest!: ebind_Inr)
  from join_condition_no_uniqueness[OF a] "3.IH"[OF b] qs show ?case
    by (auto simp: list_ex_iff)
qed

lemma path_join_quals_no_uniqueness:
  "make_path_join_quals c cpstate ents = Inr qs \<Longrightarrow> \<not> list_ex is_edge_uniqueness qs"
  unfolding make_path_join_quals_def
  by (auto dest: join_loop_no_uniqueness split: if_splits list.splits)

lemma transform_cypher_node_name:
  "transform_cypher_node c x cpstate nd tl0 out = Inr (e, nd1, tl1, st1) \<Longrightarrow>
     name nd = None \<or> name nd1 = name nd"
  unfolding transform_cypher_node_def
  by (auto dest!: ebind_Inr simp: Let_def split: option.splits if_splits prod.splits)

lemma transform_cypher_edge_name:
  "transform_cypher_edge c x cpstate rel tl0 = Inr (e, rel1, tl1, st1) \<Longrightarrow>
     name rel = None \<or> name rel1 = name rel"
  unfolding transform_cypher_edge_def
  by (auto dest!: ebind_Inr simp: Let_def split: option.splits if_splits prod.splits)

lemma transform_match_vertex_name:
  "transform_match_vertex c x pth cpstate tl0 nd = Inr (ent, tl1, st1) \<Longrightarrow>
     name nd = None \<or> union_name (entity ent) = name nd"
  unfolding transform_match_vertex_def
  by (auto dest!: ebind_Inr transform_cypher_node_name
        simp: make_transform_entity_def Let_def split: prod.splits)

lemma transform_match_edge_name:
  "transform_match_edge c x cpstate tl0 rel = Inr (ent, tl1, st1) \<Longrightarrow>
     name rel = None \<or> union_name (entity ent) = name rel"
  unfolding transform_match_edge_def
  by (auto dest!: ebind_Inr transform_cypher_edge_name
        simp: make_transform_entity_def Let_def split: prod.splits)

text \<open>
  The entities stand for the elements of the path, one for one: an edge entity
  for a relationship, a vertex entity for a node, under the name the element
  is written with when it has one.
\<close>

lemma entities_loop_elements:
  "transform_match_entities_loop c x pth i els cpstate tl0 = Inr (ents, tl1, st1) \<Longrightarrow>
     map (\<lambda>ent. type ent = ENT_EDGE) ents = map is_rel els \<and>
     list_all2 (\<lambda>ent el. element_name el = None \<or> union_name (entity ent) = element_name el)
       ents els"
proof (induction els arbitrary: i cpstate tl0 ents tl1 st1)
  case Nil
  then show ?case by simp
next
  case (Cons el rest)
  from Cons.prems obtain ent tla sta ents' where
    step: "(if i mod 2 = 0 then
             (case el of Path_node nd \<Rightarrow> transform_match_vertex c x pth cpstate tl0 nd
              | Path_rel r \<Rightarrow> Inl Crash)
           else
             (case el of Path_rel rel \<Rightarrow> transform_match_edge c x cpstate tl0 rel
              | Path_node n \<Rightarrow> Inl Crash)) = Inr (ent, tla, sta)"
    and rec: "transform_match_entities_loop c x pth (i + 1) rest sta tla = Inr (ents', tl1, st1)"
    and ents: "ents = ent # ents'"
    by (auto dest!: ebind_Inr split: prod.splits)
  note ih = Cons.IH[OF rec]
  show ?case
  proof (cases "i mod 2 = 0")
    case True
    with step obtain nd where el: "el = Path_node nd"
      and v: "transform_match_vertex c x pth cpstate tl0 nd = Inr (ent, tla, sta)"
      by (cases el) auto
    from ih el ents transform_match_vertex_type[OF v] transform_match_vertex_name[OF v]
    show ?thesis by simp
  next
    case False
    with step obtain rel where el: "el = Path_rel rel"
      and v: "transform_match_edge c x cpstate tl0 rel = Inr (ent, tla, sta)"
      by (cases el) auto
    from ih el ents transform_match_edge_type[OF v] transform_match_edge_name[OF v]
    show ?thesis by simp
  qed
qed

text \<open>The arguments of the edge-uniqueness call are the ids of the edges.\<close>

lemma make_qual_edge_id_result:
  assumes "type e = ENT_EDGE" and "make_qual c e (AG_EDGE_COLNAME_ID c) = Inr q"
  shows "q = edge_id c e"
proof -
  from assms(2) have "transform_entity.expr e \<noteq> None"
    by (auto simp: make_qual_def split: option.splits)
  from make_qual_edge_id_value[OF assms(1) this, of c] assms(2) show ?thesis by simp
qed

lemma edge_id_quals_value:
  "edge_id_quals c ents = Inr edges \<Longrightarrow> edges = map (edge_id c) (edges_of ents)"
proof (induction ents arbitrary: edges)
  case Nil
  then show ?case by (simp add: edges_of_def)
next
  case (Cons ent rest)
  show ?case
  proof (cases "type ent = ENT_EDGE")
    case True
    with Cons.prems obtain q qs where
      a: "make_qual c ent (AG_EDGE_COLNAME_ID c) = Inr q"
      and b: "edge_id_quals c rest = Inr qs" and e: "edges = q # qs"
      by (auto dest!: ebind_Inr)
    from make_qual_edge_id_result[OF True a] Cons.IH[OF b] e True show ?thesis
      by (simp add: edges_of_def)
  next
    case False
    with Cons.prems Cons.IH[of edges] show ?thesis by (simp add: edges_of_def)
  qed
qed

text \<open>
  Claim C3.  When \<open>transform_match_path\<close> compiles a path, its entities
  stand for the elements of the path one for one, an edge entity for each
  relationship.  The qualifiers it returns are the join conditions of the
  path, none of which is a call of the edge-uniqueness function, followed by
  exactly one such call if and only if the path has at least two edges.  The
  arguments of that call are the ids of the edges of the path, every edge
  once and in path order: the id accessor applied to the variable of an edge
  bound by an earlier clause, the id column of its own relation for an edge
  of this clause.  A path with no edge or one edge gets the join conditions
  alone.
\<close>

theorem C3_edge_uniqueness_iff_two_edges:
  assumes "transform_match_path c x cpstate query pth = Inr (qual, query', cpstate')"
  shows "\<exists>ents q1 st1 join_quals.
           transform_match_entities c x cpstate query pth = Inr (ents, q1, st1)
         \<and> length ents = length (path pth)
         \<and> edge_count ents = path_edge_count pth
         \<and> map (\<lambda>ent. type ent = ENT_EDGE) ents = map is_rel (path pth)
         \<and> list_all2 (\<lambda>ent el. element_name el = None
                                 \<or> union_name (entity ent) = element_name el)
             ents (path pth)
         \<and> make_path_join_quals c cpstate' ents = Inr join_quals
         \<and> \<not> list_ex is_edge_uniqueness join_quals
         \<and> (if 2 \<le> path_edge_count pth
            then \<exists>edges. edge_id_quals c ents = Inr edges
                   \<and> edges = map (edge_id c) (edges_of ents)
                   \<and> length edges = path_edge_count pth
                   \<and> qual = join_quals @
                       [FuncCall [''ag_catalog'', ''_ag_enforce_edge_uniqueness'']
                          (map (edge_id c) (edges_of ents))]
            else qual = join_quals)"
proof -
  from assms obtain ents q1 st1 q2 st2 join_quals where
    ents: "transform_match_entities c x cpstate query pth = Inr (ents, q1, st1)"
    and jq: "make_path_join_quals c st2 ents = Inr join_quals"
    and rest: "(if length ents > 3 then
      ebind (prevent_duplicate_edges c ents) (\<lambda>duplicate_edge_qual.
      Inr (join_quals @ [duplicate_edge_qual], q2, st2))
    else Inr (join_quals, q2, st2)) = Inr (qual, query', cpstate')"
    unfolding transform_match_path_def
    by (auto dest!: ebind_Inr split: prod.splits)
  from rest have st: "st2 = cpstate'"
    by (auto dest!: ebind_Inr split: if_splits)
  from ents obtain tl1 where loop:
    "transform_match_entities_loop c x pth 0 (path pth) cpstate (targetList query) =
       Inr (ents, tl1, st1)"
    unfolding transform_match_entities_def by (auto dest!: ebind_Inr split: prod.splits)
  from entities_loop_shape[OF loop] have
    len: "length ents = length (path pth)"
    and cnt: "edge_count ents = path_edge_count pth"
    and half: "path_edge_count pth = length (path pth) div 2"
    by (simp_all add: path_edge_count_def)
  from entities_loop_elements[OF loop] have
    kinds: "map (\<lambda>ent. type ent = ENT_EDGE) ents = map is_rel (path pth)"
    and names: "list_all2 (\<lambda>ent el. element_name el = None
                                     \<or> union_name (entity ent) = element_name el)
                  ents (path pth)"
    by simp_all
  have gt: "length ents > 3 \<longleftrightarrow> 2 \<le> path_edge_count pth"
    using len half by presburger
  show ?thesis
  proof (cases "2 \<le> path_edge_count pth")
    case True
    with gt rest obtain edges where
      e: "edge_id_quals c ents = Inr edges"
      and q: "qual = join_quals @
                [FuncCall [''ag_catalog'', ''_ag_enforce_edge_uniqueness''] edges]"
      unfolding prevent_duplicate_edges_def by (auto dest!: ebind_Inr)
    from edge_id_quals_length[OF e] cnt have l: "length edges = path_edge_count pth" by simp
    note v = edge_id_quals_value[OF e]
    from True ents len cnt kinds names jq st e q l v path_join_quals_no_uniqueness[OF jq]
    show ?thesis by auto
  next
    case False
    with gt rest have "qual = join_quals" by simp
    with False ents len cnt kinds names jq st path_join_quals_no_uniqueness[OF jq]
    show ?thesis by auto
  qed
qed

lemma two_hop_path_quals:
  "map_sum id fst
     (transform_match_path age_consts sample_externs sample_state makeQuery two_hop_path) =
   Inr [A_Expr AEXPR_OP ''=''
         (FuncCall [''ag_catalog'', ''graphid_to_agtype'']
            [ColumnRef [T_String (Some ''e''), T_String (Some ''start_id'')]])
         (FuncCall [''ag_catalog'', ''graphid_to_agtype'']
            [ColumnRef [T_String (Some ''a''), T_String (Some ''id'')]]),
        A_Expr AEXPR_OP ''=''
         (FuncCall [''ag_catalog'', ''graphid_to_agtype'']
            [ColumnRef [T_String (Some ''e''), T_String (Some ''end_id'')]])
         (FuncCall [''ag_catalog'', ''graphid_to_agtype'']
            [ColumnRef [T_String (Some ''b''), T_String (Some ''id'')]]),
        A_Expr AEXPR_OP ''=''
         (FuncCall [''ag_catalog'', ''graphid_to_agtype'']
            [ColumnRef [T_String (Some ''f''), T_String (Some ''start_id'')]])
         (FuncCall [''ag_catalog'', ''graphid_to_agtype'']
            [ColumnRef [T_String (Some ''b''), T_String (Some ''id'')]]),
        A_Expr AEXPR_OP ''=''
         (FuncCall [''ag_catalog'', ''graphid_to_agtype'']
            [ColumnRef [T_String (Some ''f''), T_String (Some ''end_id'')]])
         (FuncCall [''ag_catalog'', ''graphid_to_agtype'']
            [ColumnRef [T_String (Some ''c''), T_String (Some ''id'')]]),
        FuncCall [''ag_catalog'', ''_ag_enforce_edge_uniqueness'']
         [FuncCall [''ag_catalog'', ''graphid_to_agtype'']
            [ColumnRef [T_String (Some ''e''), T_String (Some ''id'')]],
          FuncCall [''ag_catalog'', ''graphid_to_agtype'']
            [ColumnRef [T_String (Some ''f''), T_String (Some ''id'')]]]]"
  by code_simp

lemma map_sum_fst_Inr: "map_sum id fst r = Inr a \<Longrightarrow> \<exists>b. r = Inr (a, b)"
  by (cases r) auto

theorem C3_witness:
  "\<exists>qual query' cpstate' ents join_quals.
      transform_match_path age_consts sample_externs sample_state makeQuery two_hop_path =
        Inr (qual, query', cpstate')
    \<and> path_edge_count two_hop_path = 2
    \<and> edge_count ents = 2
    \<and> map (\<lambda>ent. type ent = ENT_EDGE) ents = [False, True, False, True, False]
    \<and> map (\<lambda>ent. union_name (entity ent)) ents =
        [Some ''a'', Some ''e'', Some ''b'', Some ''f'', Some ''c'']
    \<and> make_path_join_quals age_consts cpstate' ents = Inr join_quals
    \<and> \<not> list_ex is_edge_uniqueness join_quals
    \<and> map (edge_id age_consts) (edges_of ents) =
        [FuncCall [''ag_catalog'', ''graphid_to_agtype'']
           [ColumnRef [T_String (Some ''e''), T_String (Some ''id'')]],
         FuncCall [''ag_catalog'', ''graphid_to_agtype'']
           [ColumnRef [T_String (Some ''f''), T_String (Some ''id'')]]]
    \<and> qual = join_quals @
        [FuncCall [''ag_catalog'', ''_ag_enforce_edge_uniqueness'']
           [FuncCall [''ag_catalog'', ''graphid_to_agtype'']
              [ColumnRef [T_String (Some ''e''), T_String (Some ''id'')]],
            FuncCall [''ag_catalog'', ''graphid_to_agtype'']
              [ColumnRef [T_String (Some ''f''), T_String (Some ''id'')]]]]"
proof -
  let ?joins = "[A_Expr AEXPR_OP ''=''
         (FuncCall [''ag_catalog'', ''graphid_to_agtype'']
            [ColumnRef [T_String (Some ''e''), T_String (Some ''start_id'')]])
         (FuncCall [''ag_catalog'', ''graphid_to_agtype'']
            [ColumnRef [T_String (Some ''a''), T_String (Some ''id'')]]),
        A_Expr AEXPR_OP ''=''
         (FuncCall [''ag_catalog'', ''graphid_to_agtype'']
            [ColumnRef [T_String (Some ''e''), T_String (Some ''end_id'')]])
         (FuncCall [''ag_catalog'', ''graphid_to_agtype'']
            [ColumnRef [T_String (Some ''b''), T_String (Some ''id'')]]),
        A_Expr AEXPR_OP ''=''
         (FuncCall [''ag_catalog'', ''graphid_to_agtype'']
            [ColumnRef [T_String (Some ''f''), T_String (Some ''start_id'')]])
         (FuncCall [''ag_catalog'', ''graphid_to_agtype'']
            [ColumnRef [T_String (Some ''b''), T_String (Some ''id'')]]),
        A_Expr AEXPR_OP ''=''
         (FuncCall [''ag_catalog'', ''graphid_to_agtype'']
            [ColumnRef [T_String (Some ''f''), T_String (Some ''end_id'')]])
         (FuncCall [''ag_catalog'', ''graphid_to_agtype'']
            [ColumnRef [T_String (Some ''c''), T_String (Some ''id'')]])]"
  let ?ids = "[FuncCall [''ag_catalog'', ''graphid_to_agtype'']
                 [ColumnRef [T_String (Some ''e''), T_String (Some ''id'')]],
               FuncCall [''ag_catalog'', ''graphid_to_agtype'']
                 [ColumnRef [T_String (Some ''f''), T_String (Some ''id'')]]]"
  have two: "path_edge_count two_hop_path = 2"
    by (simp add: path_edge_count_def two_hop_path_def)
  from map_sum_fst_Inr[OF two_hop_path_quals] obtain b where
    "transform_match_path age_consts sample_externs sample_state makeQuery two_hop_path =
       Inr (?joins @ [FuncCall [''ag_catalog'', ''_ag_enforce_edge_uniqueness''] ?ids], b)"
    by auto
  then obtain query' cpstate' where
    r: "transform_match_path age_consts sample_externs sample_state makeQuery two_hop_path =
          Inr (?joins @ [FuncCall [''ag_catalog'', ''_ag_enforce_edge_uniqueness''] ?ids],
               query', cpstate')"
    by (cases b) auto
  from C3_edge_uniqueness_iff_two_edges [OF r] obtain ents q1 st1 join_quals where
    f: "length ents = length (path two_hop_path)"
      "edge_count ents = path_edge_count two_hop_path"
      "map (\<lambda>ent. type ent = ENT_EDGE) ents = map is_rel (path two_hop_path)"
      "list_all2 (\<lambda>ent el. element_name el = None
                            \<or> union_name (entity ent) = element_name el)
         ents (path two_hop_path)"
      "make_path_join_quals age_consts cpstate' ents = Inr join_quals"
      "\<not> list_ex is_edge_uniqueness join_quals"
    and q: "?joins @ [FuncCall [''ag_catalog'', ''_ag_enforce_edge_uniqueness''] ?ids] =
        join_quals @ [FuncCall [''ag_catalog'', ''_ag_enforce_edge_uniqueness'']
                        (map (edge_id age_consts) (edges_of ents))]"
    by (simp only: two) auto
  from q have ids: "map (edge_id age_consts) (edges_of ents) = ?ids"
    and jq: "join_quals = ?joins"
    by (simp_all only: append1_eq_conv node.inject)
  from f(3) have kinds: "map (\<lambda>ent. type ent = ENT_EDGE) ents = [False, True, False, True, False]"
    by (simp add: two_hop_path_def)
  from f(4) have names: "map (\<lambda>ent. union_name (entity ent)) ents =
        [Some ''a'', Some ''e'', Some ''b'', Some ''f'', Some ''c'']"
    by (auto simp: two_hop_path_def sample_node_def sample_rel_def list_all2_Cons2)
  from r f two ids jq kinds names show ?thesis by auto
qed

section \<open>Proofs: a variable met again in MATCH\<close>










section \<open>Proofs: path variables\<close>

lemma create_elements_length:
  "transform_create_path_elements c x in_path cpstate tl0 els = Inr (rels, tl1, st1) \<Longrightarrow>
     length rels = length els"
proof (induction els arbitrary: cpstate tl0 rels tl1 st1)
  case Nil
  then show ?case by simp
next
  case (Cons el rest)
  from Cons.prems obtain rel u tla sta rels' where
    rec: "transform_create_path_elements c x in_path
            (sta\<lparr> entities := entities sta @ [make_transform_entity u None] \<rparr>) tla rest =
          Inr (rels', tl1, st1)"
    and rels: "rels = (if in_path
                then rel\<lparr> flags := flags rel \<union> {CYPHER_TARGET_NODE_IN_PATH_VAR} \<rparr> else rel) # rels'"
    by (auto dest!: ebind_Inr simp: Let_def split: prod.splits)
  from Cons.IH[OF rec] rels show ?case by simp
qed

lemma match_path_variable:
  "transform_match_create_path_variable cpstate nm ents =
     (if length ents < 3 then Inl path_too_short
      else Inr (makeTargetEntry
                  (FuncExpr ''_agtype_build_path''
                     (map (\<lambda>ent. node_or_null (transform_entity.expr ent)) ents))
                  (p_next_resno cpstate) nm False,
                cpstate\<lparr> p_next_resno := p_next_resno cpstate + 1 \<rparr>))"
  by (simp add: transform_match_create_path_variable_def path_too_short_def Let_def)

lemma match_entities_length:
  "transform_match_entities c x cpstate query pth = Inr (ents, q1, st1) \<Longrightarrow>
     length ents = length (path pth) \<and> (\<exists>tl1. q1 = query\<lparr> targetList := tl1 \<rparr>)"
  unfolding transform_match_entities_def
  by (auto dest!: ebind_Inr entities_loop_shape split: prod.splits)

lemma match_named_path_short:
  assumes "var_name pth = Some nm"
    and "transform_match_entities c x cpstate query pth = Inr (ents, q1, st1)"
    and "length (path pth) < 3"
  shows "transform_match_path c x cpstate query pth = Inl path_too_short"
  using assms match_entities_length[OF assms(2)]
  by (simp add: transform_match_path_def ebind_def match_path_variable)

lemma match_named_path_long:
  assumes "var_name pth = Some nm"
    and "transform_match_path c x cpstate query pth = Inr (qual, query', cpstate')"
  shows "3 \<le> length (path pth) \<and>
         (\<exists>ents q1 st1. transform_match_entities c x cpstate query pth = Inr (ents, q1, st1)
            \<and> targetList query' = targetList q1 @
                 [makeTargetEntry
                    (FuncExpr ''_agtype_build_path''
                       (map (\<lambda>ent. node_or_null (transform_entity.expr ent)) ents))
                    (p_next_resno st1) nm False])"
proof -
  from assms obtain ents q1 st1 path_te st2 join_quals where
    ents: "transform_match_entities c x cpstate query pth = Inr (ents, q1, st1)"
    and pv: "transform_match_create_path_variable st1 nm ents = Inr (path_te, st2)"
    and rest: "(if length ents > 3 then
        ebind (prevent_duplicate_edges c ents) (\<lambda>duplicate_edge_qual.
        Inr (join_quals @ [duplicate_edge_qual],
             q1\<lparr> targetList := targetList q1 @ [path_te] \<rparr>, st2))
      else Inr (join_quals, q1\<lparr> targetList := targetList q1 @ [path_te] \<rparr>, st2)) =
      Inr (qual, query', cpstate')"
    unfolding transform_match_path_def
    by (auto dest!: ebind_Inr split: prod.splits)
  from rest have q: "query' = q1\<lparr> targetList := targetList q1 @ [path_te] \<rparr>"
    by (auto dest!: ebind_Inr split: if_splits)
  from pv have len: "\<not> length ents < 3"
    by (auto simp: match_path_variable split: if_splits)
  with pv have "path_te = makeTargetEntry
                    (FuncExpr ''_agtype_build_path''
                       (map (\<lambda>ent. node_or_null (transform_entity.expr ent)) ents))
                    (p_next_resno st1) nm False"
    by (auto simp: match_path_variable)
  with q have "targetList query' = targetList q1 @
                 [makeTargetEntry
                    (FuncExpr ''_agtype_build_path''
                       (map (\<lambda>ent. node_or_null (transform_entity.expr ent)) ents))
                    (p_next_resno st1) nm False]"
    by simp
  with ents len match_entities_length[OF ents] show ?thesis by auto
qed

lemma create_named_path:
  assumes "var_name pth = Some nm"
    and "transform_create_path_elements c x True cpstate tl0 (path pth) = Inr (rels, tl1, st1)"
  shows "transform_cypher_create_path c x cpstate tl0 pth =
           (if length (path pth) < 3 then Inl path_too_short
            else Inr (\<lparr> target_nodes = rels, path_attr_num = p_next_resno st1 \<rparr>,
                      tl1 @ [makeTargetEntry (add_volatile_wrapper NullConst)
                               (p_next_resno st1) nm False],
                      st1\<lparr> p_next_resno := p_next_resno st1 + 1 \<rparr>))"
  using assms create_elements_length[OF assms(2)]
  by (simp add: transform_cypher_create_path_def ebind_def placeholder_target_entry_def
        path_too_short_def makeTargetEntry_def Let_def)

text \<open>
  Claim C5, amended.  A path with a variable needs at least 3 elements, two
  vertices and an edge, in MATCH and in CREATE alike.  With fewer, compilation
  of the path fails with the error \<open>path_too_short\<close> (feature not supported:
  paths consist of alternating vertices and edges).  With 3 or more the path
  variable gets its output column, named after the variable, at the next free
  output position: in MATCH the call of \<open>_agtype_build_path\<close> on the
  expressions of all entities of the path, in order; in CREATE a placeholder
  whose position the path's plan records.  (The elements of the path must
  compile; their errors come first.)
\<close>

theorem C5_named_path_needs_three_elements:
  "transform_match_create_path_variable cpstate nm ents =
     (if length ents < 3 then Inl path_too_short
      else Inr (makeTargetEntry
                  (FuncExpr ''_agtype_build_path''
                     (map (\<lambda>ent. node_or_null (transform_entity.expr ent)) ents))
                  (p_next_resno cpstate) nm False,
                cpstate\<lparr> p_next_resno := p_next_resno cpstate + 1 \<rparr>))
 \<and> (var_name pth = Some nm
      \<and> transform_match_entities c x cpstate query pth = Inr (ents, q1, st1)
      \<and> length (path pth) < 3
    \<longrightarrow> transform_match_path c x cpstate query pth = Inl path_too_short)
 \<and> (var_name pth = Some nm
      \<and> transform_match_path c x cpstate query pth = Inr (qual, query', cpstate')
    \<longrightarrow> 3 \<le> length (path pth) \<and>
         (\<exists>ents q1 st1. transform_match_entities c x cpstate query pth = Inr (ents, q1, st1)
            \<and> targetList query' = targetList q1 @
                 [makeTargetEntry
                    (FuncExpr ''_agtype_build_path''
                       (map (\<lambda>ent. node_or_null (transform_entity.expr ent)) ents))
                    (p_next_resno st1) nm False]))
 \<and> (var_name pth = Some nm
      \<and> transform_create_path_elements c x True cpstate tl0 (path pth) = Inr (rels, tl1, st2)
    \<longrightarrow> transform_cypher_create_path c x cpstate tl0 pth =
           (if length (path pth) < 3 then Inl path_too_short
            else Inr (\<lparr> target_nodes = rels, path_attr_num = p_next_resno st2 \<rparr>,
                      tl1 @ [makeTargetEntry (add_volatile_wrapper NullConst)
                               (p_next_resno st2) nm False],
                      st2\<lparr> p_next_resno := p_next_resno st2 + 1 \<rparr>)))"
  using match_path_variable [of cpstate nm ents]
    match_named_path_short [of pth nm c x cpstate query ents q1 st1]
    match_named_path_long [of pth nm c x cpstate query qual query' cpstate']
    create_named_path [of pth nm c x cpstate tl0 rels tl1 st2]
  by blast

text \<open>
  The claim as stated asks for 5 elements.  The named paths
  \<open>p = (a)-[e]->(b)\<close> in MATCH and \<open>p = (a)-[:T]->(b)\<close> in CREATE have 3 and
  compile; the last output column is the path variable.
\<close>

theorem C5_counterexample:
  "length (path named_one_hop_path) = 3
 \<and> map_sum id (\<lambda>(qual, q, st). map resname (targetList q))
     (transform_match_path age_consts sample_externs sample_state makeQuery named_one_hop_path) =
   Inr [''a'', ''e'', ''b'', ''p'']
 \<and> length (path named_create_path) = 3
 \<and> map_sum id (\<lambda>(ccp, tl1, st). (length (target_nodes ccp), path_attr_num ccp, resname (last tl1)))
     (transform_cypher_create_path age_consts sample_externs sample_state [] named_create_path) =
   Inr (3, 7, ''p'')"
  by (simp add: named_one_hop_path_def named_create_path_def) code_simp

lemma map_sum_Inr: "map_sum id f r = Inr a \<Longrightarrow> \<exists>b. r = Inr b"
  by (cases r) auto

theorem C5_witness:
  "transform_match_create_path_variable sample_state ''p'' [sample_vertex ''a''] =
     Inl path_too_short
 \<and> transform_match_path age_consts sample_externs sample_state makeQuery named_vertex_path =
     Inl path_too_short
 \<and> (\<exists>qual query' cpstate' ents q1 st1.
       transform_match_path age_consts sample_externs sample_state makeQuery named_one_hop_path =
         Inr (qual, query', cpstate')
     \<and> transform_match_entities age_consts sample_externs sample_state makeQuery
         named_one_hop_path = Inr (ents, q1, st1)
     \<and> targetList query' = targetList q1 @
          [makeTargetEntry
             (FuncExpr ''_agtype_build_path''
                (map (\<lambda>ent. node_or_null (transform_entity.expr ent)) ents))
             (p_next_resno st1) ''p'' False])
 \<and> transform_cypher_create_path age_consts sample_externs sample_state [] named_vertex_path =
     Inl path_too_short
 \<and> (\<exists>rels tl1 st2.
       transform_create_path_elements age_consts sample_externs True sample_state []
         (path named_create_path) = Inr (rels, tl1, st2)
     \<and> transform_cypher_create_path age_consts sample_externs sample_state [] named_create_path =
         Inr (\<lparr> target_nodes = rels, path_attr_num = p_next_resno st2 \<rparr>,
              tl1 @ [makeTargetEntry (add_volatile_wrapper NullConst) (p_next_resno st2) ''p'' False],
              st2\<lparr> p_next_resno := p_next_resno st2 + 1 \<rparr>))"
proof -
  note inst = C5_named_path_needs_three_elements
    [where c = age_consts and x = sample_externs and nm = "''p''"]
  have 1: "transform_match_create_path_variable sample_state ''p'' [sample_vertex ''a''] =
     Inl path_too_short"
    using inst [where cpstate = sample_state and ents = "[sample_vertex ''a'']"] by simp
  have "map_sum id (\<lambda>(ents, q, st). length ents)
          (transform_match_entities age_consts sample_externs sample_state makeQuery
             named_vertex_path) = Inr 1"
    by code_simp
  then obtain ents q1 st1 where
    "transform_match_entities age_consts sample_externs sample_state makeQuery
       named_vertex_path = Inr (ents, q1, st1)"
    by (auto dest!: map_sum_Inr)
  then have 2: "transform_match_path age_consts sample_externs sample_state makeQuery
      named_vertex_path = Inl path_too_short"
    using inst [where cpstate = sample_state and pth = named_vertex_path and query = makeQuery
                  and ents = ents and ?q1.0 = q1 and ?st1.0 = st1]
    by (simp add: named_vertex_path_def)
  have "map_sum id (\<lambda>(qual, q, st). length qual)
          (transform_match_path age_consts sample_externs sample_state makeQuery
             named_one_hop_path) = Inr 2"
    by code_simp
  then obtain qual query' cpstate' where
    r: "transform_match_path age_consts sample_externs sample_state makeQuery
       named_one_hop_path = Inr (qual, query', cpstate')"
    by (auto dest!: map_sum_Inr)
  have 3: "\<exists>qual query' cpstate' ents q1 st1.
       transform_match_path age_consts sample_externs sample_state makeQuery named_one_hop_path =
         Inr (qual, query', cpstate')
     \<and> transform_match_entities age_consts sample_externs sample_state makeQuery
         named_one_hop_path = Inr (ents, q1, st1)
     \<and> targetList query' = targetList q1 @
          [makeTargetEntry
             (FuncExpr ''_agtype_build_path''
                (map (\<lambda>ent. node_or_null (transform_entity.expr ent)) ents))
             (p_next_resno st1) ''p'' False]"
    using inst [where cpstate = sample_state and pth = named_one_hop_path and query = makeQuery
                  and qual = qual and query' = query' and cpstate' = cpstate'] r
    by (auto simp: named_one_hop_path_def)
  have "map_sum id (\<lambda>(rels, tl1, st). length rels)
          (transform_create_path_elements age_consts sample_externs True sample_state []
             (path named_vertex_path)) = Inr 1"
    by code_simp
  then obtain rels tl1 st2 where
    "transform_create_path_elements age_consts sample_externs True sample_state []
       (path named_vertex_path) = Inr (rels, tl1, st2)"
    by (auto dest!: map_sum_Inr)
  then have 4: "transform_cypher_create_path age_consts sample_externs sample_state []
      named_vertex_path = Inl path_too_short"
    using inst [where cpstate = sample_state and pth = named_vertex_path and ?tl0.0 = "[]"
                  and rels = rels and ?tl1.0 = tl1 and ?st2.0 = st2]
    by (simp add: named_vertex_path_def)
  have "map_sum id (\<lambda>(rels, tl1, st). length rels)
          (transform_create_path_elements age_consts sample_externs True sample_state []
             (path named_create_path)) = Inr 3"
    by code_simp
  then obtain rels tl1 st2 where
    e: "transform_create_path_elements age_consts sample_externs True sample_state []
       (path named_create_path) = Inr (rels, tl1, st2)"
    by (auto dest!: map_sum_Inr)
  have 5: "\<exists>rels tl1 st2.
       transform_create_path_elements age_consts sample_externs True sample_state []
         (path named_create_path) = Inr (rels, tl1, st2)
     \<and> transform_cypher_create_path age_consts sample_externs sample_state [] named_create_path =
         Inr (\<lparr> target_nodes = rels, path_attr_num = p_next_resno st2 \<rparr>,
              tl1 @ [makeTargetEntry (add_volatile_wrapper NullConst) (p_next_resno st2) ''p'' False],
              st2\<lparr> p_next_resno := p_next_resno st2 + 1 \<rparr>)"
    using inst [where cpstate = sample_state and pth = named_create_path and ?tl0.0 = "[]"
                  and rels = rels and ?tl1.0 = tl1 and ?st2.0 = st2] e
    by (auto simp: named_create_path_def)
  from 1 2 3 4 5 show ?thesis by blast
qed

section \<open>Proofs: DELETE, SET and REMOVE\<close>

lemma column_position_range:
  "column_position cols v = - 1 \<or> 1 \<le> column_position cols v"
  by (induction cols) auto

lemma column_position_found: "column_position cols v \<noteq> - 1 \<longleftrightarrow> v \<in> set cols"
proof (induction cols)
  case Nil
  show ?case by simp
next
  case (Cons col cols)
  with column_position_range[of cols v] show ?case by auto
qed

lemma same_columns_refl: "same_columns tl0 tl0"
  by (simp add: same_columns_def)

lemma same_columns_trans: "same_columns a b \<Longrightarrow> same_columns b d \<Longrightarrow> same_columns a d"
  by (simp add: same_columns_def)

lemma get_target_entry_resno_same:
  "same_columns tl0 (snd (get_target_entry_resno tl0 v))"
  by (induction tl0) (auto simp: same_columns_def split: prod.splits)

lemma get_target_entry_resno_cong:
  "same_columns tl1 tl2 \<Longrightarrow>
     fst (get_target_entry_resno tl1 v) = fst (get_target_entry_resno tl2 v)"
proof (induction tl1 arbitrary: tl2)
  case Nil
  then show ?case by (simp add: same_columns_def)
next
  case (Cons te rest)
  then obtain te2 rest2 where tl2: "tl2 = te2 # rest2"
    by (cases tl2) (auto simp: same_columns_def)
  with Cons.prems have h: "resname te = resname te2" "resno te = resno te2"
    "same_columns rest rest2"
    by (auto simp: same_columns_def)
  from Cons.IH[OF h(3)] h(1,2) tl2 show ?case
    by (auto split: prod.splits)
qed

text \<open>
  In the target list \<^verbatim>\<open>expandRelAttrs\<close> builds from a fresh numbering, the
  position \<^verbatim>\<open>get_target_entry_resno\<close> finds for a name is the position of
  the column of that name.
\<close>

lemma get_target_entry_resno_enumerate:
  "fst (get_target_entry_resno
          (map (\<lambda>(i, nm). makeTargetEntry (Var rt (int i + 1) 0) (1 + int i) nm False)
             (enumerate k cols)) v) =
     (if column_position cols v = - 1 then - 1 else int k + column_position cols v)"
proof (induction cols arbitrary: k)
  case Nil
  then show ?case by simp
next
  case (Cons col cols)
  from column_position_range[of cols v] Cons.IH[of "Suc k"] show ?case
    by (auto simp: makeTargetEntry_def split: prod.splits)
qed

lemma expandRelAttrs_columns:
  assumes "p_next_resno st = 1" and "expandRelAttrs st rte rt = (tl1, st2)"
  shows "map resname tl1 = colnames rte"
    and "map resno tl1 = map (\<lambda>i. int i + 1) [0..<length (colnames rte)]"
    and "list_all (\<lambda>te. \<not> resjunk te) tl1"
    and "fst (get_target_entry_resno tl1 v) = column_position (colnames rte) v"
    and "p_next_resno st2 = 1 + int (length (colnames rte))"
    and "st2 = st\<lparr> p_next_resno := 1 + int (length (colnames rte)) \<rparr>"
proof -
  from assms have tl1: "tl1 = map (\<lambda>(i, nm). makeTargetEntry (Var rt (int i + 1) 0) (1 + int i) nm False)
         (enumerate 0 (colnames rte))"
    and st2: "st2 = st\<lparr> p_next_resno := 1 + int (length (colnames rte)) \<rparr>"
    by (auto simp: expandRelAttrs_def)
  show "map resname tl1 = colnames rte"
    unfolding tl1 by (simp add: makeTargetEntry_def comp_def case_prod_unfold)
  show "map resno tl1 = map (\<lambda>i. int i + 1) [0..<length (colnames rte)]"
    unfolding tl1
    by (auto simp: makeTargetEntry_def enumerate_eq_zip intro!: nth_equalityI)
  show "list_all (\<lambda>te. \<not> resjunk te) tl1"
    unfolding tl1 by (auto simp: list_all_iff makeTargetEntry_def)
  show "fst (get_target_entry_resno tl1 v) = column_position (colnames rte) v"
    unfolding tl1 using get_target_entry_resno_enumerate[of rt 0 "colnames rte" v] by simp
  show "p_next_resno st2 = 1 + int (length (colnames rte))" using st2 by simp
  show "st2 = st\<lparr> p_next_resno := 1 + int (length (colnames rte)) \<rparr>" by (rule st2)
qed

text \<open>What compiling the predecessor as a subquery leaves behind.\<close>

lemma transform_prev_result:
  assumes "transform_prev_cypher_clause x T cpstate pc = Inr (rte, st1)"
  shows "\<exists>pq stc. T (predecessor_state x cpstate) pc = Inr (pq, stc)
           \<and> colnames rte = output_columns pq
           \<and> p_next_resno st1 = p_next_resno cpstate
           \<and> graph_name st1 = graph_name cpstate \<and> graph_oid st1 = graph_oid cpstate"
  using assms
  unfolding transform_prev_cypher_clause_def transform_cypher_clause_as_subquery_def
    analyze_cypher_clause_def addRangeTableEntryForSubquery_def addRTEtoQuery_def
    predecessor_state_def output_columns_def
  by (auto dest!: ebind_Inr simp: Let_def split: prod.splits if_splits)

lemma transform_prev_fresh:
  assumes "p_rtable cpstate = []" and "T (predecessor_state x cpstate) pc = Inr (pq, stc)"
  shows "\<exists>rte st1. transform_prev_cypher_clause x T cpstate pc = Inr (rte, st1)
           \<and> colnames rte = output_columns pq
           \<and> p_next_resno st1 = p_next_resno cpstate
           \<and> length (p_rtable st1) = 1
           \<and> graph_name st1 = graph_name cpstate \<and> graph_oid st1 = graph_oid cpstate"
  using assms
  unfolding transform_prev_cypher_clause_def transform_cypher_clause_as_subquery_def
    analyze_cypher_clause_def addRangeTableEntryForSubquery_def addRTEtoQuery_def
    predecessor_state_def output_columns_def
  by (auto simp: Let_def ebind_def split: prod.splits if_splits)

lemma transform_prev_error:
  assumes "T (predecessor_state x cpstate) pc = Inl e"
  shows "transform_prev_cypher_clause x T cpstate pc = Inl e"
  using assms
  unfolding transform_prev_cypher_clause_def transform_cypher_clause_as_subquery_def
    analyze_cypher_clause_def predecessor_state_def
  by (auto simp: Let_def ebind_def split: prod.splits if_splits)

lemma clause_entry_result:
  assumes "p_next_resno cpstate = 1" and "clause_entry x T cpstate pc = Inr (tl1, st2)"
  shows "\<exists>pq stc. T (predecessor_state x cpstate) pc = Inr (pq, stc)
           \<and> map resname tl1 = output_columns pq
           \<and> map resno tl1 = map (\<lambda>i. int i + 1) [0..<length (output_columns pq)]
           \<and> list_all (\<lambda>te. \<not> resjunk te) tl1
           \<and> (\<forall>v. fst (get_target_entry_resno tl1 v) = column_position (output_columns pq) v)
           \<and> p_next_resno st2 = 1 + int (length (output_columns pq))
           \<and> graph_name st2 = graph_name cpstate \<and> graph_oid st2 = graph_oid cpstate"
proof -
  from assms(2) obtain rte st1 where
    pr: "transform_prev_cypher_clause x T cpstate pc = Inr (rte, st1)"
    and ex: "expandRelAttrs st1 rte (length (p_rtable st1)) = (tl1, st2)"
    unfolding clause_entry_def by (auto dest!: ebind_Inr)
  from transform_prev_result[OF pr] obtain pq stc where
    t: "T (predecessor_state x cpstate) pc = Inr (pq, stc)"
    and cols: "colnames rte = output_columns pq"
    and n: "p_next_resno st1 = p_next_resno cpstate"
    and g: "graph_name st1 = graph_name cpstate" "graph_oid st1 = graph_oid cpstate"
    by blast
  from n assms(1) have one: "p_next_resno st1 = 1" by simp
  from expandRelAttrs_columns[OF one ex] cols g t show ?thesis by auto
qed

lemma clause_entry_fresh:
  assumes "p_rtable cpstate = []" and "T (predecessor_state x cpstate) pc = Inr (pq, stc)"
  shows "\<exists>tl1 st2. clause_entry x T cpstate pc = Inr (tl1, st2)"
  using assms transform_prev_fresh[where cpstate = cpstate and T = T and x = x and pc = pc
      and pq = pq and stc = stc]
  by (auto simp: clause_entry_def ebind_def split: prod.splits)

lemma clause_entry_error:
  assumes "T (predecessor_state x cpstate) pc = Inl e"
  shows "clause_entry x T cpstate pc = Inl e"
  using assms transform_prev_error[where T = T and x = x and cpstate = cpstate and pc = pc
      and e = e]
  by (simp add: clause_entry_def ebind_def)

lemma same_columns_take: "same_columns a b \<Longrightarrow> same_columns (take n a) (take n b)"
  by (simp add: same_columns_def take_map [symmetric])

lemma same_columns_length: "same_columns a b \<Longrightarrow> length a = length b"
  unfolding same_columns_def by (metis length_map)

lemma extends_columns_refl: "extends_columns a a"
  by (simp add: extends_columns_def same_columns_refl)

lemma extends_columns_same: "same_columns a b \<Longrightarrow> extends_columns a b"
  using same_columns_length[of a b] by (simp add: extends_columns_def)

lemma extends_columns_append: "same_columns a b \<Longrightarrow> extends_columns a (b @ d)"
  using same_columns_length[of a b] by (simp add: extends_columns_def)

lemma extends_columns_trans:
  assumes "extends_columns a b" and "extends_columns b d"
  shows "extends_columns a d"
proof -
  from assms have l: "length a \<le> length b" "length b \<le> length d"
    and ab: "same_columns a (take (length a) b)"
    and bd: "same_columns b (take (length b) d)"
    by (simp_all add: extends_columns_def)
  from same_columns_take[OF bd, of "length a"] l
  have "same_columns (take (length a) b) (take (length a) d)" by (simp add: min_def)
  with ab have "same_columns a (take (length a) d)" by (rule same_columns_trans)
  with l show ?thesis by (simp add: extends_columns_def)
qed

text \<open>The item loops keep the columns they are given.\<close>

lemma get_target_entry_resno_pair:
  "get_target_entry_resno tl0 v = (r, tl1) \<Longrightarrow> same_columns tl0 tl1"
  using get_target_entry_resno_same[of tl0 v] by simp

lemma delete_item_frame:
  "transform_cypher_delete_item e tl0 = Inr (item, tl1) \<Longrightarrow> same_columns tl0 tl1"
  unfolding transform_cypher_delete_item_def
  by (auto dest: get_target_entry_resno_pair split: node.splits if_splits option.splits prod.splits)

lemma delete_items_frame:
  "transform_cypher_delete_item_list es tl0 = Inr (its, tl2) \<Longrightarrow>
     same_columns tl0 tl2 \<and> length its = length es"
proof (induction es arbitrary: tl0 its tl2)
  case Nil
  then show ?case by (simp add: same_columns_refl)
next
  case (Cons e es)
  from Cons.prems obtain item tl1 its' where
    a: "transform_cypher_delete_item e tl0 = Inr (item, tl1)"
    and b: "transform_cypher_delete_item_list es tl1 = Inr (its', tl2)"
    and c: "its = item # its'"
    by (auto dest!: ebind_Inr)
  from delete_item_frame[OF a] Cons.IH[OF b] c show ?case
    by (auto intro: same_columns_trans)
qed

lemma remove_item_frame:
  "transform_cypher_remove_item si tl0 = Inr (item, tl1) \<Longrightarrow> same_columns tl0 tl1"
  unfolding transform_cypher_remove_item_def
  by (auto dest: get_target_entry_resno_pair split: node.splits if_splits option.splits prod.splits list.splits)

lemma remove_items_frame:
  "transform_cypher_remove_item_list sis tl0 = Inr (its, tl2) \<Longrightarrow>
     same_columns tl0 tl2 \<and> length its = length sis"
proof (induction sis arbitrary: tl0 its tl2)
  case Nil
  then show ?case by (simp add: same_columns_refl)
next
  case (Cons si sis)
  from Cons.prems obtain item tl1 its' where
    a: "transform_cypher_remove_item si tl0 = Inr (item, tl1)"
    and b: "transform_cypher_remove_item_list sis tl1 = Inr (its', tl2)"
    and c: "its = item # its'"
    by (auto dest!: ebind_Inr)
  from remove_item_frame[OF a] Cons.IH[OF b] c show ?case
    by (auto intro: same_columns_trans)
qed

lemma set_item_frame:
  "transform_cypher_set_item x st si tl0 = Inr (item, tl1, st1) \<Longrightarrow>
     extends_columns tl0 tl1 \<and> length tl1 = length tl0 + 1"
  unfolding transform_cypher_set_item_def
  by (auto dest!: ebind_Inr get_target_entry_resno_pair dest: same_columns_length
        intro!: extends_columns_append
        split: node.splits if_splits option.splits prod.splits list.splits)

lemma set_items_frame:
  "transform_cypher_set_item_list x st sis tl0 = Inr (its, tl2, st2) \<Longrightarrow>
     extends_columns tl0 tl2 \<and> length tl2 = length tl0 + length sis \<and> length its = length sis"
proof (induction sis arbitrary: st tl0 its tl2 st2)
  case Nil
  then show ?case by (simp add: extends_columns_refl)
next
  case (Cons si sis)
  from Cons.prems obtain item tl1 st1 its' where
    a: "transform_cypher_set_item x st si tl0 = Inr (item, tl1, st1)"
    and b: "transform_cypher_set_item_list x st1 sis tl1 = Inr (its', tl2, st2)"
    and c: "its = item # its'"
    by (auto dest!: ebind_Inr)
  from set_item_frame[OF a] Cons.IH[OF b] c show ?case
    by (auto intro: extends_columns_trans)
qed

text \<open>DELETE and SET after a predecessor, in terms of \<open>clause_entry\<close>.\<close>

lemma transform_cypher_delete_entry:
  assumes "self clause = Self_delete d" and "prev clause = Some pc"
  shows "transform_cypher_delete c x T cpstate clause =
    ebind (clause_entry x T cpstate pc) (\<lambda>(tl1, st2).
    ebind (transform_cypher_delete_item_list (exprs d) tl1) (\<lambda>(its, tl2).
    Inr (\<lparr> targetList = tl2 @
              [makeTargetEntry
                 (FuncExpr (DELETE_CLAUSE_FUNCTION_NAME c)
                    [InternalConst (outNode x (Delete_plan
                       \<lparr> delete_items = its,
                         delete_flags = (if \<not> has_next clause
                                         then {CYPHER_CLAUSE_FLAG_TERMINAL} else {}),
                         delete_graph_name = graph_name st2,
                         delete_graph_oid = graph_oid st2,
                         delete_detach = detach d \<rparr>))])
                 (p_next_resno st2) (AGE_VARNAME_DELETE_CLAUSE c) False],
            rtable = p_rtable st2,
            jointree = \<lparr> fromlist = p_joinlist st2, quals = None \<rparr> \<rparr>,
         st2\<lparr> p_next_resno := p_next_resno st2 + 1 \<rparr>)))"
  using assms
  by (simp add: transform_cypher_delete_def clause_entry_def ebind_def Let_def
        split: sum.splits prod.splits)

lemma transform_cypher_set_entry:
  assumes "self clause = Self_set s" and "prev clause = Some pc"
  shows "transform_cypher_set c x T cpstate clause =
    ebind (clause_entry x T cpstate pc) (\<lambda>(tl1, st2).
    if length (items s) \<noteq> 1
    then Inl (more_than_one_property
                (if is_remove s then UPDATE_CLAUSE_REMOVE c else UPDATE_CLAUSE_SET c))
    else
    ebind (if is_remove s
           then ebind (transform_cypher_remove_item_list (items s) tl1)
                  (\<lambda>(its, tl2). Inr (its, tl2, st2))
           else transform_cypher_set_item_list x st2 (items s) tl1) (\<lambda>(its, tl2, st3).
    Inr (\<lparr> targetList = tl2 @
              [makeTargetEntry
                 (FuncExpr ''_cypher_set_clause''
                    [InternalConst (outNode x (Update_plan
                       \<lparr> set_items = its,
                         update_flags = (if \<not> has_next clause
                                         then {CYPHER_CLAUSE_FLAG_TERMINAL} else {}),
                         clause_name = (if is_remove s then UPDATE_CLAUSE_REMOVE c
                                        else UPDATE_CLAUSE_SET c),
                         update_graph_name = graph_name st3 \<rparr>))])
                 (p_next_resno st3) (AGE_VARNAME_SET_CLAUSE c) False],
            rtable = p_rtable st3,
            jointree = \<lparr> fromlist = p_joinlist st3, quals = None \<rparr> \<rparr>,
         st3\<lparr> p_next_resno := p_next_resno st3 + 1 \<rparr>)))"
  using assms
  by (simp add: transform_cypher_set_def clause_entry_def ebind_def Let_def
        split: sum.splits prod.splits)

text \<open>Variables that the target list has are resolved to their positions.\<close>

lemma get_target_entry_resno_after:
  "fst (get_target_entry_resno (snd (get_target_entry_resno tl0 v)) w) =
   fst (get_target_entry_resno tl0 w)"
  using get_target_entry_resno_cong[OF get_target_entry_resno_same[of tl0 v], of w] by simp

lemma delete_items_resolved:
  assumes "\<forall>v. fst (get_target_entry_resno tl0 v) = column_position cols v"
    and "set vars \<subseteq> set cols"
  shows "\<exists>tl2. transform_cypher_delete_item_list (map variable_ref vars) tl0 =
           Inr (map (\<lambda>v. \<lparr> di_var_name = v,
                            di_entity_position = T_Integer (column_position cols v) \<rparr>) vars,
                tl2)"
  using assms
proof (induction vars arbitrary: tl0)
  case Nil
  show ?case by simp
next
  case (Cons v vars)
  let ?tl1 = "snd (get_target_entry_resno tl0 v)"
  from Cons.prems have pos: "fst (get_target_entry_resno tl0 v) = column_position cols v"
    and found: "column_position cols v \<noteq> - 1"
    by (auto simp: column_position_found)
  then have item: "transform_cypher_delete_item (variable_ref v) tl0 =
      Inr (\<lparr> di_var_name = v, di_entity_position = T_Integer (column_position cols v) \<rparr>, ?tl1)"
    by (auto simp: transform_cypher_delete_item_def variable_ref_def split: prod.splits)
  from Cons.prems have "\<forall>w. fst (get_target_entry_resno ?tl1 w) = column_position cols w"
    by (simp add: get_target_entry_resno_after)
  with Cons.IH[of ?tl1] Cons.prems obtain tl2 where
    "transform_cypher_delete_item_list (map variable_ref vars) ?tl1 =
       Inr (map (\<lambda>v. \<lparr> di_var_name = v,
                        di_entity_position = T_Integer (column_position cols v) \<rparr>) vars, tl2)"
    by auto
  with item show ?case by (simp add: ebind_def)
qed

lemma delete_items_unresolved:
  assumes "\<forall>v. fst (get_target_entry_resno tl0 v) = column_position cols v"
    and "set vars \<subseteq> set cols" and "v \<notin> set cols"
  shows "transform_cypher_delete_item_list (map variable_ref (vars @ v # rest)) tl0 =
           Inl (Ereport ERRCODE_INVALID_COLUMN_REFERENCE
                  (''undefined reference to variable '' @ v @ '' in DELETE clause''))"
  using assms
proof (induction vars arbitrary: tl0)
  case Nil
  then have "fst (get_target_entry_resno tl0 v) = - 1"
    using column_position_found[of cols v] by simp
  then show ?case
    by (auto simp: transform_cypher_delete_item_def variable_ref_def ebind_def
          split: prod.splits)
next
  case (Cons w vars)
  let ?tl1 = "snd (get_target_entry_resno tl0 w)"
  from Cons.prems have pos: "fst (get_target_entry_resno tl0 w) = column_position cols w"
    and found: "column_position cols w \<noteq> - 1"
    by (auto simp: column_position_found)
  then have item: "transform_cypher_delete_item (variable_ref w) tl0 =
      Inr (\<lparr> di_var_name = w, di_entity_position = T_Integer (column_position cols w) \<rparr>, ?tl1)"
    by (auto simp: transform_cypher_delete_item_def variable_ref_def split: prod.splits)
  from Cons.prems have "\<forall>u. fst (get_target_entry_resno ?tl1 u) = column_position cols u"
    by (simp add: get_target_entry_resno_after)
  with Cons.IH[of ?tl1] Cons.prems have
    "transform_cypher_delete_item_list (map variable_ref (vars @ v # rest)) ?tl1 =
       Inl (Ereport ERRCODE_INVALID_COLUMN_REFERENCE
              (''undefined reference to variable '' @ v @ '' in DELETE clause''))"
    by auto
  with item show ?case by (simp add: ebind_def)
qed

lemma remove_item_resolved:
  assumes "fst (get_target_entry_resno tl0 v) = pos" and "pos \<noteq> - 1"
  shows "transform_cypher_remove_item
           \<lparr> set_prop = property_ref v p, set_expr = e, is_add = False \<rparr> tl0 =
         Inr (\<lparr> ui_var_name = v, ui_entity_position = pos, prop_name = Some p,
                prop_position = 0, remove_item = True \<rparr>,
              snd (get_target_entry_resno tl0 v))"
  using assms
  by (auto simp: transform_cypher_remove_item_def property_ref_def variable_ref_def
        split: prod.splits)

lemma remove_item_unresolved:
  assumes "fst (get_target_entry_resno tl0 v) = - 1"
  shows "transform_cypher_remove_item
           \<lparr> set_prop = property_ref v p, set_expr = e, is_add = False \<rparr> tl0 =
         Inl (Ereport ERRCODE_INVALID_COLUMN_REFERENCE
                (''undefined reference to variable '' @ v @ '' in REMOVE clause''))"
  using assms
  by (auto simp: transform_cypher_remove_item_def property_ref_def variable_ref_def
        split: prod.splits)

lemma set_item_resolved:
  assumes "fst (get_target_entry_resno tl0 v) = pos" and "pos \<noteq> - 1"
    and "transform_cypher_item x st e None EXPR_KIND_SELECT_TARGET None False = Inr (ti, st1)"
  shows "transform_cypher_set_item x st
           \<lparr> set_prop = property_ref v p, set_expr = e, is_add = False \<rparr> tl0 =
         Inr (\<lparr> ui_var_name = v, ui_entity_position = pos, prop_name = Some p,
                prop_position = p_next_resno st, remove_item = False \<rparr>,
              snd (get_target_entry_resno tl0 v)
                @ [ti\<lparr> expr := add_volatile_wrapper (expr ti) \<rparr>],
              st1)"
  using assms
  by (auto simp: transform_cypher_set_item_def property_ref_def variable_ref_def ebind_def
        split: prod.splits)

lemma set_item_unresolved:
  assumes "fst (get_target_entry_resno tl0 v) = - 1"
  shows "transform_cypher_set_item x st
           \<lparr> set_prop = property_ref v p, set_expr = e, is_add = False \<rparr> tl0 =
         Inl (Ereport ERRCODE_INVALID_COLUMN_REFERENCE
                (''undefined reference to variable '' @ v @ '' in SET clause''))"
  using assms
  by (auto simp: transform_cypher_set_item_def property_ref_def variable_ref_def
        split: prod.splits)

text \<open>The clauses as a whole.\<close>

lemma delete_first_clause:
  assumes "self clause = Self_delete d" and "prev clause = None"
  shows "transform_cypher_delete c x T cpstate clause =
           Inl (Ereport ERRCODE_FEATURE_NOT_SUPPORTED
                  ''DELETE cannot be the first clause in a Cypher query'')"
  using assms by (simp add: transform_cypher_delete_def)

lemma set_first_clause:
  assumes "self clause = Self_set s" and "prev clause = None"
  shows "transform_cypher_set c x T cpstate clause =
           Inl (Ereport ERRCODE_FEATURE_NOT_SUPPORTED
                  ((if is_remove s then UPDATE_CLAUSE_REMOVE c else UPDATE_CLAUSE_SET c)
                   @ '' cannot be the first clause in a Cypher query''))"
  using assms by (simp add: transform_cypher_set_def)

lemma clause_entry_ok:
  assumes "p_rtable cpstate = []" and "p_next_resno cpstate = 1"
    and "T (predecessor_state x cpstate) pc = Inr (pq, stc)"
  shows "\<exists>tl1 st2. clause_entry x T cpstate pc = Inr (tl1, st2)
           \<and> map resname tl1 = output_columns pq
           \<and> (\<forall>v. fst (get_target_entry_resno tl1 v) = column_position (output_columns pq) v)
           \<and> p_next_resno st2 = 1 + int (length (output_columns pq))
           \<and> graph_name st2 = graph_name cpstate \<and> graph_oid st2 = graph_oid cpstate"
proof -
  from clause_entry_fresh[where T = T, OF assms(1) assms(3)] obtain tl1 st2 where
    e: "clause_entry x T cpstate pc = Inr (tl1, st2)" by blast
  from clause_entry_result[OF assms(2) e] assms(3) e show ?thesis by auto
qed

lemma delete_after_predecessor:
  assumes "p_rtable cpstate = []" and "p_next_resno cpstate = 1"
    and "self clause = Self_delete d" and "prev clause = Some pc"
    and "T (predecessor_state x cpstate) pc = Inr (pq, stc)"
    and "exprs d = map variable_ref vars" and "set vars \<subseteq> set (output_columns pq)"
  shows "\<exists>q st. transform_cypher_delete c x T cpstate clause = Inr (q, st)
           \<and> expr (last (targetList q)) =
               FuncExpr (DELETE_CLAUSE_FUNCTION_NAME c)
                 [InternalConst (outNode x (Delete_plan
                    \<lparr> delete_items =
                        map (\<lambda>v. \<lparr> di_var_name = v,
                                   di_entity_position =
                                     T_Integer (column_position (output_columns pq) v) \<rparr>) vars,
                      delete_flags = (if \<not> has_next clause
                                      then {CYPHER_CLAUSE_FLAG_TERMINAL} else {}),
                      delete_graph_name = graph_name cpstate,
                      delete_graph_oid = graph_oid cpstate,
                      delete_detach = detach d \<rparr>))]"
proof -
  from clause_entry_ok[where T = T, OF assms(1,2,5)] obtain tl1 st2 where
    e: "clause_entry x T cpstate pc = Inr (tl1, st2)"
    and pos: "\<forall>v. fst (get_target_entry_resno tl1 v) = column_position (output_columns pq) v"
    and g: "graph_name st2 = graph_name cpstate" "graph_oid st2 = graph_oid cpstate"
    by blast
  from delete_items_resolved[OF pos assms(7)] obtain tl2 where
    its: "transform_cypher_delete_item_list (map variable_ref vars) tl1 =
            Inr (map (\<lambda>v. \<lparr> di_var_name = v,
                             di_entity_position =
                               T_Integer (column_position (output_columns pq) v) \<rparr>) vars, tl2)"
    by blast
  show ?thesis
    unfolding transform_cypher_delete_entry[OF assms(3,4)]
    using e its g assms(6) by (simp add: ebind_def makeTargetEntry_def)
qed

lemma delete_unresolved_variable:
  assumes "p_rtable cpstate = []" and "p_next_resno cpstate = 1"
    and "self clause = Self_delete d" and "prev clause = Some pc"
    and "T (predecessor_state x cpstate) pc = Inr (pq, stc)"
    and "exprs d = map variable_ref (vars @ v # rest)"
    and "set vars \<subseteq> set (output_columns pq)" and "v \<notin> set (output_columns pq)"
  shows "transform_cypher_delete c x T cpstate clause =
           Inl (Ereport ERRCODE_INVALID_COLUMN_REFERENCE
                  (''undefined reference to variable '' @ v @ '' in DELETE clause''))"
proof -
  from clause_entry_ok[where T = T, OF assms(1,2,5)] obtain tl1 st2 where
    e: "clause_entry x T cpstate pc = Inr (tl1, st2)"
    and pos: "\<forall>v. fst (get_target_entry_resno tl1 v) = column_position (output_columns pq) v"
    by blast
  show ?thesis
    unfolding transform_cypher_delete_entry[OF assms(3,4)]
    using e delete_items_unresolved[OF pos assms(7,8), of rest] assms(6)
    by (simp add: ebind_def)
qed

lemma remove_after_predecessor:
  assumes "p_rtable cpstate = []" and "p_next_resno cpstate = 1"
    and "self clause = Self_set s" and "prev clause = Some pc"
    and "T (predecessor_state x cpstate) pc = Inr (pq, stc)"
    and "is_remove s"
    and "items s = [\<lparr> set_prop = property_ref v p, set_expr = e, is_add = False \<rparr>]"
    and "v \<in> set (output_columns pq)"
  shows "\<exists>q st. transform_cypher_set c x T cpstate clause = Inr (q, st)
           \<and> expr (last (targetList q)) =
               FuncExpr ''_cypher_set_clause''
                 [InternalConst (outNode x (Update_plan
                    \<lparr> set_items =
                        [\<lparr> ui_var_name = v,
                           ui_entity_position = column_position (output_columns pq) v,
                           prop_name = Some p, prop_position = 0, remove_item = True \<rparr>],
                      update_flags = (if \<not> has_next clause
                                      then {CYPHER_CLAUSE_FLAG_TERMINAL} else {}),
                      clause_name = UPDATE_CLAUSE_REMOVE c,
                      update_graph_name = graph_name cpstate \<rparr>))]"
proof -
  from clause_entry_ok[where T = T, OF assms(1,2,5)] obtain tl1 st2 where
    en: "clause_entry x T cpstate pc = Inr (tl1, st2)"
    and pos: "\<forall>v. fst (get_target_entry_resno tl1 v) = column_position (output_columns pq) v"
    and g: "graph_name st2 = graph_name cpstate"
    by blast
  from pos assms(8) have
    "fst (get_target_entry_resno tl1 v) = column_position (output_columns pq) v"
    "column_position (output_columns pq) v \<noteq> - 1"
    by (simp_all add: column_position_found)
  from remove_item_resolved[OF this, of p e]
  show ?thesis
    unfolding transform_cypher_set_entry[OF assms(3,4)]
    using en g assms(6,7) by (simp add: ebind_def makeTargetEntry_def)
qed

lemma remove_unresolved_variable:
  assumes "p_rtable cpstate = []" and "p_next_resno cpstate = 1"
    and "self clause = Self_set s" and "prev clause = Some pc"
    and "T (predecessor_state x cpstate) pc = Inr (pq, stc)"
    and "is_remove s"
    and "items s = [\<lparr> set_prop = property_ref v p, set_expr = e, is_add = False \<rparr>]"
    and "v \<notin> set (output_columns pq)"
  shows "transform_cypher_set c x T cpstate clause =
           Inl (Ereport ERRCODE_INVALID_COLUMN_REFERENCE
                  (''undefined reference to variable '' @ v @ '' in REMOVE clause''))"
proof -
  from clause_entry_ok[where T = T, OF assms(1,2,5)] obtain tl1 st2 where
    en: "clause_entry x T cpstate pc = Inr (tl1, st2)"
    and pos: "\<forall>v. fst (get_target_entry_resno tl1 v) = column_position (output_columns pq) v"
    by blast
  from pos assms(8) have "fst (get_target_entry_resno tl1 v) = - 1"
    using column_position_found[of "output_columns pq" v] by simp
  from remove_item_unresolved[OF this, of p e]
  show ?thesis
    unfolding transform_cypher_set_entry[OF assms(3,4)]
    using en assms(6,7) by (simp add: ebind_def)
qed

lemma set_after_predecessor:
  assumes "p_rtable cpstate = []" and "p_next_resno cpstate = 1"
    and "self clause = Self_set s" and "prev clause = Some pc"
    and "T (predecessor_state x cpstate) pc = Inr (pq, stc)"
    and "\<not> is_remove s"
    and "items s = [\<lparr> set_prop = property_ref v p, set_expr = e, is_add = False \<rparr>]"
    and "v \<in> set (output_columns pq)"
    and "clause_entry x T cpstate pc = Inr (tl1, st2)"
    and "transform_cypher_item x st2 e None EXPR_KIND_SELECT_TARGET None False = Inr (ti, st3)"
  shows "\<exists>q. transform_cypher_set c x T cpstate clause =
               Inr (q, st3\<lparr> p_next_resno := p_next_resno st3 + 1 \<rparr>)
           \<and> expr (last (targetList q)) =
               FuncExpr ''_cypher_set_clause''
                 [InternalConst (outNode x (Update_plan
                    \<lparr> set_items =
                        [\<lparr> ui_var_name = v,
                           ui_entity_position = column_position (output_columns pq) v,
                           prop_name = Some p,
                           prop_position = 1 + int (length (output_columns pq)),
                           remove_item = False \<rparr>],
                      update_flags = (if \<not> has_next clause
                                      then {CYPHER_CLAUSE_FLAG_TERMINAL} else {}),
                      clause_name = UPDATE_CLAUSE_SET c,
                      update_graph_name = graph_name st3 \<rparr>))]"
proof -
  from clause_entry_ok[where T = T, OF assms(1,2,5)] assms(9) have
    pos: "\<forall>v. fst (get_target_entry_resno tl1 v) = column_position (output_columns pq) v"
    and n: "p_next_resno st2 = 1 + int (length (output_columns pq))"
    by auto
  from pos assms(8) have
    "fst (get_target_entry_resno tl1 v) = column_position (output_columns pq) v"
    "column_position (output_columns pq) v \<noteq> - 1"
    by (simp_all add: column_position_found)
  from set_item_resolved[OF this assms(10), of p]
  show ?thesis
    unfolding transform_cypher_set_entry[OF assms(3,4)]
    using assms(6,7,9) n by (simp add: ebind_def makeTargetEntry_def)
qed

lemma set_many_items:
  assumes "self clause = Self_set s" and "length (items s) \<noteq> 1"
  shows "\<exists>err. transform_cypher_set c x T cpstate clause = Inl err"
proof (cases "prev clause")
  case None
  with set_first_clause[OF assms(1)] show ?thesis by blast
next
  case (Some pc)
  show ?thesis
    unfolding transform_cypher_set_entry[OF assms(1) Some]
    using assms(2)
    by (cases "clause_entry x T cpstate pc") (auto simp: ebind_def)
qed

lemma set_many_items_after_predecessor:
  assumes "p_rtable cpstate = []"
    and "self clause = Self_set s" and "prev clause = Some pc"
    and "T (predecessor_state x cpstate) pc = Inr (pq, stc)"
    and "length (items s) \<noteq> 1"
  shows "transform_cypher_set c x T cpstate clause =
           Inl (more_than_one_property
                  (if is_remove s then UPDATE_CLAUSE_REMOVE c else UPDATE_CLAUSE_SET c))"
proof -
  from clause_entry_fresh[where T = T, OF assms(1,4)] obtain tl1 st2 where
    "clause_entry x T cpstate pc = Inr (tl1, st2)" by blast
  then show ?thesis
    unfolding transform_cypher_set_entry[OF assms(2,3)]
    using assms(5) by (simp add: ebind_def)
qed

lemma column_position_nth:
  "column_position cols v \<noteq> - 1 \<Longrightarrow>
     nat (column_position cols v - 1) < length cols
   \<and> cols ! nat (column_position cols v - 1) = v
   \<and> v \<notin> set (take (nat (column_position cols v - 1)) cols)"
proof (induction cols)
  case Nil
  then show ?case by simp
next
  case (Cons col cols)
  show ?case
  proof (cases "col = v")
    case True
    then show ?thesis by simp
  next
    case False
    with Cons.prems have ne: "column_position cols v \<noteq> - 1" by (auto split: if_splits)
    with column_position_range[of cols v] have ge: "1 \<le> column_position cols v" by simp
    then have "nat (column_position cols v + 1 - 1) = Suc (nat (column_position cols v - 1))"
      by simp
    with Cons.IH[OF ne] False ne show ?thesis by simp
  qed
qed

text \<open>The frame of the clauses.\<close>

lemma preserves_columns_intro:
  assumes "extends_columns tl1 tl2" and "map resname tl1 = cols"
    and "map resno tl1 = map (\<lambda>i. int i + 1) [0..<length cols]"
    and "list_all (\<lambda>te. \<not> resjunk te) tl1"
  shows "preserves_columns cols (tl2 @ added)"
proof -
  from assms(2) have len: "length tl1 = length cols" by (metis length_map)
  from assms(1) have le: "length tl1 \<le> length tl2"
    and sc: "same_columns tl1 (take (length tl1) tl2)"
    by (simp_all add: extends_columns_def)
  from le len have tk: "take (length cols) (tl2 @ added) = take (length tl1) tl2" by simp
  from assms(4) have "True \<notin> set (map resjunk tl1)" by (auto simp: list_all_iff)
  with sc have "True \<notin> set (map resjunk (take (length tl1) tl2))"
    by (simp add: same_columns_def)
  then have nj: "\<not> list_ex resjunk (take (length tl1) tl2)"
    by (auto simp: list_ex_iff)
  from sc have m: "map resname (take (length tl1) tl2) = map resname tl1"
    "map resno (take (length tl1) tl2) = map resno tl1"
    by (simp_all add: same_columns_def)
  show ?thesis
    unfolding preserves_columns_def tk using m assms(2,3) nj by simp
qed

lemma delete_frame:
  assumes "p_next_resno cpstate = 1" and "self clause = Self_delete d"
    and "transform_cypher_delete c x T cpstate clause = Inr (q, st)"
  shows "\<exists>pc pq stc. prev clause = Some pc
           \<and> T (predecessor_state x cpstate) pc = Inr (pq, stc)
           \<and> preserves_columns (output_columns pq) (targetList q)
           \<and> length (targetList q) = length (output_columns pq) + 1
           \<and> resname (last (targetList q)) = AGE_VARNAME_DELETE_CLAUSE c"
proof -
  from assms(2,3) obtain pc where pc: "prev clause = Some pc"
    by (cases "prev clause") (auto simp: delete_first_clause)
  from assms(3) obtain tl1 st2 its tl2 tle where
    e: "clause_entry x T cpstate pc = Inr (tl1, st2)"
    and its: "transform_cypher_delete_item_list (exprs d) tl1 = Inr (its, tl2)"
    and q: "targetList q = tl2 @ [tle]" and nm: "resname tle = AGE_VARNAME_DELETE_CLAUSE c"
    unfolding transform_cypher_delete_entry[OF assms(2) pc]
    by (auto dest!: ebind_Inr simp: makeTargetEntry_def)
  from clause_entry_result[OF assms(1) e] obtain pq stc where
    t: "T (predecessor_state x cpstate) pc = Inr (pq, stc)"
    and c1: "map resname tl1 = output_columns pq"
    and c2: "map resno tl1 = map (\<lambda>i. int i + 1) [0..<length (output_columns pq)]"
    and c3: "list_all (\<lambda>te. \<not> resjunk te) tl1"
    by blast
  from delete_items_frame[OF its] have sc: "same_columns tl1 tl2" by simp
  from preserves_columns_intro[OF extends_columns_same[OF sc] c1 c2 c3, of "[tle]"]
  have p: "preserves_columns (output_columns pq) (targetList q)" by (simp add: q)
  from same_columns_length[OF sc] c1 have "length tl2 = length (output_columns pq)"
    by (metis length_map)
  with pc t p q nm show ?thesis by simp
qed

lemma set_frame:
  assumes "p_next_resno cpstate = 1" and "self clause = Self_set s"
    and "transform_cypher_set c x T cpstate clause = Inr (q, st)"
  shows "\<exists>pc pq stc. prev clause = Some pc
           \<and> T (predecessor_state x cpstate) pc = Inr (pq, stc)
           \<and> preserves_columns (output_columns pq) (targetList q)
           \<and> length (targetList q) =
               length (output_columns pq) + (if is_remove s then 1 else 2)
           \<and> resname (last (targetList q)) = AGE_VARNAME_SET_CLAUSE c"
proof -
  from assms(2,3) obtain pc where pc: "prev clause = Some pc"
    by (cases "prev clause") (auto simp: set_first_clause)
  from assms(3) have "\<exists>tl1 st2 its tl2 st3 tle.
      clause_entry x T cpstate pc = Inr (tl1, st2) \<and> length (items s) = 1
    \<and> (if is_remove s
        then transform_cypher_remove_item_list (items s) tl1 = Inr (its, tl2)
        else transform_cypher_set_item_list x st2 (items s) tl1 = Inr (its, tl2, st3))
    \<and> targetList q = tl2 @ [tle] \<and> resname tle = AGE_VARNAME_SET_CLAUSE c"
    unfolding transform_cypher_set_entry[OF assms(2) pc]
    by (cases "is_remove s")
       (auto dest!: ebind_Inr simp: makeTargetEntry_def split: if_splits)
  then obtain tl1 st2 its tl2 st3 tle where
    e: "clause_entry x T cpstate pc = Inr (tl1, st2)"
    and one: "length (items s) = 1"
    and its: "if is_remove s
              then transform_cypher_remove_item_list (items s) tl1 = Inr (its, tl2)
              else transform_cypher_set_item_list x st2 (items s) tl1 = Inr (its, tl2, st3)"
    and q: "targetList q = tl2 @ [tle]" and nm: "resname tle = AGE_VARNAME_SET_CLAUSE c"
    by blast
  from clause_entry_result[OF assms(1) e] obtain pq stc where
    t: "T (predecessor_state x cpstate) pc = Inr (pq, stc)"
    and c1: "map resname tl1 = output_columns pq"
    and c2: "map resno tl1 = map (\<lambda>i. int i + 1) [0..<length (output_columns pq)]"
    and c3: "list_all (\<lambda>te. \<not> resjunk te) tl1"
    by blast
  from c1 have len: "length tl1 = length (output_columns pq)" by (metis length_map)
  have ex: "extends_columns tl1 tl2 \<and> length tl2 = length tl1 + (if is_remove s then 0 else 1)"
  proof (cases "is_remove s")
    case True
    with its have "transform_cypher_remove_item_list (items s) tl1 = Inr (its, tl2)"
      by simp
    from remove_items_frame[OF this] True show ?thesis
      by (auto dest: same_columns_length extends_columns_same)
  next
    case False
    with its have "transform_cypher_set_item_list x st2 (items s) tl1 = Inr (its, tl2, st3)"
      by simp
    from set_items_frame[OF this] one False show ?thesis by simp
  qed
  from preserves_columns_intro[OF _ c1 c2 c3, of tl2 "[tle]"] ex
  have p: "preserves_columns (output_columns pq) (targetList q)" by (simp add: q)
  from pc t p q nm ex len show ?thesis by auto
qed

section \<open>Proofs: the claims on DELETE, SET and REMOVE\<close>

text \<open>The sample chain: \<open>MATCH (a)\<close> returns the column \<open>a\<close>.\<close>

lemma sample_state_fresh: "p_rtable sample_state = []" "p_next_resno sample_state = 1"
  by (simp_all add: sample_state_def)

lemma match_a_columns:
  "map_sum id (\<lambda>(q, st). output_columns q)
     (first_clause_transform (predecessor_state sample_externs sample_state) match_a) =
   Inr [''a'']"
  by code_simp

lemma sample_item:
  "transform_cypher_item sample_externs st e None EXPR_KIND_SELECT_TARGET None False =
     Inr (makeTargetEntry e (p_next_resno st) ''?column?'' False,
          st\<lparr> p_next_resno := p_next_resno st + 1 \<rparr>)"
  by (simp add: sample_externs_def)

text \<open>
  C6.  A DELETE, a SET or a REMOVE with no clause before it fails with
  "DELETE cannot be the first clause in a Cypher query", and the same with
  the name of SET or REMOVE.  With a predecessor that compiles, in a fresh
  parse state, the clause compiles and its plan holds, for each variable it
  names, the position of the first output column of the predecessor with that
  name: DELETE over variables that the predecessor returns, REMOVE and SET of
  one property of such a variable (SET when its value expression compiles).
\<close>

theorem C6_update_clause_needs_predecessor:
  assumes "p_rtable cpstate = []" and "p_next_resno cpstate = 1"
  shows
    "(self clause = Self_delete d \<and> prev clause = None \<longrightarrow>
        transform_cypher_delete c x T cpstate clause =
          Inl (Ereport ERRCODE_FEATURE_NOT_SUPPORTED
                 ''DELETE cannot be the first clause in a Cypher query''))
   \<and> (self clause = Self_set s \<and> prev clause = None \<longrightarrow>
        transform_cypher_set c x T cpstate clause =
          Inl (Ereport ERRCODE_FEATURE_NOT_SUPPORTED
                 ((if is_remove s then UPDATE_CLAUSE_REMOVE c else UPDATE_CLAUSE_SET c)
                  @ '' cannot be the first clause in a Cypher query'')))
   \<and> (self clause = Self_delete d \<and> prev clause = Some pc
        \<and> T (predecessor_state x cpstate) pc = Inr (pq, stc)
        \<and> exprs d = map variable_ref vars \<and> set vars \<subseteq> set (output_columns pq) \<longrightarrow>
        (\<exists>q st. transform_cypher_delete c x T cpstate clause = Inr (q, st)
           \<and> expr (last (targetList q)) =
               FuncExpr (DELETE_CLAUSE_FUNCTION_NAME c)
                 [InternalConst (outNode x (Delete_plan
                    \<lparr> delete_items =
                        map (\<lambda>v. \<lparr> di_var_name = v,
                                   di_entity_position =
                                     T_Integer (column_position (output_columns pq) v) \<rparr>) vars,
                      delete_flags = (if \<not> has_next clause
                                      then {CYPHER_CLAUSE_FLAG_TERMINAL} else {}),
                      delete_graph_name = graph_name cpstate,
                      delete_graph_oid = graph_oid cpstate,
                      delete_detach = detach d \<rparr>))]))
   \<and> (self clause = Self_set s \<and> prev clause = Some pc
        \<and> T (predecessor_state x cpstate) pc = Inr (pq, stc)
        \<and> is_remove s
        \<and> items s = [\<lparr> set_prop = property_ref v p, set_expr = e, is_add = False \<rparr>]
        \<and> v \<in> set (output_columns pq) \<longrightarrow>
        (\<exists>q st. transform_cypher_set c x T cpstate clause = Inr (q, st)
           \<and> expr (last (targetList q)) =
               FuncExpr ''_cypher_set_clause''
                 [InternalConst (outNode x (Update_plan
                    \<lparr> set_items =
                        [\<lparr> ui_var_name = v,
                           ui_entity_position = column_position (output_columns pq) v,
                           prop_name = Some p, prop_position = 0, remove_item = True \<rparr>],
                      update_flags = (if \<not> has_next clause
                                      then {CYPHER_CLAUSE_FLAG_TERMINAL} else {}),
                      clause_name = UPDATE_CLAUSE_REMOVE c,
                      update_graph_name = graph_name cpstate \<rparr>))]))
   \<and> (self clause = Self_set s \<and> prev clause = Some pc
        \<and> T (predecessor_state x cpstate) pc = Inr (pq, stc)
        \<and> \<not> is_remove s
        \<and> items s = [\<lparr> set_prop = property_ref v p, set_expr = e, is_add = False \<rparr>]
        \<and> v \<in> set (output_columns pq)
        \<and> clause_entry x T cpstate pc = Inr (tl1, st2)
        \<and> transform_cypher_item x st2 e None EXPR_KIND_SELECT_TARGET None False =
            Inr (ti, st3) \<longrightarrow>
        (\<exists>q. transform_cypher_set c x T cpstate clause =
               Inr (q, st3\<lparr> p_next_resno := p_next_resno st3 + 1 \<rparr>)
           \<and> expr (last (targetList q)) =
               FuncExpr ''_cypher_set_clause''
                 [InternalConst (outNode x (Update_plan
                    \<lparr> set_items =
                        [\<lparr> ui_var_name = v,
                           ui_entity_position = column_position (output_columns pq) v,
                           prop_name = Some p,
                           prop_position = 1 + int (length (output_columns pq)),
                           remove_item = False \<rparr>],
                      update_flags = (if \<not> has_next clause
                                      then {CYPHER_CLAUSE_FLAG_TERMINAL} else {}),
                      clause_name = UPDATE_CLAUSE_SET c,
                      update_graph_name = graph_name st3 \<rparr>))]))"
proof (intro conjI impI)
  assume "self clause = Self_delete d \<and> prev clause = None"
  then show "transform_cypher_delete c x T cpstate clause =
      Inl (Ereport ERRCODE_FEATURE_NOT_SUPPORTED
             ''DELETE cannot be the first clause in a Cypher query'')"
    by (simp add: delete_first_clause)
next
  assume "self clause = Self_set s \<and> prev clause = None"
  then show "transform_cypher_set c x T cpstate clause =
      Inl (Ereport ERRCODE_FEATURE_NOT_SUPPORTED
             ((if is_remove s then UPDATE_CLAUSE_REMOVE c else UPDATE_CLAUSE_SET c)
              @ '' cannot be the first clause in a Cypher query''))"
    using set_first_clause[of clause s c x T cpstate] by simp
next
  assume h: "self clause = Self_delete d \<and> prev clause = Some pc
        \<and> T (predecessor_state x cpstate) pc = Inr (pq, stc)
        \<and> exprs d = map variable_ref vars \<and> set vars \<subseteq> set (output_columns pq)"
  from delete_after_predecessor[where T = T and c = c, OF assms, of clause d pc x pq stc vars] h
  show "\<exists>q st. transform_cypher_delete c x T cpstate clause = Inr (q, st)
           \<and> expr (last (targetList q)) =
               FuncExpr (DELETE_CLAUSE_FUNCTION_NAME c)
                 [InternalConst (outNode x (Delete_plan
                    \<lparr> delete_items =
                        map (\<lambda>v. \<lparr> di_var_name = v,
                                   di_entity_position =
                                     T_Integer (column_position (output_columns pq) v) \<rparr>) vars,
                      delete_flags = (if \<not> has_next clause
                                      then {CYPHER_CLAUSE_FLAG_TERMINAL} else {}),
                      delete_graph_name = graph_name cpstate,
                      delete_graph_oid = graph_oid cpstate,
                      delete_detach = detach d \<rparr>))]"
    by blast
next
  assume h: "self clause = Self_set s \<and> prev clause = Some pc
        \<and> T (predecessor_state x cpstate) pc = Inr (pq, stc)
        \<and> is_remove s
        \<and> items s = [\<lparr> set_prop = property_ref v p, set_expr = e, is_add = False \<rparr>]
        \<and> v \<in> set (output_columns pq)"
  from remove_after_predecessor[where T = T and c = c, OF assms, of clause s pc x pq stc v p e] h
  show "\<exists>q st. transform_cypher_set c x T cpstate clause = Inr (q, st)
           \<and> expr (last (targetList q)) =
               FuncExpr ''_cypher_set_clause''
                 [InternalConst (outNode x (Update_plan
                    \<lparr> set_items =
                        [\<lparr> ui_var_name = v,
                           ui_entity_position = column_position (output_columns pq) v,
                           prop_name = Some p, prop_position = 0, remove_item = True \<rparr>],
                      update_flags = (if \<not> has_next clause
                                      then {CYPHER_CLAUSE_FLAG_TERMINAL} else {}),
                      clause_name = UPDATE_CLAUSE_REMOVE c,
                      update_graph_name = graph_name cpstate \<rparr>))]"
    by blast
next
  assume h: "self clause = Self_set s \<and> prev clause = Some pc
        \<and> T (predecessor_state x cpstate) pc = Inr (pq, stc)
        \<and> \<not> is_remove s
        \<and> items s = [\<lparr> set_prop = property_ref v p, set_expr = e, is_add = False \<rparr>]
        \<and> v \<in> set (output_columns pq)
        \<and> clause_entry x T cpstate pc = Inr (tl1, st2)
        \<and> transform_cypher_item x st2 e None EXPR_KIND_SELECT_TARGET None False =
            Inr (ti, st3)"
  from set_after_predecessor[where T = T and c = c, OF assms,
      of clause s pc x pq stc v p e tl1 st2 ti st3] h
  show "\<exists>q. transform_cypher_set c x T cpstate clause =
               Inr (q, st3\<lparr> p_next_resno := p_next_resno st3 + 1 \<rparr>)
           \<and> expr (last (targetList q)) =
               FuncExpr ''_cypher_set_clause''
                 [InternalConst (outNode x (Update_plan
                    \<lparr> set_items =
                        [\<lparr> ui_var_name = v,
                           ui_entity_position = column_position (output_columns pq) v,
                           prop_name = Some p,
                           prop_position = 1 + int (length (output_columns pq)),
                           remove_item = False \<rparr>],
                      update_flags = (if \<not> has_next clause
                                      then {CYPHER_CLAUSE_FLAG_TERMINAL} else {}),
                      clause_name = UPDATE_CLAUSE_SET c,
                      update_graph_name = graph_name st3 \<rparr>))]"
    by blast
qed

theorem C6_witness:
  "transform_cypher_delete age_consts sample_externs first_clause_transform sample_state
     (first_clause (Self_delete delete_of_a)) =
     Inl (Ereport ERRCODE_FEATURE_NOT_SUPPORTED
            ''DELETE cannot be the first clause in a Cypher query'')
 \<and> transform_cypher_set age_consts sample_externs first_clause_transform sample_state
     (first_clause (Self_set set_of_a)) =
     Inl (Ereport ERRCODE_FEATURE_NOT_SUPPORTED
            ''SET cannot be the first clause in a Cypher query'')
 \<and> transform_cypher_set age_consts sample_externs first_clause_transform sample_state
     (first_clause (Self_set (remove_of ''a''))) =
     Inl (Ereport ERRCODE_FEATURE_NOT_SUPPORTED
            ''REMOVE cannot be the first clause in a Cypher query'')
 \<and> (\<exists>pq stc.
       first_clause_transform (predecessor_state sample_externs sample_state) match_a =
         Inr (pq, stc)
     \<and> output_columns pq = [''a'']
     \<and> (\<exists>q st.
           transform_cypher_delete age_consts sample_externs first_clause_transform sample_state
             (after_match_a (Self_delete delete_of_a)) = Inr (q, st)
         \<and> expr (last (targetList q)) =
             FuncExpr ''_cypher_delete_clause''
               [InternalConst (outNode sample_externs (Delete_plan
                  \<lparr> delete_items =
                      [\<lparr> di_var_name = ''a'', di_entity_position = T_Integer 1 \<rparr>],
                    delete_flags = {CYPHER_CLAUSE_FLAG_TERMINAL},
                    delete_graph_name = ''g'', delete_graph_oid = 1,
                    delete_detach = False \<rparr>))])
     \<and> (\<exists>q st.
           transform_cypher_set age_consts sample_externs first_clause_transform sample_state
             (after_match_a (Self_set (remove_of ''a''))) = Inr (q, st)
         \<and> expr (last (targetList q)) =
             FuncExpr ''_cypher_set_clause''
               [InternalConst (outNode sample_externs (Update_plan
                  \<lparr> set_items =
                      [\<lparr> ui_var_name = ''a'', ui_entity_position = 1,
                         prop_name = Some ''p'', prop_position = 0, remove_item = True \<rparr>],
                    update_flags = {CYPHER_CLAUSE_FLAG_TERMINAL},
                    clause_name = ''REMOVE'', update_graph_name = ''g'' \<rparr>))])
     \<and> (\<exists>tl1 st2 ti st3 q.
           clause_entry sample_externs first_clause_transform sample_state match_a =
             Inr (tl1, st2)
         \<and> transform_cypher_item sample_externs st2 (A_Const 1) None EXPR_KIND_SELECT_TARGET
             None False = Inr (ti, st3)
         \<and> transform_cypher_set age_consts sample_externs first_clause_transform sample_state
             (after_match_a (Self_set set_of_a)) =
             Inr (q, st3\<lparr> p_next_resno := p_next_resno st3 + 1 \<rparr>)
         \<and> expr (last (targetList q)) =
             FuncExpr ''_cypher_set_clause''
               [InternalConst (outNode sample_externs (Update_plan
                  \<lparr> set_items =
                      [\<lparr> ui_var_name = ''a'', ui_entity_position = 1,
                         prop_name = Some ''p'', prop_position = 2, remove_item = False \<rparr>],
                    update_flags = {CYPHER_CLAUSE_FLAG_TERMINAL},
                    clause_name = ''SET'', update_graph_name = graph_name st3 \<rparr>))]))"
proof -
  note inst = C6_update_clause_needs_predecessor
    [where c = age_consts and x = sample_externs and T = first_clause_transform
       and cpstate = sample_state, OF sample_state_fresh]
  have 1: "transform_cypher_delete age_consts sample_externs first_clause_transform sample_state
      (first_clause (Self_delete delete_of_a)) =
      Inl (Ereport ERRCODE_FEATURE_NOT_SUPPORTED
             ''DELETE cannot be the first clause in a Cypher query'')"
    using inst [where clause = "first_clause (Self_delete delete_of_a)" and d = delete_of_a,
                THEN conjunct1]
    by (simp add: first_clause_def)
  have 2: "transform_cypher_set age_consts sample_externs first_clause_transform sample_state
      (first_clause (Self_set set_of_a)) =
      Inl (Ereport ERRCODE_FEATURE_NOT_SUPPORTED
             ''SET cannot be the first clause in a Cypher query'')"
    using inst [where clause = "first_clause (Self_set set_of_a)" and s = set_of_a,
                THEN conjunct2, THEN conjunct1]
    by (simp add: first_clause_def set_of_a_def age_consts_def)
  have 3: "transform_cypher_set age_consts sample_externs first_clause_transform sample_state
      (first_clause (Self_set (remove_of ''a''))) =
      Inl (Ereport ERRCODE_FEATURE_NOT_SUPPORTED
             ''REMOVE cannot be the first clause in a Cypher query'')"
    using inst [where clause = "first_clause (Self_set (remove_of ''a''))"
                  and s = "remove_of ''a''", THEN conjunct2, THEN conjunct1]
    by (simp add: first_clause_def remove_of_def age_consts_def)
  from match_a_columns obtain pq stc where
    t: "first_clause_transform (predecessor_state sample_externs sample_state) match_a =
          Inr (pq, stc)"
    and cols: "output_columns pq = [''a'']"
    by (cases "first_clause_transform (predecessor_state sample_externs sample_state) match_a")
       auto
  have 4: "\<exists>q st.
      transform_cypher_delete age_consts sample_externs first_clause_transform sample_state
        (after_match_a (Self_delete delete_of_a)) = Inr (q, st)
    \<and> expr (last (targetList q)) =
        FuncExpr ''_cypher_delete_clause''
          [InternalConst (outNode sample_externs (Delete_plan
             \<lparr> delete_items =
                 [\<lparr> di_var_name = ''a'', di_entity_position = T_Integer 1 \<rparr>],
               delete_flags = {CYPHER_CLAUSE_FLAG_TERMINAL},
               delete_graph_name = ''g'', delete_graph_oid = 1,
               delete_detach = False \<rparr>))]"
    using inst [where clause = "after_match_a (Self_delete delete_of_a)" and d = delete_of_a
                  and pc = match_a and pq = pq and stc = stc and vars = "[''a'']",
                THEN conjunct2, THEN conjunct2, THEN conjunct1] t cols
    by (simp add: after_match_a_def delete_of_a_def age_consts_def sample_state_def)
  have 5: "\<exists>q st.
      transform_cypher_set age_consts sample_externs first_clause_transform sample_state
        (after_match_a (Self_set (remove_of ''a''))) = Inr (q, st)
    \<and> expr (last (targetList q)) =
        FuncExpr ''_cypher_set_clause''
          [InternalConst (outNode sample_externs (Update_plan
             \<lparr> set_items =
                 [\<lparr> ui_var_name = ''a'', ui_entity_position = 1,
                    prop_name = Some ''p'', prop_position = 0, remove_item = True \<rparr>],
               update_flags = {CYPHER_CLAUSE_FLAG_TERMINAL},
               clause_name = ''REMOVE'', update_graph_name = ''g'' \<rparr>))]"
    using inst [where clause = "after_match_a (Self_set (remove_of ''a''))"
                  and s = "remove_of ''a''" and pc = match_a and pq = pq and stc = stc
                  and v = "''a''" and p = "''p''" and e = NullConst,
                THEN conjunct2, THEN conjunct2, THEN conjunct2, THEN conjunct1] t cols
    by (simp add: after_match_a_def remove_of_def age_consts_def sample_state_def)
  from clause_entry_fresh[where T = first_clause_transform, OF sample_state_fresh(1) t]
  obtain tl1 st2 where
    en: "clause_entry sample_externs first_clause_transform sample_state match_a = Inr (tl1, st2)"
    by blast
  have 6: "\<exists>tl1 st2 ti st3 q.
      clause_entry sample_externs first_clause_transform sample_state match_a = Inr (tl1, st2)
    \<and> transform_cypher_item sample_externs st2 (A_Const 1) None EXPR_KIND_SELECT_TARGET
        None False = Inr (ti, st3)
    \<and> transform_cypher_set age_consts sample_externs first_clause_transform sample_state
        (after_match_a (Self_set set_of_a)) =
        Inr (q, st3\<lparr> p_next_resno := p_next_resno st3 + 1 \<rparr>)
    \<and> expr (last (targetList q)) =
        FuncExpr ''_cypher_set_clause''
          [InternalConst (outNode sample_externs (Update_plan
             \<lparr> set_items =
                 [\<lparr> ui_var_name = ''a'', ui_entity_position = 1,
                    prop_name = Some ''p'', prop_position = 2, remove_item = False \<rparr>],
               update_flags = {CYPHER_CLAUSE_FLAG_TERMINAL},
               clause_name = ''SET'', update_graph_name = graph_name st3 \<rparr>))]"
    using inst [where clause = "after_match_a (Self_set set_of_a)"
                  and s = set_of_a and pc = match_a and pq = pq and stc = stc
                  and v = "''a''" and p = "''p''" and e = "A_Const 1"
                  and ?tl1.0 = tl1 and ?st2.0 = st2
                  and ti = "makeTargetEntry (A_Const 1) (p_next_resno st2) ''?column?'' False"
                  and ?st3.0 = "st2\<lparr> p_next_resno := p_next_resno st2 + 1 \<rparr>",
                THEN conjunct2, THEN conjunct2, THEN conjunct2, THEN conjunct2] t cols en
      sample_item[of st2 "A_Const 1"]
    by (simp add: after_match_a_def set_of_a_def age_consts_def)
  from 1 2 3 4 5 6 t cols show ?thesis by blast
qed

text \<open>
  C7.  A SET clause with more than one item never compiles; when its
  predecessor compiles, in a fresh parse state, the error is
  "SET clause does not yet support updating more than one property", of the
  class of unsupported features.  A REMOVE of one property \<open>v.p\<close> after a
  predecessor that returns a column named \<open>v\<close> compiles, and the position in
  its plan is that of the first output column of the predecessor whose name
  is exactly \<open>v\<close>; when the predecessor returns no such column the clause
  fails with "undefined reference to variable v in REMOVE clause".
\<close>

theorem C7_set_one_item_remove_by_name:
  assumes "p_rtable cpstate = []" and "p_next_resno cpstate = 1"
    and "self clause = Self_set s"
  shows
    "(1 < length (items s) \<longrightarrow>
        (\<exists>err. transform_cypher_set c x T cpstate clause = Inl err))
   \<and> (1 < length (items s) \<and> prev clause = Some pc
        \<and> T (predecessor_state x cpstate) pc = Inr (pq, stc) \<longrightarrow>
        transform_cypher_set c x T cpstate clause =
          Inl (Ereport ERRCODE_FEATURE_NOT_SUPPORTED
                 ((if is_remove s then UPDATE_CLAUSE_REMOVE c else UPDATE_CLAUSE_SET c)
                  @ '' clause does not yet support updating more than one property'')))
   \<and> (is_remove s
        \<and> items s = [\<lparr> set_prop = property_ref v p, set_expr = e, is_add = False \<rparr>]
        \<and> prev clause = Some pc
        \<and> T (predecessor_state x cpstate) pc = Inr (pq, stc)
        \<and> v \<in> set (output_columns pq) \<longrightarrow>
        (\<exists>q st pos. transform_cypher_set c x T cpstate clause = Inr (q, st)
           \<and> expr (last (targetList q)) =
               FuncExpr ''_cypher_set_clause''
                 [InternalConst (outNode x (Update_plan
                    \<lparr> set_items =
                        [\<lparr> ui_var_name = v, ui_entity_position = int pos + 1,
                           prop_name = Some p, prop_position = 0, remove_item = True \<rparr>],
                      update_flags = (if \<not> has_next clause
                                      then {CYPHER_CLAUSE_FLAG_TERMINAL} else {}),
                      clause_name = UPDATE_CLAUSE_REMOVE c,
                      update_graph_name = graph_name cpstate \<rparr>))]
           \<and> pos < length (output_columns pq)
           \<and> output_columns pq ! pos = v
           \<and> v \<notin> set (take pos (output_columns pq))))
   \<and> (is_remove s
        \<and> items s = [\<lparr> set_prop = property_ref v p, set_expr = e, is_add = False \<rparr>]
        \<and> prev clause = Some pc
        \<and> T (predecessor_state x cpstate) pc = Inr (pq, stc)
        \<and> v \<notin> set (output_columns pq) \<longrightarrow>
        transform_cypher_set c x T cpstate clause =
          Inl (Ereport ERRCODE_INVALID_COLUMN_REFERENCE
                 (''undefined reference to variable '' @ v @ '' in REMOVE clause'')))"
proof (intro conjI impI)
  assume "1 < length (items s)"
  then have "length (items s) \<noteq> 1" by simp
  from set_many_items[OF assms(3) this]
  show "\<exists>err. transform_cypher_set c x T cpstate clause = Inl err" .
next
  assume h: "1 < length (items s) \<and> prev clause = Some pc
        \<and> T (predecessor_state x cpstate) pc = Inr (pq, stc)"
  then have "length (items s) \<noteq> 1" by simp
  with set_many_items_after_predecessor[where T = T and c = c, OF assms(1,3), of pc x pq stc] h
  show "transform_cypher_set c x T cpstate clause =
      Inl (Ereport ERRCODE_FEATURE_NOT_SUPPORTED
             ((if is_remove s then UPDATE_CLAUSE_REMOVE c else UPDATE_CLAUSE_SET c)
              @ '' clause does not yet support updating more than one property''))"
    by (simp add: more_than_one_property_def)
next
  assume h: "is_remove s
        \<and> items s = [\<lparr> set_prop = property_ref v p, set_expr = e, is_add = False \<rparr>]
        \<and> prev clause = Some pc
        \<and> T (predecessor_state x cpstate) pc = Inr (pq, stc)
        \<and> v \<in> set (output_columns pq)"
  let ?cols = "output_columns pq"
  let ?pos = "nat (column_position ?cols v - 1)"
  from h have ne: "column_position ?cols v \<noteq> - 1" by (simp add: column_position_found)
  with column_position_range[of ?cols v] have eq: "int ?pos + 1 = column_position ?cols v"
    by simp
  from remove_after_predecessor[where T = T and c = c, OF assms, of pc x pq stc v p e] h
  obtain q st where
    "transform_cypher_set c x T cpstate clause = Inr (q, st)"
    "expr (last (targetList q)) =
       FuncExpr ''_cypher_set_clause''
         [InternalConst (outNode x (Update_plan
            \<lparr> set_items =
                [\<lparr> ui_var_name = v, ui_entity_position = int ?pos + 1,
                   prop_name = Some p, prop_position = 0, remove_item = True \<rparr>],
              update_flags = (if \<not> has_next clause
                              then {CYPHER_CLAUSE_FLAG_TERMINAL} else {}),
              clause_name = UPDATE_CLAUSE_REMOVE c,
              update_graph_name = graph_name cpstate \<rparr>))]"
    unfolding eq by blast
  with column_position_nth[OF ne]
  show "\<exists>q st pos. transform_cypher_set c x T cpstate clause = Inr (q, st)
           \<and> expr (last (targetList q)) =
               FuncExpr ''_cypher_set_clause''
                 [InternalConst (outNode x (Update_plan
                    \<lparr> set_items =
                        [\<lparr> ui_var_name = v, ui_entity_position = int pos + 1,
                           prop_name = Some p, prop_position = 0, remove_item = True \<rparr>],
                      update_flags = (if \<not> has_next clause
                                      then {CYPHER_CLAUSE_FLAG_TERMINAL} else {}),
                      clause_name = UPDATE_CLAUSE_REMOVE c,
                      update_graph_name = graph_name cpstate \<rparr>))]
           \<and> pos < length (output_columns pq)
           \<and> output_columns pq ! pos = v
           \<and> v \<notin> set (take pos (output_columns pq))"
    by blast
next
  assume h: "is_remove s
        \<and> items s = [\<lparr> set_prop = property_ref v p, set_expr = e, is_add = False \<rparr>]
        \<and> prev clause = Some pc
        \<and> T (predecessor_state x cpstate) pc = Inr (pq, stc)
        \<and> v \<notin> set (output_columns pq)"
  from remove_unresolved_variable[where T = T and c = c, OF assms, of pc x pq stc v p e] h
  show "transform_cypher_set c x T cpstate clause =
      Inl (Ereport ERRCODE_INVALID_COLUMN_REFERENCE
             (''undefined reference to variable '' @ v @ '' in REMOVE clause''))"
    by blast
qed

theorem C7_witness:
  "transform_cypher_set age_consts sample_externs first_clause_transform sample_state
     (after_match_a (Self_set set_of_two)) =
     Inl (Ereport ERRCODE_FEATURE_NOT_SUPPORTED
            ''SET clause does not yet support updating more than one property'')
 \<and> (\<exists>err. transform_cypher_set age_consts sample_externs first_clause_transform sample_state
       (first_clause (Self_set set_of_two)) = Inl err)
 \<and> (\<exists>q st. transform_cypher_set age_consts sample_externs first_clause_transform sample_state
       (after_match_a (Self_set (remove_of ''a''))) = Inr (q, st)
     \<and> expr (last (targetList q)) =
         FuncExpr ''_cypher_set_clause''
           [InternalConst (outNode sample_externs (Update_plan
              \<lparr> set_items =
                  [\<lparr> ui_var_name = ''a'', ui_entity_position = 1,
                     prop_name = Some ''p'', prop_position = 0, remove_item = True \<rparr>],
                update_flags = {CYPHER_CLAUSE_FLAG_TERMINAL},
                clause_name = ''REMOVE'', update_graph_name = ''g'' \<rparr>))])
 \<and> transform_cypher_set age_consts sample_externs first_clause_transform sample_state
     (after_match_a (Self_set (remove_of ''b''))) =
     Inl (Ereport ERRCODE_INVALID_COLUMN_REFERENCE
            ''undefined reference to variable b in REMOVE clause'')"
proof -
  note inst = C7_set_one_item_remove_by_name
    [where c = age_consts and x = sample_externs and T = first_clause_transform
       and cpstate = sample_state, OF sample_state_fresh]
  from match_a_columns obtain pq stc where
    t: "first_clause_transform (predecessor_state sample_externs sample_state) match_a =
          Inr (pq, stc)"
    and cols: "output_columns pq = [''a'']"
    by (cases "first_clause_transform (predecessor_state sample_externs sample_state) match_a")
       auto
  have 1: "transform_cypher_set age_consts sample_externs first_clause_transform sample_state
      (after_match_a (Self_set set_of_two)) =
      Inl (Ereport ERRCODE_FEATURE_NOT_SUPPORTED
             ''SET clause does not yet support updating more than one property'')"
    using inst [where clause = "after_match_a (Self_set set_of_two)" and s = set_of_two
                  and pc = match_a and pq = pq and stc = stc,
                THEN conjunct2, THEN conjunct1] t
    by (simp add: after_match_a_def set_of_two_def age_consts_def)
  have 2: "\<exists>err. transform_cypher_set age_consts sample_externs first_clause_transform
      sample_state (first_clause (Self_set set_of_two)) = Inl err"
    using inst [where clause = "first_clause (Self_set set_of_two)" and s = set_of_two,
                THEN conjunct1]
    by (simp add: first_clause_def set_of_two_def)
  have 3: "\<exists>q st. transform_cypher_set age_consts sample_externs first_clause_transform
        sample_state (after_match_a (Self_set (remove_of ''a''))) = Inr (q, st)
    \<and> expr (last (targetList q)) =
        FuncExpr ''_cypher_set_clause''
          [InternalConst (outNode sample_externs (Update_plan
             \<lparr> set_items =
                 [\<lparr> ui_var_name = ''a'', ui_entity_position = 1,
                    prop_name = Some ''p'', prop_position = 0, remove_item = True \<rparr>],
               update_flags = {CYPHER_CLAUSE_FLAG_TERMINAL},
               clause_name = ''REMOVE'', update_graph_name = ''g'' \<rparr>))]"
    using inst [where clause = "after_match_a (Self_set (remove_of ''a''))"
                  and s = "remove_of ''a''" and pc = match_a and pq = pq and stc = stc
                  and v = "''a''" and p = "''p''" and e = NullConst,
                THEN conjunct2, THEN conjunct2, THEN conjunct1] t cols
    by (auto simp: after_match_a_def remove_of_def age_consts_def sample_state_def)
  have 4: "transform_cypher_set age_consts sample_externs first_clause_transform sample_state
      (after_match_a (Self_set (remove_of ''b''))) =
      Inl (Ereport ERRCODE_INVALID_COLUMN_REFERENCE
             ''undefined reference to variable b in REMOVE clause'')"
    using inst [where clause = "after_match_a (Self_set (remove_of ''b''))"
                  and s = "remove_of ''b''" and pc = match_a and pq = pq and stc = stc
                  and v = "''b''" and p = "''p''" and e = NullConst,
                THEN conjunct2, THEN conjunct2, THEN conjunct2] t cols
    by (simp add: after_match_a_def remove_of_def)
  from 1 2 3 4 show ?thesis by blast
qed

text \<open>
  C10.  When a DELETE, a SET or a REMOVE compiles, in a parse state whose next
  output position is 1, it has a predecessor that compiled, and the first
  columns of its target list are the output columns of the predecessor: the
  same names in the same order, at the positions 1, 2, ... that they have in
  the predecessor's output, none of them junk.  After them come only the
  columns of the clause: nothing for DELETE and REMOVE and the value column
  for SET, and then, last, the column of the serialized plan.
\<close>

theorem C10_update_clause_keeps_columns:
  assumes "p_next_resno cpstate = 1"
  shows
    "(self clause = Self_delete d
        \<and> transform_cypher_delete c x T cpstate clause = Inr (q, st) \<longrightarrow>
        (\<exists>pc pq stc. prev clause = Some pc
           \<and> T (predecessor_state x cpstate) pc = Inr (pq, stc)
           \<and> preserves_columns (output_columns pq) (targetList q)
           \<and> length (targetList q) = length (output_columns pq) + 1
           \<and> resname (last (targetList q)) = AGE_VARNAME_DELETE_CLAUSE c))
   \<and> (self clause = Self_set s
        \<and> transform_cypher_set c x T cpstate clause = Inr (q, st) \<longrightarrow>
        (\<exists>pc pq stc. prev clause = Some pc
           \<and> T (predecessor_state x cpstate) pc = Inr (pq, stc)
           \<and> preserves_columns (output_columns pq) (targetList q)
           \<and> length (targetList q) =
               length (output_columns pq) + (if is_remove s then 1 else 2)
           \<and> resname (last (targetList q)) = AGE_VARNAME_SET_CLAUSE c))"
proof (intro conjI impI)
  assume h: "self clause = Self_delete d
        \<and> transform_cypher_delete c x T cpstate clause = Inr (q, st)"
  from delete_frame[where T = T and c = c, OF assms, of clause d x q st] h
  show "\<exists>pc pq stc. prev clause = Some pc
           \<and> T (predecessor_state x cpstate) pc = Inr (pq, stc)
           \<and> preserves_columns (output_columns pq) (targetList q)
           \<and> length (targetList q) = length (output_columns pq) + 1
           \<and> resname (last (targetList q)) = AGE_VARNAME_DELETE_CLAUSE c"
    by blast
next
  assume h: "self clause = Self_set s
        \<and> transform_cypher_set c x T cpstate clause = Inr (q, st)"
  from set_frame[where T = T and c = c, OF assms, of clause s x q st] h
  show "\<exists>pc pq stc. prev clause = Some pc
           \<and> T (predecessor_state x cpstate) pc = Inr (pq, stc)
           \<and> preserves_columns (output_columns pq) (targetList q)
           \<and> length (targetList q) =
               length (output_columns pq) + (if is_remove s then 1 else 2)
           \<and> resname (last (targetList q)) = AGE_VARNAME_SET_CLAUSE c"
    by blast
qed

lemma delete_a_compiles:
  "map_sum id (\<lambda>(q, st). map resname (targetList q))
     (transform_cypher_delete age_consts sample_externs first_clause_transform sample_state
        (after_match_a (Self_delete delete_of_a))) =
   Inr [''a'', ''_age_default_varname_delete_clause'']"
  by code_simp

lemma set_a_compiles:
  "map_sum id (\<lambda>(q, st). map resname (targetList q))
     (transform_cypher_set age_consts sample_externs first_clause_transform sample_state
        (after_match_a (Self_set set_of_a))) =
   Inr [''a'', ''?column?'', ''_age_default_varname_set_clause'']"
  by code_simp

theorem C10_witness:
  "(\<exists>q st pq stc.
      transform_cypher_delete age_consts sample_externs first_clause_transform sample_state
        (after_match_a (Self_delete delete_of_a)) = Inr (q, st)
    \<and> first_clause_transform (predecessor_state sample_externs sample_state) match_a =
        Inr (pq, stc)
    \<and> map resname (targetList q) = [''a'', ''_age_default_varname_delete_clause'']
    \<and> preserves_columns (output_columns pq) (targetList q)
    \<and> length (targetList q) = length (output_columns pq) + 1
    \<and> resname (last (targetList q)) = ''_age_default_varname_delete_clause'')
 \<and> (\<exists>q st pq stc.
      transform_cypher_set age_consts sample_externs first_clause_transform sample_state
        (after_match_a (Self_set set_of_a)) = Inr (q, st)
    \<and> first_clause_transform (predecessor_state sample_externs sample_state) match_a =
        Inr (pq, stc)
    \<and> map resname (targetList q) = [''a'', ''?column?'', ''_age_default_varname_set_clause'']
    \<and> preserves_columns (output_columns pq) (targetList q)
    \<and> length (targetList q) = length (output_columns pq) + 2
    \<and> resname (last (targetList q)) = ''_age_default_varname_set_clause'')"
proof -
  note inst = C10_update_clause_keeps_columns
    [where c = age_consts and x = sample_externs and T = first_clause_transform
       and cpstate = sample_state, OF sample_state_fresh(2)]
  from delete_a_compiles obtain q st where
    r: "transform_cypher_delete age_consts sample_externs first_clause_transform sample_state
          (after_match_a (Self_delete delete_of_a)) = Inr (q, st)"
    and n: "map resname (targetList q) = [''a'', ''_age_default_varname_delete_clause'']"
    by (cases "transform_cypher_delete age_consts sample_externs first_clause_transform
                 sample_state (after_match_a (Self_delete delete_of_a))") auto
  have 1: "\<exists>q st pq stc.
      transform_cypher_delete age_consts sample_externs first_clause_transform sample_state
        (after_match_a (Self_delete delete_of_a)) = Inr (q, st)
    \<and> first_clause_transform (predecessor_state sample_externs sample_state) match_a =
        Inr (pq, stc)
    \<and> map resname (targetList q) = [''a'', ''_age_default_varname_delete_clause'']
    \<and> preserves_columns (output_columns pq) (targetList q)
    \<and> length (targetList q) = length (output_columns pq) + 1
    \<and> resname (last (targetList q)) = ''_age_default_varname_delete_clause''"
    using inst [where clause = "after_match_a (Self_delete delete_of_a)" and d = delete_of_a
                  and q = q and st = st, THEN conjunct1] r n
    by (auto simp: after_match_a_def AGE_VARNAME_DELETE_CLAUSE_def age_consts_def)
  from set_a_compiles obtain q2 st2 where
    r2: "transform_cypher_set age_consts sample_externs first_clause_transform sample_state
          (after_match_a (Self_set set_of_a)) = Inr (q2, st2)"
    and n2: "map resname (targetList q2) =
          [''a'', ''?column?'', ''_age_default_varname_set_clause'']"
    by (cases "transform_cypher_set age_consts sample_externs first_clause_transform
                 sample_state (after_match_a (Self_set set_of_a))") auto
  have 2: "\<exists>q st pq stc.
      transform_cypher_set age_consts sample_externs first_clause_transform sample_state
        (after_match_a (Self_set set_of_a)) = Inr (q, st)
    \<and> first_clause_transform (predecessor_state sample_externs sample_state) match_a =
        Inr (pq, stc)
    \<and> map resname (targetList q) = [''a'', ''?column?'', ''_age_default_varname_set_clause'']
    \<and> preserves_columns (output_columns pq) (targetList q)
    \<and> length (targetList q) = length (output_columns pq) + 2
    \<and> resname (last (targetList q)) = ''_age_default_varname_set_clause''"
    using inst [where clause = "after_match_a (Self_set set_of_a)" and s = set_of_a
                  and q = q2 and st = st2, THEN conjunct2] r2 n2
    by (auto simp: after_match_a_def AGE_VARNAME_SET_CLAUSE_def age_consts_def set_of_a_def)
  from 1 2 show ?thesis by blast
qed

section \<open>Proofs: a bound vertex in CREATE\<close>

lemma get_target_entry_resno_missing:
  "nm \<notin> set (map resname tl0) \<Longrightarrow> get_target_entry_resno tl0 nm = (- 1, tl0)"
  by (induction tl0) auto

lemma create_existing_vertex:
  assumes "name nd = Some nm" and "find_variable cpstate nm = Some ent"
    and "type ent = ENT_VERTEX" and "props nd = None" and "label nd = None"
  shows "transform_create_cypher_node c x cpstate tl0 nd =
    Inr (\<lparr> tn_type = LABEL_KIND_VERTEX,
           flags = (if declared_in_current_clause ent
                    then {EXISTING_VARAIBLE_DECLARED_SAME_CLAUSE} else {}),
           tn_dir = CYPHER_REL_DIR_NONE,
           label_name = None, variable_name = Some nm,
           tuple_position = fst (get_target_entry_resno tl0 nm),
           relid = 0, id_expr = None, prop_attr_num = 0 \<rparr>,
         nd, snd (get_target_entry_resno tl0 nm), cpstate)"
  using assms
  by (simp add: transform_create_cypher_node_def transform_create_cypher_existing_node_def
        ebind_def split: prod.splits)

lemma with_drops_a:
  "map_sum id (\<lambda>(tl1, st2). (map resname tl1,
      map_option (\<lambda>ent. (type ent, declared_in_current_clause ent)) (find_variable st2 ''a'')))
     (clause_entry sample_externs with_literal_x sample_state with_after_match_a) =
   Inr ([''x''], Some (ENT_VERTEX, False))"
  by code_simp

text \<open>
  C8.  In \<open>MATCH (a) WITH 1 AS x CREATE (a)\<close> the variable \<open>a\<close> is still
  registered, as a vertex of an earlier clause, when CREATE is compiled, and
  the only column that CREATE receives is \<open>x\<close>.  The vertex \<open>(a)\<close> of
  CREATE compiles to an existing node, with no flag, whose position is -1:
  that of no column.
\<close>

theorem C8_existing_vertex_without_column:
  "\<exists>tl1 st2 ent rel nd1 tl2 st3.
      clause_entry sample_externs with_literal_x sample_state with_after_match_a =
        Inr (tl1, st2)
    \<and> map resname tl1 = [''x'']
    \<and> find_variable st2 ''a'' = Some ent \<and> type ent = ENT_VERTEX
    \<and> transform_create_cypher_node age_consts sample_externs st2
         (tl1 @ [makeTargetEntry NullConst (p_next_resno st2)
                   (AGE_VARNAME_CREATE_NULL_VALUE age_consts) False])
         (sample_node ''a'') = Inr (rel, nd1, tl2, st3)
    \<and> flags rel = {} \<and> variable_name rel = Some ''a'' \<and> tuple_position rel = - 1
    \<and> map resname tl2 = [''x'', ''_age_default_varname_create_null_value'']"
proof -
  from with_drops_a obtain tl1 st2 ent where
    e: "clause_entry sample_externs with_literal_x sample_state with_after_match_a =
          Inr (tl1, st2)"
    and cols: "map resname tl1 = [''x'']"
    and f: "find_variable st2 ''a'' = Some ent"
    and t: "type ent = ENT_VERTEX" "\<not> declared_in_current_clause ent"
    by (cases "clause_entry sample_externs with_literal_x sample_state with_after_match_a")
       auto
  let ?tl = "tl1 @ [makeTargetEntry NullConst (p_next_resno st2)
                      (AGE_VARNAME_CREATE_NULL_VALUE age_consts) False]"
  have names: "map resname ?tl = [''x'', ''_age_default_varname_create_null_value'']"
    using cols
    by (simp add: makeTargetEntry_def AGE_VARNAME_CREATE_NULL_VALUE_def age_consts_def)
  then have "''a'' \<notin> set (map resname ?tl)" by simp
  from get_target_entry_resno_missing[OF this]
  have g: "get_target_entry_resno ?tl ''a'' = (- 1, ?tl)" .
  from create_existing_vertex[of "sample_node ''a''" "''a''" st2 ent age_consts sample_externs ?tl]
    f t g
  have "transform_create_cypher_node age_consts sample_externs st2 ?tl (sample_node ''a'') =
    Inr (\<lparr> tn_type = LABEL_KIND_VERTEX, flags = {}, tn_dir = CYPHER_REL_DIR_NONE,
           label_name = None, variable_name = Some ''a'', tuple_position = - 1,
           relid = 0, id_expr = None, prop_attr_num = 0 \<rparr>,
         sample_node ''a'', ?tl, st2)"
    by (simp add: sample_node_def)
  with e cols f t names show ?thesis by auto
qed

section \<open>Proofs: SKIP and LIMIT\<close>

text \<open>
  C9.  When the expression of a SKIP or a LIMIT has been transformed and
  coerced, \<^verbatim>\<open>transform_cypher_limit\<close> fails with
  "argument of SKIP must not contain variables" (or LIMIT) if the result
  holds a reference to a column of the current query, a \<open>Var\<close> of level 0, and
  returns the result, for the offset or limit of the query, if it holds none.
  Without a SKIP or LIMIT there is nothing to compile.
\<close>

theorem C9_limit_must_be_closed:
  assumes "transform_cypher_expr x cpstate n expr_kind = Inr (qual, st1)"
    and "coerce_to_specific_type x st1 qual construct_name = Inr qual1"
  shows
    "(contain_vars_of_level qual1 0 \<longrightarrow>
        transform_cypher_limit x cpstate (Some n) expr_kind construct_name =
          Inl (Ereport ERRCODE_INVALID_COLUMN_REFERENCE
                 (''argument of '' @ construct_name @ '' must not contain variables'')))
   \<and> (\<not> contain_vars_of_level qual1 0 \<longrightarrow>
        transform_cypher_limit x cpstate (Some n) expr_kind construct_name =
          Inr (Some qual1, st1))
   \<and> transform_cypher_limit x cpstate None expr_kind construct_name = Inr (None, cpstate)"
  using assms by (simp add: transform_cypher_limit_def ebind_def)

lemma resolve_a: "visible_column (p_rtable previous_a_state) (p_namespace previous_a_state) ''a'' =
    Some (Var 1 1 0)"
  by code_simp

lemma resolving_expr:
  "transform_cypher_expr resolving_externs cpstate n k = Inr (resolve_columns cpstate n, cpstate)"
  by (simp add: resolving_externs_def)

lemma resolving_coerce: "coerce_to_specific_type resolving_externs cpstate n nm = Inr n"
  by (simp add: resolving_externs_def sample_externs_def)

theorem C9_witness:
  "transform_cypher_limit resolving_externs previous_a_state (Some limit_variable)
     EXPR_KIND_LIMIT ''LIMIT'' =
     Inl (Ereport ERRCODE_INVALID_COLUMN_REFERENCE
            ''argument of LIMIT must not contain variables'')
 \<and> transform_cypher_limit resolving_externs previous_a_state (Some limit_variable_sum)
     EXPR_KIND_OFFSET ''SKIP'' =
     Inl (Ereport ERRCODE_INVALID_COLUMN_REFERENCE
            ''argument of SKIP must not contain variables'')
 \<and> transform_cypher_limit resolving_externs previous_a_state (Some limit_literal)
     EXPR_KIND_LIMIT ''LIMIT'' = Inr (Some (A_Const 5), previous_a_state)
 \<and> transform_cypher_limit resolving_externs previous_a_state (Some limit_sum)
     EXPR_KIND_OFFSET ''SKIP'' =
     Inr (Some (A_Expr AEXPR_OP ''+'' (A_Const 1) (A_Const 2)), previous_a_state)"
proof -
  have 1: "transform_cypher_limit resolving_externs previous_a_state (Some limit_variable)
      EXPR_KIND_LIMIT ''LIMIT'' =
      Inl (Ereport ERRCODE_INVALID_COLUMN_REFERENCE
             ''argument of LIMIT must not contain variables'')"
    using C9_limit_must_be_closed
      [where x = resolving_externs and cpstate = previous_a_state and n = limit_variable
         and expr_kind = EXPR_KIND_LIMIT and construct_name = "''LIMIT''"
         and qual = "Var 1 1 0" and ?st1.0 = previous_a_state and ?qual1.0 = "Var 1 1 0"]
    by (simp add: resolving_expr resolving_coerce limit_variable_def variable_ref_def resolve_a)
  have 2: "transform_cypher_limit resolving_externs previous_a_state (Some limit_variable_sum)
      EXPR_KIND_OFFSET ''SKIP'' =
      Inl (Ereport ERRCODE_INVALID_COLUMN_REFERENCE
             ''argument of SKIP must not contain variables'')"
    using C9_limit_must_be_closed
      [where x = resolving_externs and cpstate = previous_a_state and n = limit_variable_sum
         and expr_kind = EXPR_KIND_OFFSET and construct_name = "''SKIP''"
         and qual = "A_Expr AEXPR_OP ''+'' (Var 1 1 0) (A_Const 1)"
         and ?st1.0 = previous_a_state
         and ?qual1.0 = "A_Expr AEXPR_OP ''+'' (Var 1 1 0) (A_Const 1)"]
    by (simp add: resolving_expr resolving_coerce limit_variable_sum_def variable_ref_def
          resolve_a)
  have 3: "transform_cypher_limit resolving_externs previous_a_state (Some limit_literal)
      EXPR_KIND_LIMIT ''LIMIT'' = Inr (Some (A_Const 5), previous_a_state)"
    using C9_limit_must_be_closed
      [where x = resolving_externs and cpstate = previous_a_state and n = limit_literal
         and expr_kind = EXPR_KIND_LIMIT and construct_name = "''LIMIT''"
         and qual = "A_Const 5" and ?st1.0 = previous_a_state and ?qual1.0 = "A_Const 5"]
    by (simp add: resolving_expr resolving_coerce limit_literal_def)
  have 4: "transform_cypher_limit resolving_externs previous_a_state (Some limit_sum)
      EXPR_KIND_OFFSET ''SKIP'' =
      Inr (Some (A_Expr AEXPR_OP ''+'' (A_Const 1) (A_Const 2)), previous_a_state)"
    using C9_limit_must_be_closed
      [where x = resolving_externs and cpstate = previous_a_state and n = limit_sum
         and expr_kind = EXPR_KIND_OFFSET and construct_name = "''SKIP''"
         and qual = "A_Expr AEXPR_OP ''+'' (A_Const 1) (A_Const 2)"
         and ?st1.0 = previous_a_state
         and ?qual1.0 = "A_Expr AEXPR_OP ''+'' (A_Const 1) (A_Const 2)"]
    by (simp add: resolving_expr resolving_coerce limit_sum_def)
  from 1 2 3 4 show ?thesis by blast
qed

end
